(* ===== verification/Prelude.thy ===== *)
theory Prelude
  imports Complex_Main
begin

text \<open>
  Shared vocabulary of the development. Audio samples of the C code are
  \<open>float\<close>; they are modelled as \<^typ>\<open>real\<close> (ideal arithmetic, no rounding of the
  single-precision operations), and a block of samples as a list of reals.
  The compile-time configuration of \<open>config.h\<close> (block size, sample rate) is a
  record that the block-processing functions take as a parameter. C arrays
  written by index are lists updated through \<open>array_store\<close>, which returns
  \<^const>\<open>None\<close> where the C write would be out of bounds (undefined behaviour),
  so that a theorem that a handler returns \<^const>\<open>Some\<close> is a proof that its writes
  stay in bounds.
\<close>

named_theorems block_simps "evaluation rules of the modelled block operations"
named_theorems inv_simps "unfolding rules of the component invariants"

type_synonym sample = real
type_synonym block = "real list"

text \<open>The constants of \<open>config.h\<close> that the block handlers read.\<close>

record config =
  AUDIO_BLOCKSIZE :: nat
  AUDIO_SAMPLE_RATE :: real

definition cfg_ok :: "config \<Rightarrow> bool" where
  "cfg_ok cfg \<longleftrightarrow> 0 < AUDIO_BLOCKSIZE cfg \<and> 0 < AUDIO_SAMPLE_RATE cfg"

text \<open>A configuration used by the concrete instances (witnesses) of the theorems.\<close>

definition cfg_example :: config where
  "cfg_example = \<lparr>AUDIO_BLOCKSIZE = 512, AUDIO_SAMPLE_RATE = 16000\<rparr>"

text \<open>A C array store \<open>a[i] = v\<close> with its bounds written out.\<close>

definition array_store :: "'a list \<Rightarrow> int \<Rightarrow> 'a \<Rightarrow> 'a list option" where
  "array_store xs i v = (if 0 \<le> i \<and> nat i < length xs then Some (xs[nat i := v]) else None)"

lemma cfg_example_ok: "cfg_ok cfg_example"
  by (simp add: cfg_ok_def cfg_example_def)

lemma array_store_Some [simp]:
  "0 \<le> i \<Longrightarrow> nat i < length xs \<Longrightarrow> array_store xs i v = Some (xs[nat i := v])"
  by (simp add: array_store_def)

lemma array_store_None [simp]:
  "i < 0 \<or> length xs \<le> nat i \<Longrightarrow> array_store xs i v = None"
  by (auto simp: array_store_def)

lemma array_store_length:
  "array_store xs i v = Some ys \<Longrightarrow> length ys = length xs"
  by (auto simp: array_store_def split: if_splits)

subsection \<open>Generic facts on lists and sums\<close>

lemma sum_list_map_upt_sum:
  "(\<Sum>k\<leftarrow>[0..<n]. f k) = (\<Sum>k<n. f k)"
  by (simp add: sum_list_distinct_conv_sum_set atLeast0LessThan)

text \<open>A sum over taps in which all but two coefficients vanish.\<close>

lemma sum_two_nonzero:
  fixes f :: "nat \<Rightarrow> real"
  assumes "a < n" "b < n" "a \<noteq> b" "\<And>k. k < n \<Longrightarrow> k \<noteq> a \<Longrightarrow> k \<noteq> b \<Longrightarrow> f k = 0"
  shows "(\<Sum>k<n. f k) = f a + f b"
proof -
  have "(\<Sum>k<n. f k) = (\<Sum>k\<in>{a, b}. f k)"
    using assms by (intro sum.mono_neutral_right) auto
  then show ?thesis using assms(3) by simp
qed

lemma nth_list_update_cases:
  "i < length xs \<Longrightarrow> xs[j := v] ! i = (if i = j then v else xs ! i)"
  by simp

end
