(* ===== verification/Numerics.thy ===== *)
theory Numerics
  imports Prelude
begin

text \<open>
  The external numerics the handlers of \<open>example.c\<close> call: the CMSIS-DSP vector
  functions (\<open>arm_scale_f32\<close>, \<open>arm_add_f32\<close>, \<open>arm_mult_f32\<close>, \<open>arm_abs_f32\<close>,
  \<open>arm_fill_f32\<close>, \<open>arm_fir_f32\<close>), C's \<open>round\<close> and \<open>vector_mean\<close> of
  \<open>util.h\<close>. Their code is not part of the repository's sources; each is
  modelled from its documented contract, on real-valued samples. The FIR filter
  follows the CMSIS convention that the source's comment relies on
  (coefficients stored time-reversed, a history of the previous \<open>numTaps - 1\<close>
  samples kept between calls).
\<close>

definition arm_scale_f32 :: "block \<Rightarrow> real \<Rightarrow> block" where
  "arm_scale_f32 src scale = map (\<lambda>x. x * scale) src"

definition arm_add_f32 :: "block \<Rightarrow> block \<Rightarrow> block" where
  "arm_add_f32 a b = map2 (+) a b"

definition arm_mult_f32 :: "block \<Rightarrow> block \<Rightarrow> block" where
  "arm_mult_f32 a b = map2 (*) a b"

definition arm_abs_f32 :: "block \<Rightarrow> block" where
  "arm_abs_f32 src = map abs src"

definition arm_fill_f32 :: "real \<Rightarrow> nat \<Rightarrow> block" where
  "arm_fill_f32 v n = replicate n v"

definition vector_mean :: "block \<Rightarrow> real" where
  "vector_mean xs = sum_list xs / real (length xs)"

text \<open>
  C99 \<open>round\<close>: nearest integer, halfway cases away from zero (unlike HOL's
  \<^const>\<open>round\<close>, which rounds halfway cases up).
\<close>

definition c_round :: "real \<Rightarrow> real" where
  "c_round x = (if x < 0 then - of_int \<lfloor>- x + 1/2\<rfloor> else of_int \<lfloor>x + 1/2\<rfloor>)"

text \<open>
  \<open>arm_fir_f32 coeffs state src\<close>: with \<open>w = state @ src\<close> (the history of
  \<open>numTaps - 1\<close> samples followed by the new block), output sample \<open>i\<close> is
  \<open>\<Sum>k. coeffs[k] * w[i + k]\<close>, and the new history is the last
  \<open>numTaps - 1\<close> samples of \<open>w\<close>.
\<close>

definition arm_fir_f32 :: "real list \<Rightarrow> real list \<Rightarrow> block \<Rightarrow> block \<times> real list" where
  "arm_fir_f32 coeffs st src =
     (let w = st @ src
      in (map (\<lambda>i. \<Sum>k\<leftarrow>[0..<length coeffs]. coeffs ! k * w ! (i + k)) [0..<length src],
          drop (length src) w))"

text \<open>\<open>M_SQRT1_2\<close> of \<open>math.h\<close>.\<close>

definition M_SQRT1_2 :: real where
  "M_SQRT1_2 = sqrt (1/2)"

text \<open>
  The tone generators \<open>blocks_gen_sin\<close> and \<open>blocks_gen_cos\<close>: \<open>n\<close> samples
  of a sinusoid of frequency \<open>f\<close> and initial phase \<open>ph\<close> at the configured
  sample rate.
\<close>

definition blocks_gen_sin :: "config \<Rightarrow> real \<Rightarrow> real \<Rightarrow> nat \<Rightarrow> block" where
  "blocks_gen_sin cfg f ph n = map (\<lambda>k. sin (2 * pi * f * real k / AUDIO_SAMPLE_RATE cfg + ph)) [0..<n]"

definition blocks_gen_cos :: "config \<Rightarrow> real \<Rightarrow> real \<Rightarrow> nat \<Rightarrow> block" where
  "blocks_gen_cos cfg f ph n = map (\<lambda>k. cos (2 * pi * f * real k / AUDIO_SAMPLE_RATE cfg + ph)) [0..<n]"

text \<open>
  The timer services of \<open>systime.h\<close> on a microsecond clock: a deadline
  \<open>systime_get_delay d\<close> read at time \<open>now\<close> is \<open>now + d\<close>, and it has passed
  at \<open>now\<close> once \<open>now\<close> has reached it. \<open>S2US\<close> converts seconds.
\<close>

definition systime_get_delay :: "nat \<Rightarrow> nat \<Rightarrow> nat" where
  "systime_get_delay d now = now + d"

definition systime_get_delay_passed :: "nat \<Rightarrow> nat \<Rightarrow> bool" where
  "systime_get_delay_passed t now \<longleftrightarrow> t \<le> now"

definition S2US :: "real \<Rightarrow> nat" where
  "S2US x = nat \<lfloor>x * 1000000\<rfloor>"

definition AUDIO_BLOCKTIME_s :: "config \<Rightarrow> real" where
  "AUDIO_BLOCKTIME_s cfg = real (AUDIO_BLOCKSIZE cfg) / AUDIO_SAMPLE_RATE cfg"

text \<open>\<open>IS_INTEGER x\<close> of \<open>util.h\<close>: \<open>x\<close> has no fractional part.\<close>

definition IS_INTEGER :: "real \<Rightarrow> bool" where
  "IS_INTEGER x \<longleftrightarrow> x = real_of_int \<lfloor>x\<rfloor>"

text \<open>A C array read \<open>a[i]\<close> with its bounds written out.\<close>

definition array_load :: "'a list \<Rightarrow> int \<Rightarrow> 'a option" where
  "array_load xs i = (if 0 \<le> i \<and> nat i < length xs then Some (xs ! nat i) else None)"

lemmas numerics_defs [block_simps] =
  arm_scale_f32_def arm_add_f32_def arm_mult_f32_def arm_abs_f32_def arm_fill_f32_def

subsection \<open>Facts on C rounding\<close>

lemma c_round_of_int [simp]: "c_round (of_int k) = of_int k"
proof (cases "k < 0")
  case True
  have "\<lfloor>- real_of_int k + 1/2\<rfloor> = - k"
    by (intro floor_unique) auto
  with True show ?thesis by (simp add: c_round_def)
next
  case False
  have "\<lfloor>real_of_int k + 1/2\<rfloor> = k"
    by (intro floor_unique) auto
  with False show ?thesis by (simp add: c_round_def)
qed

lemma c_round_is_int: "\<exists>k. c_round x = of_int k"
  by (auto simp: c_round_def intro: exI [of _ "- _"])

lemma c_round_idem [simp]: "c_round (c_round x) = c_round x"
  using c_round_is_int [of x] by auto

lemma c_round_error: "\<bar>c_round x - x\<bar> \<le> 1/2"
proof (cases "x < 0")
  case True
  have "- x + 1/2 < of_int \<lfloor>- x + 1/2\<rfloor> + 1" "of_int \<lfloor>- x + 1/2\<rfloor> \<le> - x + 1/2"
    by simp_all
  moreover have "c_round x = - of_int \<lfloor>- x + 1/2\<rfloor>"
    using True by (simp add: c_round_def)
  ultimately show ?thesis unfolding abs_le_iff by linarith
next
  case False
  have "x + 1/2 < of_int \<lfloor>x + 1/2\<rfloor> + 1" "of_int \<lfloor>x + 1/2\<rfloor> \<le> x + 1/2"
    by simp_all
  moreover have "c_round x = of_int \<lfloor>x + 1/2\<rfloor>"
    using False by (simp add: c_round_def)
  ultimately show ?thesis unfolding abs_le_iff by linarith
qed

lemma floor_half_range:
  "0 \<le> y \<Longrightarrow> y \<le> 1 \<Longrightarrow> \<lfloor>y + 1/2 :: real\<rfloor> \<in> {0, 1}"
proof -
  assume "0 \<le> y" "y \<le> 1"
  define k where "k = \<lfloor>y + 1/2\<rfloor>"
  have "0 \<le> k" "k \<le> 1"
    unfolding k_def using \<open>0 \<le> y\<close> \<open>y \<le> 1\<close> by (simp_all add: floor_le_iff)
  then have "k = 0 \<or> k = 1" by linarith
  then show ?thesis unfolding k_def [symmetric] by blast
qed

lemma c_round_unit_range:
  "- 1 \<le> x \<Longrightarrow> x \<le> 1 \<Longrightarrow> c_round x \<in> {- 1, 0, 1}"
  using floor_half_range [of x] floor_half_range [of "- x"]
  unfolding c_round_def by (auto split: if_splits)

lemma M_SQRT1_2_pos: "0 < M_SQRT1_2"
  by (simp add: M_SQRT1_2_def)

lemma array_load_Some [simp]:
  "0 \<le> i \<Longrightarrow> nat i < length xs \<Longrightarrow> array_load xs i = Some (xs ! nat i)"
  by (simp add: array_load_def)

lemma fir_length [simp]:
  "length (fst (arm_fir_f32 c st src)) = length src"
  "length (snd (arm_fir_f32 c st src)) = length st"
  by (simp_all add: arm_fir_f32_def Let_def)

subsection \<open>Facts on the tone generators\<close>

lemma cos_add_2pi_int [simp]: "cos (x + 2 * pi * real_of_int n) = cos x"
  by (simp add: cos_add cos_int_2pin sin_int_2pin)

lemma sin_add_2pi_int [simp]: "sin (x + 2 * pi * real_of_int n) = sin x"
  by (simp add: sin_add cos_int_2pin sin_int_2pin)

lemma tone_blocks_periodic:
  fixes g :: "real \<Rightarrow> real"
  assumes g: "\<And>x n. g (x + 2 * pi * real_of_int n) = g x"
    and z: "real N * f / fs = real_of_int z"
  shows "map (\<lambda>k. g (2 * pi * f * real k / fs + ph)) [0..<m * N]
         = concat (replicate m (map (\<lambda>k. g (2 * pi * f * real k / fs + ph)) [0..<N]))"
proof (induction m)
  case 0
  then show ?case by simp
next
  case (Suc m)
  have shift: "g (2 * pi * f * (real k + real m * real N) / fs + ph) = g (2 * pi * f * real k / fs + ph)" for k
  proof -
    have "2 * pi * f * (real k + real m * real N) / fs = 2 * pi * f * real k / fs + 2 * pi * real m * (real N * f / fs)"
      by (simp add: algebra_simps add_divide_distrib)
    also have "\<dots> = 2 * pi * f * real k / fs + 2 * pi * real_of_int (int m * z)"
      using z by simp
    finally have "2 * pi * f * (real k + real m * real N) / fs + ph
          = (2 * pi * f * real k / fs + ph) + 2 * pi * real_of_int (int m * z)" by simp
    then show ?thesis by (simp only: g)
  qed
  have u: "[0..<Suc m * N] = [0..<m * N] @ map (\<lambda>k. k + m * N) [0..<N]"
  proof -
    have "[0..<m * N + N] = [0..<m * N] @ [m * N..<m * N + N]"
      by (rule upt_add_eq_append) simp
    then show ?thesis by (simp add: map_add_upt add.commute)
  qed
  have r: "concat (replicate (Suc m) b) = concat (replicate m b) @ b" for b :: "real list"
    by (induction m) simp_all
  show ?case
    unfolding u r by (simp add: Suc.IH shift comp_def)
qed

end
