(* ===== verification/Effects.thy ===== *)
theory Effects
  imports Numerics
begin

text \<open>
  The \<open>SYSMODE_TEST2\<close> effects processor of \<open>example.c\<close> (lines 36--232): the
  globals of the mode as a record, the push-button handler, the keyboard command
  handler, the three effect engines (time-varying FIR flanger, swept ring
  modulator, bit-crusher) and the block handler \<open>example_test2\<close> that composes
  them. Undefined behaviour of the C code (an array store out of bounds, a shift
  \<open>1 << n\<close> by a negative or too large amount) is the value \<^const>\<open>None\<close>.
\<close>

section \<open>Constants and state\<close>

definition BITCRUSH_MAXDEPTH :: int where "BITCRUSH_MAXDEPTH = 5"
definition BITCRUSH_MINDEPTH :: int where "BITCRUSH_MINDEPTH = 1"
definition FLANGER_TAPS :: nat where "FLANGER_TAPS = 256"
definition RING_MOD_CARRIER_CENTER :: real where "RING_MOD_CARRIER_CENTER = 750"
definition RING_MOD_CARRIER_WIDTH :: real where "RING_MOD_CARRIER_WIDTH = 1000"
definition RING_MOD_CARRIER_SWEEPTIME :: real where "RING_MOD_CARRIER_SWEEPTIME = 10"

definition RING_MOD_CARRIER_DELTA :: "config \<Rightarrow> real" where
  "RING_MOD_CARRIER_DELTA cfg =
     2 * RING_MOD_CARRIER_WIDTH * real (AUDIO_BLOCKSIZE cfg)
       / (RING_MOD_CARRIER_SWEEPTIME * AUDIO_SAMPLE_RATE cfg)"

lemmas test2_consts [simp] =
  BITCRUSH_MAXDEPTH_def BITCRUSH_MINDEPTH_def FLANGER_TAPS_def
  RING_MOD_CARRIER_CENTER_def RING_MOD_CARRIER_WIDTH_def RING_MOD_CARRIER_SWEEPTIME_def

datatype test2_effect_e =
  test2_effect_none | test2_effect_flanger | test2_effect_ringmod | test2_effect_bitcrush

text \<open>
  The globals of the mode. \<open>flanger_state\<close> is the part of the FIR state buffer
  that survives between calls (the last \<open>FLANGER_TAPS - 1\<close> input samples);
  \<open>trig_freq\<close> is the frequency last given to \<open>blocks_sources_trig_setfreq\<close>.
\<close>

record test2_state =
  curr_effect :: test2_effect_e
  audio_src_mic :: bool
  bitcrush_depth :: int
  flanger_coeffs :: "real list"
  flanger_state :: "real list"
  flanger_delay_idx :: int
  flanger_neg :: bool
  ring_mod_carrier :: real
  ring_mod_carrier_pos :: bool
  trig_freq :: real

text \<open>The diagnostic lines the mode prints.\<close>

datatype test2_msg =
  Msg_source_microphone | Msg_source_waveform | Msg_invalid_key
  | Msg_effect test2_effect_e | Msg_bitcrush_depth int

text \<open>Initial values of the globals, after \<open>example_test2_init\<close>.\<close>

definition example_test2_init :: test2_state where
  "example_test2_init =
     \<lparr>curr_effect = test2_effect_none, audio_src_mic = True,
      bitcrush_depth = BITCRUSH_MAXDEPTH,
      flanger_coeffs = replicate (FLANGER_TAPS - 1) 0 @ [1/2],
      flanger_state = replicate (FLANGER_TAPS - 1) 0,
      flanger_delay_idx = int FLANGER_TAPS - 2, flanger_neg = True,
      ring_mod_carrier = RING_MOD_CARRIER_CENTER, ring_mod_carrier_pos = False,
      trig_freq = RING_MOD_CARRIER_CENTER\<rparr>"

section \<open>Event handlers\<close>

definition example_test2_btnpress :: "test2_state \<Rightarrow> test2_state \<times> test2_msg list" where
  "example_test2_btnpress s =
     (let s' = s\<lparr>audio_src_mic := \<not> audio_src_mic s\<rparr>
      in (s', [if audio_src_mic s' then Msg_source_microphone else Msg_source_waveform]))"

definition test2_key :: "test2_state \<Rightarrow> char \<Rightarrow> test2_state \<times> test2_msg list" where
  "test2_key s key =
     (if key = CHR ''n'' then
        (s\<lparr>curr_effect := test2_effect_none\<rparr>, [Msg_effect test2_effect_none])
      else if key = CHR ''f'' then
        (s\<lparr>curr_effect := test2_effect_flanger\<rparr>, [Msg_effect test2_effect_flanger])
      else if key = CHR ''r'' then
        (s\<lparr>curr_effect := test2_effect_ringmod\<rparr>, [Msg_effect test2_effect_ringmod])
      else if key = CHR ''b'' then
        (s\<lparr>curr_effect := test2_effect_bitcrush\<rparr>, [Msg_effect test2_effect_bitcrush])
      else if key = CHR ''+'' then
        (let d = (if bitcrush_depth s < BITCRUSH_MAXDEPTH then bitcrush_depth s + 1
                  else bitcrush_depth s)
         in (s\<lparr>bitcrush_depth := d\<rparr>, [Msg_bitcrush_depth d]))
      else if key = CHR ''-'' then
        (let d = (if bitcrush_depth s > BITCRUSH_MINDEPTH then bitcrush_depth s - 1
                  else bitcrush_depth s)
         in (s\<lparr>bitcrush_depth := d\<rparr>, [Msg_bitcrush_depth d]))
      else (s, [Msg_invalid_key]))"

section \<open>Effect engines\<close>

subsection \<open>Flanger\<close>

text \<open>The index update of lines 168--177: move by one, turn at the ends.\<close>

definition flanger_sweep :: "int \<times> bool \<Rightarrow> int \<times> bool" where
  "flanger_sweep p =
     (case p of (idx, neg) \<Rightarrow>
        if neg then (let i = idx - 1 in (i, \<not> i \<le> 0))
        else (let i = idx + 1 in (i, i \<ge> int FLANGER_TAPS - 2)))"

text \<open>Lines 164--180: filter, clear the old tap, move, set the new tap.\<close>

definition flanger_block :: "test2_state \<Rightarrow> block \<Rightarrow> (block \<times> test2_state) option" where
  "flanger_block s inp =
     (let (out, st') = arm_fir_f32 (flanger_coeffs s) (flanger_state s) inp
      in case array_store (flanger_coeffs s) (flanger_delay_idx s) 0 of
           None \<Rightarrow> None
         | Some c1 \<Rightarrow>
             (let (idx', neg') = flanger_sweep (flanger_delay_idx s, flanger_neg s)
              in case array_store c1 idx' (1/2) of
                   None \<Rightarrow> None
                 | Some c2 \<Rightarrow> Some (out, s\<lparr>flanger_coeffs := c2, flanger_state := st',
                                          flanger_delay_idx := idx', flanger_neg := neg'\<rparr>)))"

subsection \<open>Ring modulator\<close>

text \<open>The carrier update of lines 191--201.\<close>

definition ring_mod_sweep :: "config \<Rightarrow> real \<times> bool \<Rightarrow> real \<times> bool" where
  "ring_mod_sweep cfg p =
     (case p of (c, pos) \<Rightarrow>
        if pos then
          (let c' = c + RING_MOD_CARRIER_DELTA cfg
           in (c', \<not> c' > RING_MOD_CARRIER_CENTER + 1/2 * RING_MOD_CARRIER_WIDTH))
        else
          (let c' = c - RING_MOD_CARRIER_DELTA cfg
           in (c', c' < RING_MOD_CARRIER_CENTER - 1/2 * RING_MOD_CARRIER_WIDTH)))"

text \<open>
  Lines 186--202: \<open>sin_samples\<close> is the block \<open>blocks_sources_sin\<close> delivers
  from the generator tuned to \<open>trig_freq\<close>.
\<close>

definition ringmod_block :: "config \<Rightarrow> test2_state \<Rightarrow> block \<Rightarrow> block \<Rightarrow> block \<times> test2_state" where
  "ringmod_block cfg s inp sin_samples =
     (let out = arm_mult_f32 inp sin_samples;
          (c', pos') = ring_mod_sweep cfg (ring_mod_carrier s, ring_mod_carrier_pos s)
      in (out, s\<lparr>ring_mod_carrier := c', ring_mod_carrier_pos := pos', trig_freq := c'\<rparr>))"

subsection \<open>Bit-crusher\<close>

text \<open>C's \<open>1 << n\<close> on a 32-bit \<open>int\<close>: defined for \<open>0 \<le> n \<le> 30\<close> only.\<close>

definition c_shl1 :: "int \<Rightarrow> int option" where
  "c_shl1 n = (if 0 \<le> n \<and> n \<le> 30 then Some (2 ^ nat n) else None)"

definition bitcrush_block :: "int \<Rightarrow> block \<Rightarrow> block option" where
  "bitcrush_block depth inp =
     (case c_shl1 (depth - 1) of
        None \<Rightarrow> None
      | Some m \<Rightarrow>
          (let scaled_sig = map c_round (arm_scale_f32 inp (of_int m))
           in Some (arm_scale_f32 scaled_sig (1 / of_int m))))"

section \<open>The block handler\<close>

text \<open>
  \<open>example_test2 cfg s mic wave sin key\<close>: one call of the handler, given the
  blocks the microphone, the waveform generator and the sine generator deliver
  and the character \<open>board_get_usart_char\<close> returns, if any. The result is the
  new state, the left and right output blocks and the printed lines.
\<close>

definition example_test2 ::
  "config \<Rightarrow> test2_state \<Rightarrow> block \<Rightarrow> block \<Rightarrow> block \<Rightarrow> char option
   \<Rightarrow> (test2_state \<times> block \<times> block \<times> test2_msg list) option" where
  "example_test2 cfg s mic wave sin_samples key =
     (let inpdata = (if audio_src_mic s then mic else wave);
          (s1, msgs) = (case key of None \<Rightarrow> (s, []) | Some k \<Rightarrow> test2_key s k);
          res = (case curr_effect s1 of
                   test2_effect_none \<Rightarrow> Some (inpdata, s1)
                 | test2_effect_flanger \<Rightarrow> flanger_block s1 inpdata
                 | test2_effect_ringmod \<Rightarrow> Some (ringmod_block cfg s1 inpdata sin_samples)
                 | test2_effect_bitcrush \<Rightarrow>
                     map_option (\<lambda>out. (out, s1)) (bitcrush_block (bitcrush_depth s1) inpdata))
      in map_option (\<lambda>(out, s2). (s2, out, out, msgs)) res)"


section \<open>Invariants and abstractions\<close>

text \<open>The flanger sweep seen as a counter modulo \<open>FLANGER_PERIOD\<close>.\<close>

definition FLANGER_PERIOD :: nat where
  "FLANGER_PERIOD = 2 * (FLANGER_TAPS - 2)"

definition flanger_sweep_inv :: "int \<times> bool \<Rightarrow> bool" where
  "flanger_sweep_inv p =
     (case p of (i, neg) \<Rightarrow>
        if neg then 1 \<le> i \<and> i \<le> int FLANGER_TAPS - 2 else 0 \<le> i \<and> i \<le> int FLANGER_TAPS - 3)"

definition flanger_of_phase :: "nat \<Rightarrow> int \<times> bool" where
  "flanger_of_phase t =
     (if t < FLANGER_TAPS - 2 then (int (FLANGER_TAPS - 2) - int t, True)
      else (int t - int (FLANGER_TAPS - 2), False))"

definition flanger_phase :: "int \<times> bool \<Rightarrow> nat" where
  "flanger_phase p =
     (case p of (i, neg) \<Rightarrow>
        if neg then nat (int (FLANGER_TAPS - 2) - i) else nat (int (FLANGER_TAPS - 2) + i))"

definition flanger_base :: "real list" where
  "flanger_base = replicate (FLANGER_TAPS - 1) 0 @ [1/2]"

definition flanger_inv :: "test2_state \<Rightarrow> bool" where
  "flanger_inv s \<longleftrightarrow>
     (flanger_coeffs s = flanger_base
      \<or> flanger_coeffs s = flanger_base[nat (flanger_delay_idx s) := 1/2])
     \<and> length (flanger_state s) = FLANGER_TAPS - 1
     \<and> flanger_sweep_inv (flanger_delay_idx s, flanger_neg s)"

definition ringmod_inv :: "config \<Rightarrow> real \<times> bool \<Rightarrow> bool" where
  "ringmod_inv cfg p =
     (case p of (c, pos) \<Rightarrow>
        let d = RING_MOD_CARRIER_DELTA cfg;
            lo = RING_MOD_CARRIER_CENTER - 1/2 * RING_MOD_CARRIER_WIDTH;
            hi = RING_MOD_CARRIER_CENTER + 1/2 * RING_MOD_CARRIER_WIDTH
        in lo - d \<le> c \<and> c \<le> hi + d \<and> (pos \<longrightarrow> c \<le> hi) \<and> (\<not> pos \<longrightarrow> lo \<le> c))"

definition test2_inv :: "config \<Rightarrow> test2_state \<Rightarrow> bool" where
  "test2_inv cfg s \<longleftrightarrow>
     BITCRUSH_MINDEPTH \<le> bitcrush_depth s \<and> bitcrush_depth s \<le> BITCRUSH_MAXDEPTH
     \<and> flanger_inv s
     \<and> ringmod_inv cfg (ring_mod_carrier s, ring_mod_carrier_pos s)
     \<and> trig_freq s = ring_mod_carrier s"

text \<open>States reachable from the initial state by button presses and block calls, in any order.\<close>

inductive test2_reachable :: "config \<Rightarrow> test2_state \<Rightarrow> bool" for cfg where
  init: "test2_reachable cfg example_test2_init"
| btnpress: "test2_reachable cfg s \<Longrightarrow> test2_reachable cfg (fst (example_test2_btnpress s))"
| block: "test2_reachable cfg s \<Longrightarrow> example_test2 cfg s mic wave sin_samples key = Some (s', l, r, msgs)
          \<Longrightarrow> test2_reachable cfg s'"

section \<open>Lemmas\<close>

subsection \<open>Bit-crusher\<close>

lemma c_shl1_Some: "0 \<le> n \<Longrightarrow> n \<le> 30 \<Longrightarrow> c_shl1 n = Some (2 ^ nat n)"
  by (simp add: c_shl1_def)

lemma c_shl1_SomeD: "c_shl1 n = Some m \<Longrightarrow> m = 2 ^ nat n \<and> 0 \<le> n \<and> n \<le> 30"
  by (simp add: c_shl1_def split: if_splits)

lemma bitcrush_block_eq:
  assumes "1 \<le> d" "d \<le> 31"
  shows "bitcrush_block d inp =
           Some (map (\<lambda>x. c_round (x * 2 ^ nat (d - 1)) / 2 ^ nat (d - 1)) inp)"
  using assms by (simp add: bitcrush_block_def c_shl1_def arm_scale_f32_def)

lemma bitcrush_block_SomeD:
  "bitcrush_block d inp = Some out \<Longrightarrow>
     \<exists>m. c_shl1 (d - 1) = Some m \<and> out = map (\<lambda>x. c_round (x * of_int m) / of_int m) inp"
  by (auto simp: bitcrush_block_def arm_scale_f32_def split: option.splits)

lemma bitcrush_quant_error:
  fixes r x m :: real
  assumes "0 < m" "\<bar>r - x * m\<bar> \<le> 1/2"
  shows "\<bar>r / m - x\<bar> \<le> 1 / (2 * m)"
proof -
  have "r / m - x = (r - x * m) / m" using assms(1) by (simp add: diff_divide_distrib)
  then have "\<bar>r / m - x\<bar> = \<bar>r - x * m\<bar> / m" using assms(1) by simp
  also have "\<dots> \<le> (1/2) / m" using assms by (intro divide_right_mono) auto
  finally show ?thesis by simp
qed

subsection \<open>Flanger sweep\<close>

lemma flanger_of_phase_inv: "t < FLANGER_PERIOD \<Longrightarrow> flanger_sweep_inv (flanger_of_phase t)"
  by (auto simp: flanger_of_phase_def flanger_sweep_inv_def FLANGER_PERIOD_def)

lemma flanger_phase_of_phase: "t < FLANGER_PERIOD \<Longrightarrow> flanger_phase (flanger_of_phase t) = t"
  by (auto simp: flanger_of_phase_def flanger_phase_def FLANGER_PERIOD_def)

lemma flanger_of_phase_phase:
  "flanger_sweep_inv p \<Longrightarrow> flanger_of_phase (flanger_phase p) = p"
  by (auto simp: flanger_of_phase_def flanger_phase_def flanger_sweep_inv_def split: prod.splits)

lemma flanger_phase_bound: "flanger_sweep_inv p \<Longrightarrow> flanger_phase p < FLANGER_PERIOD"
  by (auto simp: flanger_phase_def flanger_sweep_inv_def FLANGER_PERIOD_def split: prod.splits)

lemma flanger_sweep_of_phase:
  "t < FLANGER_PERIOD \<Longrightarrow> flanger_sweep (flanger_of_phase t) = flanger_of_phase (Suc t mod FLANGER_PERIOD)"
  by (auto simp: flanger_sweep_def flanger_of_phase_def FLANGER_PERIOD_def Let_def mod_if)

lemma flanger_sweep_funpow:
  "t < FLANGER_PERIOD \<Longrightarrow>
     (flanger_sweep ^^ k) (flanger_of_phase t) = flanger_of_phase ((t + k) mod FLANGER_PERIOD)"
proof (induction k)
  case 0
  then show ?case by simp
next
  case (Suc k)
  have "(t + k) mod FLANGER_PERIOD < FLANGER_PERIOD" by (simp add: FLANGER_PERIOD_def)
  then have "flanger_sweep (flanger_of_phase ((t + k) mod FLANGER_PERIOD))
             = flanger_of_phase (Suc ((t + k) mod FLANGER_PERIOD) mod FLANGER_PERIOD)"
    by (rule flanger_sweep_of_phase)
  with Suc show ?case by (simp add: mod_Suc_eq)
qed

lemma flanger_sweep_inv_step: "flanger_sweep_inv p \<Longrightarrow> flanger_sweep_inv (flanger_sweep p)"
  by (auto simp: flanger_sweep_inv_def flanger_sweep_def Let_def split: prod.splits)

lemma flanger_sweep_inv_range:
  "flanger_sweep_inv (i, neg) \<Longrightarrow> 0 \<le> i \<and> nat i < FLANGER_TAPS - 1"
  by (auto simp: flanger_sweep_inv_def split: if_splits)

lemma flanger_base_length [simp]: "length flanger_base = FLANGER_TAPS"
  by (simp add: flanger_base_def)

lemma flanger_base_nth:
  "j < FLANGER_TAPS \<Longrightarrow> flanger_base ! j = (if j = FLANGER_TAPS - 1 then 1/2 else 0)"
  by (simp add: flanger_base_def nth_append)

lemma flanger_clear_tap:
  assumes "j < FLANGER_TAPS - 1" "c = flanger_base \<or> c = flanger_base[j := 1/2]"
  shows "c[j := 0] = flanger_base"
proof -
  have "flanger_base ! j = 0" using assms(1) by (simp add: flanger_base_nth)
  then have "flanger_base[j := 0] = flanger_base" by (metis list_update_id)
  with assms(2) show ?thesis by auto
qed

lemma flanger_block_eq:
  assumes "flanger_inv s"
  shows "flanger_block s inp =
           Some (fst (arm_fir_f32 (flanger_coeffs s) (flanger_state s) inp),
                 s\<lparr>flanger_coeffs := flanger_base[nat (fst (flanger_sweep (flanger_delay_idx s, flanger_neg s))) := 1/2],
                   flanger_state := snd (arm_fir_f32 (flanger_coeffs s) (flanger_state s) inp),
                   flanger_delay_idx := fst (flanger_sweep (flanger_delay_idx s, flanger_neg s)),
                   flanger_neg := snd (flanger_sweep (flanger_delay_idx s, flanger_neg s))\<rparr>)"
proof -
  obtain i neg where p: "(flanger_delay_idx s, flanger_neg s) = (i, neg)" by fastforce
  obtain i' neg' where p': "flanger_sweep (i, neg) = (i', neg')" by fastforce
  have inv: "flanger_sweep_inv (i, neg)" using assms p by (simp add: flanger_inv_def)
  then have i: "0 \<le> i" "nat i < FLANGER_TAPS - 1" by (auto dest: flanger_sweep_inv_range)
  have "flanger_sweep_inv (i', neg')" using flanger_sweep_inv_step [OF inv] p' by simp
  then have i': "0 \<le> i'" "nat i' < FLANGER_TAPS - 1" by (auto dest: flanger_sweep_inv_range)
  have coeffs: "flanger_coeffs s = flanger_base \<or> flanger_coeffs s = flanger_base[nat i := 1/2]"
    using assms p by (simp add: flanger_inv_def)
  have len: "length (flanger_coeffs s) = FLANGER_TAPS" using coeffs by auto
  have clear: "(flanger_coeffs s)[nat i := 0] = flanger_base"
    using flanger_clear_tap [OF i(2) coeffs] .
  show ?thesis
    using p p' i i' len clear
    by (simp add: flanger_block_def Let_def case_prod_beta)
qed

lemma flanger_block_inv:
  "flanger_inv s \<Longrightarrow> flanger_block s inp = Some (out, s') \<Longrightarrow> flanger_inv s'"
  using flanger_sweep_inv_step [of "(flanger_delay_idx s, flanger_neg s)"]
  by (auto simp: flanger_block_eq flanger_inv_def)

lemma flanger_inv_init: "flanger_inv example_test2_init"
  by (simp add: example_test2_init_def flanger_inv_def flanger_base_def flanger_sweep_inv_def)

lemma flanger_coeffs_nth:
  assumes "flanger_inv s" "k < FLANGER_TAPS" "k \<noteq> nat (flanger_delay_idx s)" "k \<noteq> FLANGER_TAPS - 1"
  shows "flanger_coeffs s ! k = 0"
  using assms by (auto simp: flanger_inv_def flanger_base_nth nth_list_update)

subsection \<open>Ring modulator\<close>

lemma ring_delta_pos: "cfg_ok cfg \<Longrightarrow> 0 < RING_MOD_CARRIER_DELTA cfg"
  by (simp add: cfg_ok_def RING_MOD_CARRIER_DELTA_def)

lemma ring_mod_sweep_inv:
  "0 \<le> RING_MOD_CARRIER_DELTA cfg \<Longrightarrow> ringmod_inv cfg p \<Longrightarrow> ringmod_inv cfg (ring_mod_sweep cfg p)"
  by (auto simp: ringmod_inv_def ring_mod_sweep_def Let_def split: prod.splits)

lemma ring_mod_sweep_up:
  assumes "0 < RING_MOD_CARRIER_DELTA cfg" "1250 < c + real n * RING_MOD_CARRIER_DELTA cfg"
  shows "\<exists>m c'. (ring_mod_sweep cfg ^^ m) (c, True) = (c', False) \<and> 1250 < c'"
  using assms(2)
proof (induction n arbitrary: c)
  case 0
  then have "ring_mod_sweep cfg (c, True) = (c + RING_MOD_CARRIER_DELTA cfg, False)"
    using assms(1) by (simp add: ring_mod_sweep_def)
  then show ?case using 0 assms(1) by (intro exI [of _ "1::nat"]) auto
next
  case (Suc n)
  show ?case
  proof (cases "1250 < c + RING_MOD_CARRIER_DELTA cfg")
    case True
    then have "ring_mod_sweep cfg (c, True) = (c + RING_MOD_CARRIER_DELTA cfg, False)"
      by (simp add: ring_mod_sweep_def)
    then show ?thesis using True by (intro exI [of _ "1::nat"]) auto
  next
    case False
    then have step: "ring_mod_sweep cfg (c, True) = (c + RING_MOD_CARRIER_DELTA cfg, True)"
      by (simp add: ring_mod_sweep_def)
    from Suc.prems have "1250 < (c + RING_MOD_CARRIER_DELTA cfg) + real n * RING_MOD_CARRIER_DELTA cfg"
      by (simp add: algebra_simps)
    then obtain m c' where "(ring_mod_sweep cfg ^^ m) (c + RING_MOD_CARRIER_DELTA cfg, True) = (c', False)"
      and "1250 < c'" using Suc.IH by blast
    moreover from this(1) have "(ring_mod_sweep cfg ^^ Suc m) (c, True) = (c', False)"
      by (simp only: funpow_Suc_right comp_apply step)
    ultimately show ?thesis by blast
  qed
qed

lemma ring_mod_sweep_down:
  assumes "0 < RING_MOD_CARRIER_DELTA cfg" "c - real n * RING_MOD_CARRIER_DELTA cfg < 250"
  shows "\<exists>m c'. (ring_mod_sweep cfg ^^ m) (c, False) = (c', True) \<and> c' < 250"
  using assms(2)
proof (induction n arbitrary: c)
  case 0
  then have "ring_mod_sweep cfg (c, False) = (c - RING_MOD_CARRIER_DELTA cfg, True)"
    using assms(1) by (simp add: ring_mod_sweep_def)
  then show ?case using 0 assms(1) by (intro exI [of _ "1::nat"]) auto
next
  case (Suc n)
  show ?case
  proof (cases "c - RING_MOD_CARRIER_DELTA cfg < 250")
    case True
    then have "ring_mod_sweep cfg (c, False) = (c - RING_MOD_CARRIER_DELTA cfg, True)"
      by (simp add: ring_mod_sweep_def)
    then show ?thesis using True by (intro exI [of _ "1::nat"]) auto
  next
    case False
    then have step: "ring_mod_sweep cfg (c, False) = (c - RING_MOD_CARRIER_DELTA cfg, False)"
      by (simp add: ring_mod_sweep_def)
    from Suc.prems have "(c - RING_MOD_CARRIER_DELTA cfg) - real n * RING_MOD_CARRIER_DELTA cfg < 250"
      by (simp add: algebra_simps)
    then obtain m c' where "(ring_mod_sweep cfg ^^ m) (c - RING_MOD_CARRIER_DELTA cfg, False) = (c', True)"
      and "c' < 250" using Suc.IH by blast
    moreover from this(1) have "(ring_mod_sweep cfg ^^ Suc m) (c, False) = (c', True)"
      by (simp only: funpow_Suc_right comp_apply step)
    ultimately show ?thesis by blast
  qed
qed

subsection \<open>The block handler\<close>

lemma test2_key_frame [simp]:
  "audio_src_mic (fst (test2_key s k)) = audio_src_mic s"
  "flanger_coeffs (fst (test2_key s k)) = flanger_coeffs s"
  "flanger_state (fst (test2_key s k)) = flanger_state s"
  "flanger_delay_idx (fst (test2_key s k)) = flanger_delay_idx s"
  "flanger_neg (fst (test2_key s k)) = flanger_neg s"
  "ring_mod_carrier (fst (test2_key s k)) = ring_mod_carrier s"
  "ring_mod_carrier_pos (fst (test2_key s k)) = ring_mod_carrier_pos s"
  "trig_freq (fst (test2_key s k)) = trig_freq s"
  by (simp_all add: test2_key_def Let_def)

lemma test2_key_depth:
  "BITCRUSH_MINDEPTH \<le> bitcrush_depth s \<Longrightarrow> bitcrush_depth s \<le> BITCRUSH_MAXDEPTH \<Longrightarrow>
   BITCRUSH_MINDEPTH \<le> bitcrush_depth (fst (test2_key s k))
   \<and> bitcrush_depth (fst (test2_key s k)) \<le> BITCRUSH_MAXDEPTH"
  by (simp add: test2_key_def Let_def)

lemma flanger_inv_frame:
  "flanger_inv (s\<lparr>curr_effect := e, bitcrush_depth := d\<rparr>) = flanger_inv s"
  "flanger_inv (s\<lparr>audio_src_mic := b\<rparr>) = flanger_inv s"
  "flanger_inv (s\<lparr>ring_mod_carrier := c, ring_mod_carrier_pos := p, trig_freq := f\<rparr>) = flanger_inv s"
  by (simp_all add: flanger_inv_def)

lemma test2_key_inv: "test2_inv cfg s \<Longrightarrow> test2_inv cfg (fst (test2_key s k))"
  using test2_key_depth [of s k] by (simp add: test2_inv_def flanger_inv_def)

lemma test2_btnpress_inv: "test2_inv cfg s \<Longrightarrow> test2_inv cfg (fst (example_test2_btnpress s))"
  by (simp add: test2_inv_def example_test2_btnpress_def Let_def flanger_inv_frame)

lemma test2_init_inv: "cfg_ok cfg \<Longrightarrow> test2_inv cfg example_test2_init"
  using ring_delta_pos [of cfg]
  by (simp add: test2_inv_def example_test2_init_def flanger_inv_def flanger_base_def
      flanger_sweep_inv_def ringmod_inv_def)

lemma bitcrush_block_depth_ok:
  "BITCRUSH_MINDEPTH \<le> d \<Longrightarrow> d \<le> BITCRUSH_MAXDEPTH \<Longrightarrow> \<exists>out. bitcrush_block d inp = Some out"
  by (simp add: bitcrush_block_eq)

lemma ringmod_block_inv:
  assumes "cfg_ok cfg" "test2_inv cfg s"
  shows "test2_inv cfg (snd (ringmod_block cfg s inp sn))"
proof -
  have "ringmod_inv cfg (ring_mod_sweep cfg (ring_mod_carrier s, ring_mod_carrier_pos s))"
    using assms ring_delta_pos [of cfg] ring_mod_sweep_inv by (auto simp: test2_inv_def)
  then show ?thesis
    using assms(2) by (simp add: test2_inv_def ringmod_block_def case_prod_beta flanger_inv_frame)
qed

lemma flanger_block_frame:
  assumes "flanger_inv s" "flanger_block s inp = Some (out, s')"
  shows "curr_effect s' = curr_effect s" "bitcrush_depth s' = bitcrush_depth s"
    "ring_mod_carrier s' = ring_mod_carrier s" "ring_mod_carrier_pos s' = ring_mod_carrier_pos s"
    "trig_freq s' = trig_freq s"
  using assms by (auto simp: flanger_block_eq)

lemma test2_step_inv:
  assumes "cfg_ok cfg" "test2_inv cfg s"
  shows "\<exists>s' out msgs. example_test2 cfg s mic wave sn key = Some (s', out, out, msgs)
                \<and> test2_inv cfg s'"
proof -
  obtain s1 msgs where key: "(case key of None \<Rightarrow> (s, []) | Some k \<Rightarrow> test2_key s k) = (s1, msgs)"
    by fastforce
  have inv1: "test2_inv cfg s1"
    using assms(2) key test2_key_inv [of cfg s] by (cases key) (auto, metis fst_conv)
  let ?inp = "if audio_src_mic s then mic else wave"
  have unfold: "example_test2 cfg s mic wave sn key =
     map_option (\<lambda>(out, s2). (s2, out, out, msgs))
       (case curr_effect s1 of
          test2_effect_none \<Rightarrow> Some (?inp, s1)
        | test2_effect_flanger \<Rightarrow> flanger_block s1 ?inp
        | test2_effect_ringmod \<Rightarrow> Some (ringmod_block cfg s1 ?inp sn)
        | test2_effect_bitcrush \<Rightarrow>
            map_option (\<lambda>out. (out, s1)) (bitcrush_block (bitcrush_depth s1) ?inp))"
    unfolding example_test2_def Let_def key by simp
  show ?thesis
  proof (cases "curr_effect s1")
    case test2_effect_none
    then show ?thesis using inv1 unfold by simp
  next
    case test2_effect_flanger
    have f: "flanger_inv s1" using inv1 by (simp add: test2_inv_def)
    obtain out s2 where b: "flanger_block s1 ?inp = Some (out, s2)"
      using flanger_block_eq [OF f] by fastforce
    have "test2_inv cfg s2"
      using inv1 flanger_block_inv [OF f b] flanger_block_frame [OF f b] by (simp add: test2_inv_def)
    then show ?thesis using test2_effect_flanger unfold b by simp
  next
    case test2_effect_ringmod
    then show ?thesis using unfold ringmod_block_inv [OF assms(1) inv1]
      by (simp add: case_prod_beta)
  next
    case test2_effect_bitcrush
    then show ?thesis using unfold inv1 bitcrush_block_depth_ok [of "bitcrush_depth s1" ?inp]
      by (auto simp: test2_inv_def)
  qed
qed

lemma test2_reachable_inv:
  assumes "cfg_ok cfg" "test2_reachable cfg s"
  shows "test2_inv cfg s"
  using assms(2)
proof (induction rule: test2_reachable.induct)
  case init
  then show ?case using assms(1) by (rule test2_init_inv)
next
  case (btnpress s)
  then show ?case using test2_btnpress_inv by blast
next
  case (block s mic wave sin_samples key s' l r msgs)
  then show ?case using test2_step_inv [OF assms(1), of s mic wave sin_samples key] by auto
qed

lemma length_flanger_block:
  "flanger_block s inp = Some (out, s') \<Longrightarrow> length out = length inp"
  by (auto simp: flanger_block_def arm_fir_f32_def Let_def split: option.splits prod.splits)

lemma example_test2_lengths:
  assumes "example_test2 cfg s mic wave sn key = Some (s', l, r, msgs)"
    "length mic = AUDIO_BLOCKSIZE cfg" "length wave = AUDIO_BLOCKSIZE cfg" "length sn = AUDIO_BLOCKSIZE cfg"
  shows "length l = AUDIO_BLOCKSIZE cfg \<and> length r = AUDIO_BLOCKSIZE cfg"
  using assms
  by (auto simp: example_test2_def ringmod_block_def bitcrush_block_def arm_mult_f32_def arm_scale_f32_def
      Let_def length_flanger_block split: option.splits prod.splits test2_effect_e.splits if_splits)

section \<open>Properties of the effects processor\<close>

text \<open>C1. No call of the block handler from a reachable state has undefined behaviour: every array store of the flanger stays in bounds and the bit-crusher's shift \<open>1 << (depth - 1)\<close> is in range, for every input blocks and every key.\<close>

theorem test2_no_undefined_behaviour:
  "cfg_ok cfg \<Longrightarrow> test2_reachable cfg s \<Longrightarrow> \<exists>r. example_test2 cfg s mic wave sn key = Some r"
  using test2_step_inv test2_reachable_inv by blast

theorem test2_no_undefined_behaviour_witness:
  "cfg_ok cfg_example \<and> test2_reachable cfg_example example_test2_init
   \<and> (\<exists>r. example_test2 cfg_example example_test2_init [1/2] [1/4] [1] (Some CHR ''f'') = Some r)"
  using test2_no_undefined_behaviour [OF cfg_example_ok test2_reachable.init] cfg_example_ok
    test2_reachable.init by blast

text \<open>C2. In every reachable state the bit-crusher depth lies in [1, 5], the flanger tap index in [0, FLANGER_TAPS - 2], the ring-modulator carrier within the band [250, 1250] widened by one sweep step, and the sine generator is tuned to the carrier.\<close>

theorem test2_reachable_bounds:
  assumes "cfg_ok cfg" "test2_reachable cfg s"
  shows "BITCRUSH_MINDEPTH \<le> bitcrush_depth s \<and> bitcrush_depth s \<le> BITCRUSH_MAXDEPTH
       \<and> 0 \<le> flanger_delay_idx s \<and> flanger_delay_idx s \<le> int FLANGER_TAPS - 2
       \<and> RING_MOD_CARRIER_CENTER - 1/2 * RING_MOD_CARRIER_WIDTH - RING_MOD_CARRIER_DELTA cfg \<le> ring_mod_carrier s
       \<and> ring_mod_carrier s \<le> RING_MOD_CARRIER_CENTER + 1/2 * RING_MOD_CARRIER_WIDTH + RING_MOD_CARRIER_DELTA cfg
       \<and> trig_freq s = ring_mod_carrier s"
proof -
  have "test2_inv cfg s" using assms by (rule test2_reachable_inv)
  then show ?thesis
    by (auto simp: test2_inv_def flanger_inv_def ringmod_inv_def flanger_sweep_inv_def Let_def
        split: if_splits)
qed

theorem test2_reachable_bounds_witness:
  "bitcrush_depth example_test2_init = 5 \<and> ring_mod_carrier example_test2_init = 750"
  using test2_reachable_bounds [OF cfg_example_ok test2_reachable.init]
  by (simp add: example_test2_init_def)

text \<open>C3. After a flanger block the coefficient vector has exactly two non-zero taps, the fixed direct-path tap at FLANGER_TAPS - 1 and the swept tap, which never coincide.\<close>

theorem flanger_block_two_taps:
  assumes "flanger_inv s" "flanger_block s inp = Some (out, s')"
  shows "{j. j < FLANGER_TAPS \<and> flanger_coeffs s' ! j \<noteq> 0}
           = {nat (flanger_delay_idx s'), FLANGER_TAPS - 1}
         \<and> nat (flanger_delay_idx s') \<noteq> FLANGER_TAPS - 1"
proof -
  have s': "flanger_inv s'" using assms by (rule flanger_block_inv)
  then have i: "nat (flanger_delay_idx s') < FLANGER_TAPS - 1"
    by (auto simp: flanger_inv_def dest: flanger_sweep_inv_range)
  have c: "flanger_coeffs s' = flanger_base[nat (flanger_delay_idx s') := 1/2]"
    using assms by (auto simp: flanger_block_eq)
  show ?thesis
    using i by (auto simp: c flanger_base_nth nth_list_update split: if_splits)
qed

theorem flanger_block_two_taps_witness:
  "\<exists>out s'. flanger_inv example_test2_init \<and> flanger_block example_test2_init [1] = Some (out, s')
     \<and> {j. j < FLANGER_TAPS \<and> flanger_coeffs s' ! j \<noteq> 0} = {253, 255}"
proof -
  have i: "flanger_inv example_test2_init" by (rule flanger_inv_init)
  obtain out s' where b: "flanger_block example_test2_init [1] = Some (out, s')"
    using flanger_block_eq [OF i] by fastforce
  have "flanger_delay_idx s' = 253"
    using b flanger_block_eq [OF i, of "[1]"]
    by (auto simp: flanger_sweep_def example_test2_init_def)
  then show ?thesis using flanger_block_two_taps [OF i b] i b by auto
qed

text \<open>C4. The ring-modulator carrier does not stay within [center - width/2, center + width/2]: the direction is reversed only after the bound has been crossed, so from the initial carrier the sweep reaches values below 250 Hz and above 1250 Hz.\<close>

theorem ring_mod_carrier_leaves_band:
  assumes "cfg_ok cfg"
  shows "\<exists>m1 m2. fst ((ring_mod_sweep cfg ^^ m1) (RING_MOD_CARRIER_CENTER, False)) < 250
              \<and> 1250 < fst ((ring_mod_sweep cfg ^^ m2) (RING_MOD_CARRIER_CENTER, False))"
proof -
  let ?d = "RING_MOD_CARRIER_DELTA cfg"
  have d: "0 < ?d" using assms by (rule ring_delta_pos)
  obtain n1 :: nat where "750 - 250 < real n1 * ?d"
    using reals_Archimedean3 [OF d] by blast
  then have "750 - real n1 * ?d < 250" by simp
  then obtain m1 c1 where m1: "(ring_mod_sweep cfg ^^ m1) (750, False) = (c1, True)" "c1 < 250"
    using ring_mod_sweep_down [OF d] by blast
  obtain n2 :: nat where "1250 - c1 < real n2 * ?d"
    using reals_Archimedean3 [OF d] by blast
  then have "1250 < c1 + real n2 * ?d" by simp
  then obtain m2 c2 where m2: "(ring_mod_sweep cfg ^^ m2) (c1, True) = (c2, False)" "1250 < c2"
    using ring_mod_sweep_up [OF d] by blast
  have "(ring_mod_sweep cfg ^^ (m2 + m1)) (750, False) = (c2, False)"
    using m1 m2 by (simp add: funpow_add)
  then show ?thesis using m1 m2 by (intro exI [of _ m1] exI [of _ "m2 + m1"]) simp
qed

theorem ring_mod_carrier_leaves_band_witness:
  "cfg_ok cfg_example \<and>
   (\<exists>m1 m2. fst ((ring_mod_sweep cfg_example ^^ m1) (RING_MOD_CARRIER_CENTER, False)) < 250
          \<and> 1250 < fst ((ring_mod_sweep cfg_example ^^ m2) (RING_MOD_CARRIER_CENTER, False)))"
  using ring_mod_carrier_leaves_band [OF cfg_example_ok] cfg_example_ok by blast

text \<open>C5. The flanger tap index sweep is periodic: from every state satisfying the sweep invariant, 2 * (FLANGER_TAPS - 2) updates return to the same index and direction.\<close>

theorem flanger_sweep_period:
  assumes "flanger_sweep_inv p"
  shows "(flanger_sweep ^^ FLANGER_PERIOD) p = p"
proof -
  let ?t = "flanger_phase p"
  have t: "?t < FLANGER_PERIOD" using assms by (rule flanger_phase_bound)
  have "(flanger_sweep ^^ FLANGER_PERIOD) (flanger_of_phase ?t) = flanger_of_phase ?t"
    using flanger_sweep_funpow [OF t, of FLANGER_PERIOD] t by simp
  then show ?thesis using flanger_of_phase_phase [OF assms] by simp
qed

theorem flanger_sweep_period_witness:
  "flanger_sweep_inv (1, True) \<and> (flanger_sweep ^^ FLANGER_PERIOD) (1, True) = (1, True)"
proof -
  have "flanger_sweep_inv (1, True)" by (simp add: flanger_sweep_inv_def)
  then show ?thesis using flanger_sweep_period [of "(1, True)"] by simp
qed

text \<open>C6. The flanger sweep refines a counter modulo 2 * (FLANGER_TAPS - 2): the phase of the updated index and direction is the successor of the phase of the old ones.\<close>

theorem flanger_phase_refinement:
  assumes "flanger_sweep_inv p"
  shows "flanger_phase (flanger_sweep p) = Suc (flanger_phase p) mod FLANGER_PERIOD"
proof -
  let ?t = "flanger_phase p"
  have t: "?t < FLANGER_PERIOD" using assms by (rule flanger_phase_bound)
  have "flanger_sweep p = flanger_of_phase (Suc ?t mod FLANGER_PERIOD)"
    using flanger_sweep_of_phase [OF t] flanger_of_phase_phase [OF assms] by simp
  moreover have "Suc ?t mod FLANGER_PERIOD < FLANGER_PERIOD" using t by simp
  ultimately show ?thesis by (simp add: flanger_phase_of_phase)
qed

theorem flanger_phase_refinement_witness:
  "flanger_sweep_inv (1, True) \<and> flanger_phase (flanger_sweep (1, True)) = 254"
proof -
  have i: "flanger_sweep_inv (1, True)" by (simp add: flanger_sweep_inv_def)
  have "flanger_phase (1, True) = 253" by (simp add: flanger_phase_def)
  then show ?thesis using i flanger_phase_refinement [OF i] by (simp add: FLANGER_PERIOD_def)
qed

text \<open>C7. Each flanger output sample is half the input sample plus the current swept tap times the input delayed by FLANGER_TAPS - 1 - idx samples (read from the filter history joined with the block).\<close>

theorem flanger_block_output:
  assumes "flanger_inv s" "flanger_block s inp = Some (out, s')" "i < length inp"
  shows "out ! i = 1/2 * inp ! i
                   + flanger_coeffs s ! nat (flanger_delay_idx s)
                     * (flanger_state s @ inp) ! (i + nat (flanger_delay_idx s))"
proof -
  let ?c = "flanger_coeffs s" and ?w = "flanger_state s @ inp" and ?d = "nat (flanger_delay_idx s)"
  have d: "?d < FLANGER_TAPS - 1"
    using assms(1) by (auto simp: flanger_inv_def dest: flanger_sweep_inv_range)
  have len: "length ?c = FLANGER_TAPS" "length (flanger_state s) = FLANGER_TAPS - 1"
    using assms(1) by (auto simp: flanger_inv_def)
  have last: "?c ! (FLANGER_TAPS - 1) = 1/2"
    using assms(1) d by (auto simp: flanger_inv_def flanger_base_nth nth_list_update)
  have "out = fst (arm_fir_f32 ?c (flanger_state s) inp)"
    using assms(1,2) by (simp add: flanger_block_eq)
  then have "out ! i = (\<Sum>k<FLANGER_TAPS. ?c ! k * ?w ! (i + k))"
    using assms(3) len by (simp add: arm_fir_f32_def sum_list_map_upt_sum)
  also have "\<dots> = ?c ! ?d * ?w ! (i + ?d) + ?c ! (FLANGER_TAPS - 1) * ?w ! (i + (FLANGER_TAPS - 1))"
    using d flanger_coeffs_nth [OF assms(1)] by (intro sum_two_nonzero) auto
  also have "?w ! (i + (FLANGER_TAPS - 1)) = inp ! i"
    using len by (simp add: nth_append)
  finally show ?thesis using last by simp
qed

theorem flanger_block_output_witness:
  "\<exists>out s'. flanger_inv example_test2_init \<and> flanger_block example_test2_init [1, 2] = Some (out, s')
     \<and> out ! 1 = 1"
proof -
  have i: "flanger_inv example_test2_init" by (rule flanger_inv_init)
  obtain out s' where b: "flanger_block example_test2_init [1, 2] = Some (out, s')"
    using flanger_block_eq [OF i] by fastforce
  have "out ! 1 = 1"
    using flanger_block_output [OF i b, of 1] by (simp add: example_test2_init_def nth_append)
  then show ?thesis using i b by blast
qed

text \<open>C8. The bit-crusher's quantisation error per sample is at most half a quantisation step, 1 / 2 ^ depth.\<close>

theorem bitcrush_error:
  assumes "bitcrush_block d inp = Some out" "i < length inp"
  shows "\<bar>out ! i - inp ! i\<bar> \<le> 1 / 2 ^ nat d"
proof -
  from bitcrush_block_SomeD [OF assms(1)] obtain m where m: "c_shl1 (d - 1) = Some m"
    and out: "out = map (\<lambda>x. c_round (x * of_int m) / of_int m) inp" by blast
  from m have m_eq: "m = 2 ^ nat (d - 1)" and "1 \<le> d" by (auto dest: c_shl1_SomeD)
  then have "0 < m" by simp
  define x where "x = inp ! i"
  have o: "out ! i = c_round (x * of_int m) / of_int m"
    using assms(2) out by (simp add: x_def)
  have "\<bar>c_round (x * of_int m) - x * of_int m\<bar> \<le> 1/2" by (rule c_round_error)
  then have "\<bar>c_round (x * of_int m) / of_int m - x\<bar> \<le> 1 / (2 * of_int m)"
    using \<open>0 < m\<close> by (simp add: bitcrush_quant_error)
  moreover have "(2::real) * of_int m = 2 ^ nat d"
    using m_eq \<open>1 \<le> d\<close> by (simp add: power_Suc[symmetric] Suc_nat_eq_nat_zadd1)
  ultimately show ?thesis using o x_def by simp
qed

theorem bitcrush_error_witness:
  "bitcrush_block 2 [3/10] = Some [1/2] \<and> \<bar>1/2 - 3/10\<bar> \<le> (1 / 2 ^ nat 2 :: real)"
proof -
  have b: "bitcrush_block 2 [3/10] = Some [1/2]"
    by (simp add: bitcrush_block_eq c_round_def)
  then show ?thesis using bitcrush_error [OF b, of 0] by simp
qed

text \<open>C9. With the bit-crusher selected at depth 1 and input samples in [-1, 1], every output sample is -1, 0 or 1, both channels carry the same block, and the state is unchanged.\<close>

theorem test2_bitcrush_unit_levels:
  assumes "curr_effect s = test2_effect_bitcrush" "bitcrush_depth s = 1"
    "\<forall>x \<in> set (if audio_src_mic s then mic else wave). - 1 \<le> x \<and> x \<le> 1"
    "example_test2 cfg s mic wave sn None = Some (s', l, r, msgs)"
  shows "set l \<subseteq> {- 1, 0, 1} \<and> r = l \<and> s' = s"
proof -
  let ?inp = "if audio_src_mic s then mic else wave"
  have e: "s' = s \<and> l = map c_round ?inp \<and> r = l"
    using assms(1,2,4) by (auto simp: example_test2_def bitcrush_block_eq Let_def)
  have "\<forall>x \<in> set ?inp. c_round x \<in> {- 1, 0, 1}"
    using assms(3) c_round_unit_range by blast
  then show ?thesis using e by auto
qed

theorem test2_bitcrush_unit_levels_witness:
  "example_test2 cfg_example (example_test2_init\<lparr>curr_effect := test2_effect_bitcrush, bitcrush_depth := 1\<rparr>)
      [3/10, - 7/10, 1/20] [] [] None
     = Some (example_test2_init\<lparr>curr_effect := test2_effect_bitcrush, bitcrush_depth := 1\<rparr>,
             [0, - 1, 0], [0, - 1, 0], [])
   \<and> set [0, - 1, 0 :: real] \<subseteq> {- 1, 0, 1}"
proof -
  let ?s = "example_test2_init\<lparr>curr_effect := test2_effect_bitcrush, bitcrush_depth := 1\<rparr>"
  have e: "example_test2 cfg_example ?s [3/10, - 7/10, 1/20] [] [] None = Some (?s, [0, - 1, 0], [0, - 1, 0], [])"
    by (simp add: example_test2_def bitcrush_block_eq example_test2_init_def c_round_def)
  have "set [0, - 1, 0 :: real] \<subseteq> {- 1, 0, 1} \<and> [0, - 1, 0 :: real] = [0, - 1, 0] \<and> ?s = ?s"
    using test2_bitcrush_unit_levels [OF _ _ _ e] by (simp add: example_test2_init_def)
  then show ?thesis using e by simp
qed

text \<open>C10. Within the depth bounds, '+' raises the bit-crusher depth by one and '-' lowers it by one, saturating at BITCRUSH_MAXDEPTH and BITCRUSH_MINDEPTH, and the new depth is reported.\<close>

theorem test2_key_depth_saturates:
  assumes "BITCRUSH_MINDEPTH \<le> bitcrush_depth s" "bitcrush_depth s \<le> BITCRUSH_MAXDEPTH"
  shows "test2_key s CHR ''+'' =
           (let d = min BITCRUSH_MAXDEPTH (bitcrush_depth s + 1)
            in (s\<lparr>bitcrush_depth := d\<rparr>, [Msg_bitcrush_depth d]))
       \<and> test2_key s CHR ''-'' =
           (let d = max BITCRUSH_MINDEPTH (bitcrush_depth s - 1)
            in (s\<lparr>bitcrush_depth := d\<rparr>, [Msg_bitcrush_depth d]))"
  using assms by (auto simp: test2_key_def Let_def min_def max_def)

theorem test2_key_depth_saturates_witness:
  "test2_key example_test2_init CHR ''+'' = (example_test2_init, [Msg_bitcrush_depth 5])"
  using test2_key_depth_saturates [of example_test2_init]
  by (simp add: example_test2_init_def Let_def)

text \<open>An unrecognised key leaves the state unchanged and only prints the invalid-key warning.\<close>

theorem test2_key_invalid:
  "k \<notin> set ''nfrb+-'' \<Longrightarrow> test2_key s k = (s, [Msg_invalid_key])"
  by (simp add: test2_key_def)

theorem test2_key_invalid_witness:
  "test2_key example_test2_init CHR ''x'' = (example_test2_init, [Msg_invalid_key])"
  using test2_key_invalid [of "CHR ''x''" example_test2_init] by simp

text \<open>From the initial index FLANGER_TAPS - 2, sweeping down, the flanger tap index after k updates follows a triangle wave: FLANGER_TAPS - 2 minus (k mod 2 * (FLANGER_TAPS - 2)), in absolute value.\<close>

theorem flanger_sweep_triangle:
  "fst ((flanger_sweep ^^ k) (int FLANGER_TAPS - 2, True))
     = \<bar>int (FLANGER_TAPS - 2) - int (k mod FLANGER_PERIOD)\<bar>"
proof -
  have "flanger_of_phase 0 = (int FLANGER_TAPS - 2, True)"
    by (simp add: flanger_of_phase_def)
  moreover have "0 < FLANGER_PERIOD" by (simp add: FLANGER_PERIOD_def)
  ultimately have "(flanger_sweep ^^ k) (int FLANGER_TAPS - 2, True) = flanger_of_phase (k mod FLANGER_PERIOD)"
    using flanger_sweep_funpow [of 0 k] by simp
  then show ?thesis by (simp add: flanger_of_phase_def)
qed

end
