(* ===== verification/Qpsk.thy ===== *)
theory Qpsk
  imports Numerics
begin

text \<open>
  The \<open>SYSMODE_TEST4\<close> QPSK modem of \<open>example.c\<close> (lines 361--584). The globals
  and the static locals of \<open>example_test4\<close> form one record. The block handler
  is split where the source synchronises with the button interrupt: the atomic
  read-and-clear of the request flag (\<open>test4_fetch\<close>, line 419) and the rest of
  the call (\<open>test4_rest\<close>), so that a button press can be placed between the
  two. A block call reads the clock up to three times (line 422 and the two
  tests of lines 487--488); each reading is an argument. Out-of-bounds reads of
  \<open>qpsk_msg\<close> and reads of an uninitialised candidate block are \<^const>\<open>None\<close>.
\<close>

section \<open>Constants, symbols and state\<close>

definition QPSK_CARRIER_Hz :: real where "QPSK_CARRIER_Hz = 500"
definition QPSK_MSG_LEN :: nat where "QPSK_MSG_LEN = 64"

definition QPSK_RX_ENABLETIME_s :: "config \<Rightarrow> real" where
  "QPSK_RX_ENABLETIME_s cfg = real QPSK_MSG_LEN * AUDIO_BLOCKTIME_s cfg"

datatype qpsk_sym_e = qpsk_sym_0 | qpsk_sym_1 | qpsk_sym_2 | qpsk_sym_3 | QPSK_SYM_NUM

text \<open>The numeric values the enumeration gives its constants (line 381).\<close>

primrec qpsk_sym_index :: "qpsk_sym_e \<Rightarrow> nat" where
  "qpsk_sym_index qpsk_sym_0 = 0"
| "qpsk_sym_index qpsk_sym_1 = 1"
| "qpsk_sym_index qpsk_sym_2 = 2"
| "qpsk_sym_index qpsk_sym_3 = 3"
| "qpsk_sym_index QPSK_SYM_NUM = 4"

record qpsk_state =
  qpsk_newmsg_g :: bool
  qpsk_newmsg :: bool
  enable_receiver :: bool
  curr_symbol :: int
  receiver_timer :: nat
  qpsk_msg :: "qpsk_sym_e list"
  cos_ref :: block
  sin_ref :: block

datatype qpsk_line =
  Msg_transmitting | Msg_receiver_enabled | Msg_receiver_disabled | Msg_rx qpsk_sym_e

section \<open>Initialisation and button\<close>

text \<open>The message of lines 388--403: symbol \<open>i mod 4\<close> at position \<open>i\<close>.\<close>

definition qpsk_msg_init :: "qpsk_sym_e list" where
  "qpsk_msg_init =
     map (\<lambda>i. if i mod 4 = 0 then qpsk_sym_0 else if i mod 4 = 1 then qpsk_sym_1
              else if i mod 4 = 2 then qpsk_sym_2 else qpsk_sym_3) [0..<QPSK_MSG_LEN]"

definition example_test4_init :: "config \<Rightarrow> nat \<Rightarrow> qpsk_state" where
  "example_test4_init cfg now =
     \<lparr>qpsk_newmsg_g = False, qpsk_newmsg = False, enable_receiver = False, curr_symbol = -1,
      receiver_timer = systime_get_delay 0 now, qpsk_msg = qpsk_msg_init,
      cos_ref = blocks_gen_cos cfg QPSK_CARRIER_Hz 0 (AUDIO_BLOCKSIZE cfg),
      sin_ref = blocks_gen_sin cfg QPSK_CARRIER_Hz 0 (AUDIO_BLOCKSIZE cfg)\<rparr>"

text \<open>
  The static assertion of line 412 (\<open>BUILD_BUG_ON\<close> of \<open>util.h\<close> stops the build
  when its condition holds): a block lasts a whole number of carrier periods.
\<close>

definition test4_build_ok :: "config \<Rightarrow> bool" where
  "test4_build_ok cfg \<longleftrightarrow> IS_INTEGER (AUDIO_BLOCKTIME_s cfg * QPSK_CARRIER_Hz)"

definition example_test4_btnpress :: "qpsk_state \<Rightarrow> qpsk_state \<times> qpsk_line list" where
  "example_test4_btnpress s = (s\<lparr>qpsk_newmsg_g := True\<rparr>, [Msg_transmitting])"

section \<open>Symbol mapping\<close>

text \<open>The in-phase and quadrature signs of lines 441--455.\<close>

definition qpsk_inphase_scale :: "qpsk_sym_e \<Rightarrow> real" where
  "qpsk_inphase_scale symb =
     (if symb = qpsk_sym_0 \<or> symb = qpsk_sym_1 then M_SQRT1_2 else - M_SQRT1_2)"

definition qpsk_quadphase_scale :: "qpsk_sym_e \<Rightarrow> real" where
  "qpsk_quadphase_scale symb =
     (if symb = qpsk_sym_1 \<or> symb = qpsk_sym_3 then M_SQRT1_2 else - M_SQRT1_2)"

text \<open>The transmitted block of lines 458--465.\<close>

definition qpsk_tx_block :: "block \<Rightarrow> block \<Rightarrow> qpsk_sym_e \<Rightarrow> block" where
  "qpsk_tx_block cosr sinr symb =
     arm_add_f32 (arm_scale_f32 cosr (qpsk_inphase_scale symb))
                 (arm_scale_f32 sinr (qpsk_quadphase_scale symb))"

text \<open>
  The receiver's candidate of lines 522--544; for a value outside the four
  symbols the switch writes nothing and the candidate is uninitialised.
\<close>

definition qpsk_candidate :: "block \<Rightarrow> block \<Rightarrow> qpsk_sym_e \<Rightarrow> block option" where
  "qpsk_candidate cosr sinr symb =
     (case symb of
        qpsk_sym_0 \<Rightarrow> Some (arm_add_f32 (arm_scale_f32 cosr M_SQRT1_2) (arm_scale_f32 sinr (- M_SQRT1_2)))
      | qpsk_sym_1 \<Rightarrow> Some (arm_add_f32 (arm_scale_f32 cosr M_SQRT1_2) (arm_scale_f32 sinr M_SQRT1_2))
      | qpsk_sym_2 \<Rightarrow> Some (arm_add_f32 (arm_scale_f32 cosr (- M_SQRT1_2)) (arm_scale_f32 sinr (- M_SQRT1_2)))
      | qpsk_sym_3 \<Rightarrow> Some (arm_add_f32 (arm_scale_f32 cosr (- M_SQRT1_2)) (arm_scale_f32 sinr M_SQRT1_2))
      | QPSK_SYM_NUM \<Rightarrow> None)"

section \<open>Detector\<close>

text \<open>The candidate's score of lines 547--551.\<close>

definition qpsk_candidate_pwr :: "block \<Rightarrow> block \<Rightarrow> block \<Rightarrow> qpsk_sym_e \<Rightarrow> real option" where
  "qpsk_candidate_pwr cosr sinr micinp symb =
     map_option (\<lambda>c. vector_mean (arm_abs_f32 (arm_add_f32 c micinp))) (qpsk_candidate cosr sinr symb)"

text \<open>
  One iteration of the loop of lines 507--556. \<open>max_pwr\<close> starts at
  \<open>-INFINITY\<close>, written \<^const>\<open>None\<close>.
\<close>

definition qpsk_detect_step ::
  "block \<Rightarrow> block \<Rightarrow> block \<Rightarrow> qpsk_sym_e \<Rightarrow> (qpsk_sym_e \<times> real option) option
   \<Rightarrow> (qpsk_sym_e \<times> real option) option" where
  "qpsk_detect_step cosr sinr micinp symb acc =
     (case acc of
        None \<Rightarrow> None
      | Some (best_sym, max_pwr) \<Rightarrow>
          (case qpsk_candidate_pwr cosr sinr micinp symb of
             None \<Rightarrow> None
           | Some candidate_pwr \<Rightarrow>
               if (case max_pwr of None \<Rightarrow> True | Some m \<Rightarrow> candidate_pwr > m)
               then Some (symb, Some candidate_pwr) else Some (best_sym, max_pwr)))"

definition qpsk_detect :: "block \<Rightarrow> block \<Rightarrow> block \<Rightarrow> qpsk_sym_e option" where
  "qpsk_detect cosr sinr micinp =
     map_option fst
       (fold (qpsk_detect_step cosr sinr micinp) [qpsk_sym_0, qpsk_sym_1, qpsk_sym_2, qpsk_sym_3]
          (Some (QPSK_SYM_NUM, None)))"

section \<open>The block handler\<close>

text \<open>Line 419: \<open>ATOMIC(qpsk_newmsg = qpsk_newmsg_g; qpsk_newmsg_g = false;)\<close>.\<close>

definition test4_fetch :: "qpsk_state \<Rightarrow> qpsk_state" where
  "test4_fetch s = s\<lparr>qpsk_newmsg := qpsk_newmsg_g s, qpsk_newmsg_g := False\<rparr>"

text \<open>
  Lines 420--577, after the atomic section. \<open>t0\<close> is the clock reading of
  line 422, \<open>t1\<close> and \<open>t2\<close> those of lines 487 and 488; \<open>micinp\<close> is the block
  the microphone delivers on line 501.
\<close>

definition test4_rest ::
  "config \<Rightarrow> qpsk_state \<Rightarrow> nat \<Rightarrow> nat \<Rightarrow> nat \<Rightarrow> block
   \<Rightarrow> (qpsk_state \<times> block \<times> block \<times> qpsk_line list) option" where
  "test4_rest cfg s t0 t1 t2 micinp =
     (let N = AUDIO_BLOCKSIZE cfg;
          (s1, m1) = (if qpsk_newmsg s
                      then (s\<lparr>curr_symbol := 0,
                              receiver_timer := systime_get_delay (S2US (QPSK_RX_ENABLETIME_s cfg)) t0,
                              enable_receiver := True\<rparr>, [Msg_receiver_enabled])
                      else (s, []));
          out = (if curr_symbol s1 \<ge> 0
                 then map_option (qpsk_tx_block (cos_ref s1) (sin_ref s1))
                        (array_load (qpsk_msg s1) (curr_symbol s1))
                 else Some (arm_fill_f32 0 N))
      in case out of
           None \<Rightarrow> None
         | Some output \<Rightarrow>
             (let s2 = s1\<lparr>curr_symbol :=
                            (if curr_symbol s1 \<ge> 0
                             then (if curr_symbol s1 \<ge> int QPSK_MSG_LEN - 1 then -1 else curr_symbol s1 + 1)
                             else curr_symbol s1)\<rparr>;
                  zeros = arm_fill_f32 0 N
              in if enable_receiver s2 \<and> \<not> systime_get_delay_passed (receiver_timer s2) t1 then
                   (if systime_get_delay_passed (receiver_timer s2) t2
                    then Some (s2\<lparr>enable_receiver := False\<rparr>, output, zeros, m1 @ [Msg_receiver_disabled])
                    else (case qpsk_detect (cos_ref s2) (sin_ref s2) micinp of
                            None \<Rightarrow> None
                          | Some best_sym \<Rightarrow> Some (s2, output, zeros, m1 @ [Msg_rx best_sym])))
                 else Some (s2, output, zeros, m1)))"

definition example_test4 ::
  "config \<Rightarrow> qpsk_state \<Rightarrow> nat \<Rightarrow> nat \<Rightarrow> nat \<Rightarrow> block
   \<Rightarrow> (qpsk_state \<times> block \<times> block \<times> qpsk_line list) option" where
  "example_test4 cfg s t0 t1 t2 micinp = test4_rest cfg (test4_fetch s) t0 t1 t2 micinp"


section \<open>Specifications, invariant and runs\<close>

text \<open>The score the detector gives a candidate symbol, and the first maximum among the four symbols in loop order.\<close>

definition qpsk_score :: "block \<Rightarrow> block \<Rightarrow> block \<Rightarrow> qpsk_sym_e \<Rightarrow> real" where
  "qpsk_score cosr sinr micinp symb =
     vector_mean (arm_abs_f32 (arm_add_f32 (qpsk_tx_block cosr sinr symb) micinp))"

definition qpsk_first_max :: "(qpsk_sym_e \<Rightarrow> real) \<Rightarrow> qpsk_sym_e" where
  "qpsk_first_max P =
     (let b1 = (if P qpsk_sym_1 > P qpsk_sym_0 then qpsk_sym_1 else qpsk_sym_0);
          b2 = (if P qpsk_sym_2 > P b1 then qpsk_sym_2 else b1)
      in if P qpsk_sym_3 > P b2 then qpsk_sym_3 else b2)"

definition qpsk_syms :: "qpsk_sym_e list" where
  "qpsk_syms = [qpsk_sym_0, qpsk_sym_1, qpsk_sym_2, qpsk_sym_3]"

text \<open>Mean absolute value of a combination of the two reference blocks, and the signs of the symbol mapping.\<close>

definition mean_abs_comb :: "real \<Rightarrow> real \<Rightarrow> block \<Rightarrow> block \<Rightarrow> real" where
  "mean_abs_comb a b u v = vector_mean (map (\<lambda>(x, y). \<bar>a * x + b * y\<bar>) (zip u v))"

definition qpsk_isgn :: "qpsk_sym_e \<Rightarrow> real" where
  "qpsk_isgn symb = (if symb = qpsk_sym_0 \<or> symb = qpsk_sym_1 then 1 else -1)"

definition qpsk_qsgn :: "qpsk_sym_e \<Rightarrow> real" where
  "qpsk_qsgn symb = (if symb = qpsk_sym_1 \<or> symb = qpsk_sym_3 then 1 else -1)"

definition qpsk_inv :: "qpsk_state \<Rightarrow> bool" where
  "qpsk_inv s \<longleftrightarrow> length (qpsk_msg s) = QPSK_MSG_LEN \<and> -1 \<le> curr_symbol s \<and> curr_symbol s < int QPSK_MSG_LEN"

text \<open>Consecutive block calls with no button press in between, collecting the left output blocks.\<close>

fun example_test4_run :: "config \<Rightarrow> qpsk_state \<Rightarrow> (nat \<times> nat \<times> nat \<times> block) list \<Rightarrow> (qpsk_state \<times> block list) option" where
  "example_test4_run cfg s [] = Some (s, [])"
| "example_test4_run cfg s ((t0, t1, t2, micinp) # ins) =
     (case example_test4 cfg s t0 t1 t2 micinp of
        None \<Rightarrow> None
      | Some (s', left, right, msgs) \<Rightarrow> map_option (\<lambda>(s'', ls). (s'', left # ls)) (example_test4_run cfg s' ins))"

text \<open>States reachable from the initialisation by button presses and block calls, in any order and with any clock readings.\<close>

inductive test4_reachable :: "config \<Rightarrow> qpsk_state \<Rightarrow> bool" for cfg where
  init: "test4_reachable cfg (example_test4_init cfg now)"
| btnpress: "test4_reachable cfg s \<Longrightarrow> test4_reachable cfg (fst (example_test4_btnpress s))"
| block: "test4_reachable cfg s \<Longrightarrow> example_test4 cfg s t0 t1 t2 micinp = Some (s', l, r, msgs)
          \<Longrightarrow> test4_reachable cfg s'"

definition qpsk_loopback_example :: qpsk_state where
  "qpsk_loopback_example =
     \<lparr>qpsk_newmsg_g = True, qpsk_newmsg = False, enable_receiver = False, curr_symbol = -1,
      receiver_timer = 0, qpsk_msg = qpsk_msg_init, cos_ref = [1, 0], sin_ref = [0, 1]\<rparr>"

section \<open>Lemmas\<close>

subsection \<open>Detector\<close>

lemma qpsk_candidate_tx:
  "symb \<noteq> QPSK_SYM_NUM \<Longrightarrow> qpsk_candidate cosr sinr symb = Some (qpsk_tx_block cosr sinr symb)"
  by (cases symb) (simp_all add: qpsk_candidate_def qpsk_tx_block_def qpsk_inphase_scale_def
      qpsk_quadphase_scale_def)

lemma qpsk_candidate_pwr_score:
  "symb \<noteq> QPSK_SYM_NUM \<Longrightarrow> qpsk_candidate_pwr cosr sinr micinp symb = Some (qpsk_score cosr sinr micinp symb)"
  by (simp add: qpsk_candidate_pwr_def qpsk_candidate_tx qpsk_score_def)

lemma qpsk_detect_eq:
  "qpsk_detect cosr sinr micinp = Some (qpsk_first_max (qpsk_score cosr sinr micinp))"
  by (simp add: qpsk_detect_def qpsk_detect_step_def qpsk_candidate_pwr_score qpsk_first_max_def Let_def)

lemma qpsk_first_max_spec:
  "qpsk_first_max P \<in> set qpsk_syms \<and> (\<forall>c \<in> set qpsk_syms. P c \<le> P (qpsk_first_max P))
   \<and> (\<forall>c \<in> set (takeWhile (\<lambda>x. x \<noteq> qpsk_first_max P) qpsk_syms). P c < P (qpsk_first_max P))"
  unfolding qpsk_first_max_def qpsk_syms_def Let_def
  by (cases "P qpsk_sym_1 > P qpsk_sym_0"; cases "P qpsk_sym_2 > P qpsk_sym_1";
      cases "P qpsk_sym_2 > P qpsk_sym_0"; cases "P qpsk_sym_3 > P qpsk_sym_2";
      cases "P qpsk_sym_3 > P qpsk_sym_1"; cases "P qpsk_sym_3 > P qpsk_sym_0") auto

lemma qpsk_detect_unique_max:
  assumes "s \<in> set qpsk_syms"
    and "\<And>c. c \<in> set qpsk_syms \<Longrightarrow> c \<noteq> s \<Longrightarrow> qpsk_score cosr sinr micinp c < qpsk_score cosr sinr micinp s"
  shows "qpsk_detect cosr sinr micinp = Some s"
proof -
  let ?P = "qpsk_score cosr sinr micinp"
  have b: "qpsk_first_max ?P \<in> set qpsk_syms" "?P s \<le> ?P (qpsk_first_max ?P)"
    using qpsk_first_max_spec [of ?P] assms(1) by auto
  have "qpsk_first_max ?P = s"
  proof (rule ccontr)
    assume "qpsk_first_max ?P \<noteq> s"
    then have "?P (qpsk_first_max ?P) < ?P s" using assms(2) b(1) by blast
    with b(2) show False by simp
  qed
  then show ?thesis by (simp add: qpsk_detect_eq)
qed

lemma qpsk_score_loopback:
  assumes "length u = length v"
  shows "qpsk_score u v (qpsk_tx_block u v s) c
           = mean_abs_comb (M_SQRT1_2 * (qpsk_isgn c + qpsk_isgn s)) (M_SQRT1_2 * (qpsk_qsgn c + qpsk_qsgn s)) u v"
proof -
  have "arm_abs_f32 (arm_add_f32 (qpsk_tx_block u v c) (qpsk_tx_block u v s))
        = map (\<lambda>(x, y). \<bar>M_SQRT1_2 * (qpsk_isgn c + qpsk_isgn s) * x
                          + M_SQRT1_2 * (qpsk_qsgn c + qpsk_qsgn s) * y\<bar>) (zip u v)"
    using assms
    by (intro nth_equalityI)
       (auto simp: arm_abs_f32_def arm_add_f32_def arm_scale_f32_def qpsk_tx_block_def
         qpsk_inphase_scale_def qpsk_quadphase_scale_def qpsk_isgn_def qpsk_qsgn_def algebra_simps)
  then show ?thesis by (simp add: qpsk_score_def mean_abs_comb_def)
qed

lemma vector_mean_scale:
  "vector_mean (map (\<lambda>p. c * f p) xs) = c * vector_mean (map f xs)"
  by (simp add: vector_mean_def sum_list_const_mult)

lemma mean_abs_comb_scale:
  "mean_abs_comb (k * a) (k * b) u v = \<bar>k\<bar> * mean_abs_comb a b u v"
proof -
  have f: "(\<lambda>(x, y). \<bar>k * a * x + k * b * y\<bar>) = (\<lambda>p. \<bar>k\<bar> * (case p of (x, y) \<Rightarrow> \<bar>a * x + b * y\<bar>))"
    by (rule ext) (auto simp: abs_mult [symmetric] algebra_simps)
  show ?thesis by (simp only: mean_abs_comb_def f vector_mean_scale)
qed

lemma mean_abs_comb_neg: "mean_abs_comb (- a) (- b) u v = mean_abs_comb a b u v"
  using mean_abs_comb_scale [of "-1" a b u v] by simp

lemma mean_abs_comb_zero: "mean_abs_comb 0 0 u v = 0"
  using mean_abs_comb_scale [of 0 0 0 u v] by simp

lemma mean_abs_comb_nonneg: "0 \<le> mean_abs_comb a b u v"
  by (auto simp: mean_abs_comb_def vector_mean_def intro!: divide_nonneg_nonneg sum_list_nonneg)

lemma qpsk_detect_loopback:
  assumes "length u = length v" "s \<in> set qpsk_syms"
    and "mean_abs_comb 1 0 u v < mean_abs_comb 1 1 u v" "mean_abs_comb 0 1 u v < mean_abs_comb 1 1 u v"
    and "mean_abs_comb 1 0 u v < mean_abs_comb 1 (-1) u v" "mean_abs_comb 0 1 u v < mean_abs_comb 1 (-1) u v"
  shows "qpsk_detect u v (qpsk_tx_block u v s) = Some s"
proof (rule qpsk_detect_unique_max [OF assms(2)])
  fix c assume c: "c \<in> set qpsk_syms" "c \<noteq> s"
  let ?r = "M_SQRT1_2"
  have r: "0 < ?r" by (rule M_SQRT1_2_pos)
  have sc: "qpsk_score u v (qpsk_tx_block u v s) x
              = \<bar>?r\<bar> * mean_abs_comb (qpsk_isgn x + qpsk_isgn s) (qpsk_qsgn x + qpsk_qsgn s) u v" for x
    using qpsk_score_loopback [OF assms(1)] mean_abs_comb_scale by simp
  have two: "mean_abs_comb (2 * a) (2 * b) u v = 2 * mean_abs_comb a b u v" for a b
    using mean_abs_comb_scale [of 2 a b u v] by simp
  have m: "mean_abs_comb 2 2 u v = 2 * mean_abs_comb 1 1 u v"
      "mean_abs_comb (-2) (-2) u v = 2 * mean_abs_comb 1 1 u v"
      "mean_abs_comb 2 (-2) u v = 2 * mean_abs_comb 1 (-1) u v"
      "mean_abs_comb (-2) 2 u v = 2 * mean_abs_comb 1 (-1) u v"
      "mean_abs_comb 2 0 u v = 2 * mean_abs_comb 1 0 u v"
      "mean_abs_comb (-2) 0 u v = 2 * mean_abs_comb 1 0 u v"
      "mean_abs_comb 0 2 u v = 2 * mean_abs_comb 0 1 u v"
      "mean_abs_comb 0 (-2) u v = 2 * mean_abs_comb 0 1 u v"
    using two [of 1 1] two [of "-1" "-1"] two [of 1 "-1"] two [of "-1" 1] two [of 1 0]
      two [of "-1" 0] two [of 0 1] two [of 0 "-1"] mean_abs_comb_neg [of 1 1 u v]
      mean_abs_comb_neg [of 1 "-1" u v] mean_abs_comb_neg [of 1 0 u v] mean_abs_comb_neg [of 0 1 u v]
    by simp_all
  have nn: "0 \<le> mean_abs_comb 1 0 u v" "0 \<le> mean_abs_comb 0 1 u v"
    by (rule mean_abs_comb_nonneg)+
  show "qpsk_score u v (qpsk_tx_block u v s) c < qpsk_score u v (qpsk_tx_block u v s) s"
    using c assms(2-6) r nn unfolding sc
    by (cases s; cases c) (simp_all add: qpsk_syms_def qpsk_isgn_def qpsk_qsgn_def m mean_abs_comb_zero)
qed

subsection \<open>The block handler\<close>

lemma qpsk_detect_Some: "\<exists>b. qpsk_detect cosr sinr micinp = Some b"
  by (simp add: qpsk_detect_eq)

text \<open>What one call after the atomic section does, on every branch.\<close>

lemma test4_rest_eq:
  fixes cfg :: config and t0 t1 t2 :: nat and micinp :: block
  assumes "qpsk_inv s"
  defines "c \<equiv> (if qpsk_newmsg s then 0 else curr_symbol s)"
  defines "tm \<equiv> (if qpsk_newmsg s then systime_get_delay (S2US (QPSK_RX_ENABLETIME_s cfg)) t0
                 else receiver_timer s)"
  defines "en \<equiv> (qpsk_newmsg s \<or> enable_receiver s)"
  shows "\<exists>ms. test4_rest cfg s t0 t1 t2 micinp =
           Some (s\<lparr>curr_symbol := (if 0 \<le> c then (if c \<ge> int QPSK_MSG_LEN - 1 then -1 else c + 1) else c),
                   receiver_timer := tm,
                   enable_receiver := (en \<and> (systime_get_delay_passed tm t1 \<or> \<not> systime_get_delay_passed tm t2))\<rparr>,
                 (if 0 \<le> c then qpsk_tx_block (cos_ref s) (sin_ref s) (qpsk_msg s ! nat c)
                  else arm_fill_f32 0 (AUDIO_BLOCKSIZE cfg)),
                 arm_fill_f32 0 (AUDIO_BLOCKSIZE cfg), ms)"
proof -
  have c: "0 \<le> c \<Longrightarrow> nat c < length (qpsk_msg s)"
    using assms(1) by (auto simp: c_def qpsk_inv_def QPSK_MSG_LEN_def)
  obtain b where b: "qpsk_detect (cos_ref s) (sin_ref s) micinp = Some b"
    using qpsk_detect_Some by blast
  show ?thesis
    using c b unfolding c_def tm_def en_def
    by (auto simp: test4_rest_def Let_def)
qed

lemma test4_fetch_sel [simp]:
  "qpsk_newmsg (test4_fetch s) = qpsk_newmsg_g s" "qpsk_newmsg_g (test4_fetch s) = False"
  "curr_symbol (test4_fetch s) = curr_symbol s" "receiver_timer (test4_fetch s) = receiver_timer s"
  "enable_receiver (test4_fetch s) = enable_receiver s" "qpsk_msg (test4_fetch s) = qpsk_msg s"
  "cos_ref (test4_fetch s) = cos_ref s" "sin_ref (test4_fetch s) = sin_ref s"
  by (simp_all add: test4_fetch_def)

lemma test4_rest_decodes:
  assumes "qpsk_inv s"
    and "(if qpsk_newmsg s then True else enable_receiver s)"
    and "\<not> systime_get_delay_passed (if qpsk_newmsg s then systime_get_delay (S2US (QPSK_RX_ENABLETIME_s cfg)) t0
                                    else receiver_timer s) t1"
    and "\<not> systime_get_delay_passed (if qpsk_newmsg s then systime_get_delay (S2US (QPSK_RX_ENABLETIME_s cfg)) t0
                                    else receiver_timer s) t2"
    and "test4_rest cfg s t0 t1 t2 micinp = Some (s', l, r, ms)"
  shows "ms = (if qpsk_newmsg s then [Msg_receiver_enabled] else [])
              @ [Msg_rx (qpsk_first_max (qpsk_score (cos_ref s) (sin_ref s) micinp))]"
proof -
  have c: "0 \<le> (if qpsk_newmsg s then 0 else curr_symbol s) \<Longrightarrow>
           nat (if qpsk_newmsg s then 0 else curr_symbol s) < length (qpsk_msg s)"
    using assms(1) by (auto simp: qpsk_inv_def QPSK_MSG_LEN_def)
  show ?thesis
    using assms(2-5) c by (auto simp: test4_rest_def Let_def qpsk_detect_eq split: if_splits)
qed

lemma example_test4_eq:
  fixes cfg :: config and t0 t1 t2 :: nat and micinp :: block
  assumes "qpsk_inv s"
  defines "c \<equiv> (if qpsk_newmsg_g s then 0 else curr_symbol s)"
  defines "tm \<equiv> (if qpsk_newmsg_g s then systime_get_delay (S2US (QPSK_RX_ENABLETIME_s cfg)) t0
                 else receiver_timer s)"
  defines "en \<equiv> (qpsk_newmsg_g s \<or> enable_receiver s)"
  shows "\<exists>ms. example_test4 cfg s t0 t1 t2 micinp =
           Some (s\<lparr>qpsk_newmsg := qpsk_newmsg_g s, qpsk_newmsg_g := False,
                   curr_symbol := (if 0 \<le> c then (if c \<ge> int QPSK_MSG_LEN - 1 then -1 else c + 1) else c),
                   receiver_timer := tm,
                   enable_receiver := (en \<and> (systime_get_delay_passed tm t1 \<or> \<not> systime_get_delay_passed tm t2))\<rparr>,
                 (if 0 \<le> c then qpsk_tx_block (cos_ref s) (sin_ref s) (qpsk_msg s ! nat c)
                  else arm_fill_f32 0 (AUDIO_BLOCKSIZE cfg)),
                 arm_fill_f32 0 (AUDIO_BLOCKSIZE cfg), ms)"
proof -
  have f: "qpsk_newmsg (test4_fetch s) = qpsk_newmsg_g s" "curr_symbol (test4_fetch s) = curr_symbol s"
    "receiver_timer (test4_fetch s) = receiver_timer s" "enable_receiver (test4_fetch s) = enable_receiver s"
    "qpsk_msg (test4_fetch s) = qpsk_msg s" "cos_ref (test4_fetch s) = cos_ref s"
    "sin_ref (test4_fetch s) = sin_ref s"
    by (simp_all add: test4_fetch_def)
  have "qpsk_inv (test4_fetch s)" using assms(1) by (simp add: qpsk_inv_def test4_fetch_def)
  from test4_rest_eq [OF this, of cfg t0 t1 t2 micinp] show ?thesis
    unfolding c_def tm_def en_def f example_test4_def by (simp add: test4_fetch_def)
qed

lemma example_test4_inv:
  assumes "qpsk_inv s" "example_test4 cfg s t0 t1 t2 micinp = Some (s', l, r, ms)"
  shows "qpsk_inv s'"
  using example_test4_eq [OF assms(1), of cfg t0 t1 t2 micinp] assms
  by (auto simp: qpsk_inv_def QPSK_MSG_LEN_def)

lemma test4_init_inv: "qpsk_inv (example_test4_init cfg now)"
  by (simp add: qpsk_inv_def example_test4_init_def qpsk_msg_init_def)

lemma test4_reachable_inv: "test4_reachable cfg s \<Longrightarrow> qpsk_inv s"
proof (induction rule: test4_reachable.induct)
  case (init now)
  then show ?case by (rule test4_init_inv)
next
  case (btnpress s)
  then show ?case by (simp add: qpsk_inv_def example_test4_btnpress_def)
next
  case (block s t0 t1 t2 micinp s' l r msgs)
  then show ?case using example_test4_inv by blast
qed

text \<open>A block call while no transmission is requested and symbol \<open>i\<close> is current.\<close>

lemma example_test4_sending:
  assumes "qpsk_inv s" "\<not> qpsk_newmsg_g s" "curr_symbol s = int i"
    "example_test4 cfg s t0 t1 t2 micinp = Some (s', l, r, ms)"
  shows "l = qpsk_tx_block (cos_ref s) (sin_ref s) (qpsk_msg s ! i)
         \<and> curr_symbol s' = (if i \<ge> QPSK_MSG_LEN - 1 then -1 else int i + 1)
         \<and> \<not> qpsk_newmsg_g s' \<and> qpsk_msg s' = qpsk_msg s \<and> cos_ref s' = cos_ref s \<and> sin_ref s' = sin_ref s"
  using example_test4_eq [OF assms(1), of cfg t0 t1 t2 micinp] assms(2-4)
  by (auto simp: QPSK_MSG_LEN_def)

lemma example_test4_run_sends:
  assumes "qpsk_inv s" "\<not> qpsk_newmsg_g s" "curr_symbol s = int i" "i < QPSK_MSG_LEN"
    "length ins = QPSK_MSG_LEN - i"
  shows "\<exists>s'. example_test4_run cfg s ins = Some (s', map (qpsk_tx_block (cos_ref s) (sin_ref s)) (drop i (qpsk_msg s)))
              \<and> curr_symbol s' = -1 \<and> \<not> qpsk_newmsg_g s'"
  using assms
proof (induction ins arbitrary: s i)
  case Nil
  then show ?case by simp
next
  case (Cons x ins)
  obtain t0 t1 t2 micinp where x: "x = (t0, t1, t2, micinp)" by (cases x) auto
  obtain s1 l r ms where step: "example_test4 cfg s t0 t1 t2 micinp = Some (s1, l, r, ms)"
    using example_test4_eq [OF Cons.prems(1), of cfg t0 t1 t2 micinp] by blast
  note one = example_test4_sending [OF Cons.prems(1-3) step]
  have inv1: "qpsk_inv s1" using example_test4_inv [OF Cons.prems(1) step] .
  have len: "length (qpsk_msg s) = QPSK_MSG_LEN" using Cons.prems(1) by (simp add: qpsk_inv_def)
  have drop: "drop i (qpsk_msg s) = qpsk_msg s ! i # drop (Suc i) (qpsk_msg s)"
    using Cons.prems(4) len by (simp add: Cons_nth_drop_Suc)
  show ?case
  proof (cases "i \<ge> QPSK_MSG_LEN - 1")
    case True
    then have i: "i = 63" using Cons.prems(4) by (simp add: QPSK_MSG_LEN_def)
    then have "ins = []" using Cons.prems(5) by (simp add: QPSK_MSG_LEN_def)
    then show ?thesis using one step x drop len i by (auto simp: QPSK_MSG_LEN_def)
  next
    case False
    then have "curr_symbol s1 = int (Suc i)" "Suc i < QPSK_MSG_LEN" "length ins = QPSK_MSG_LEN - Suc i"
      using one Cons.prems(4,5) by auto
    then obtain s' where "example_test4_run cfg s1 ins =
        Some (s', map (qpsk_tx_block (cos_ref s1) (sin_ref s1)) (drop (Suc i) (qpsk_msg s1)))"
      and "curr_symbol s' = -1" "\<not> qpsk_newmsg_g s'"
      using Cons.IH [OF inv1] one by blast
    then show ?thesis using one step x drop by auto
  qed
qed

lemma length_qpsk_tx_block:
  "length (qpsk_tx_block cosr sinr x) = min (length cosr) (length sinr)"
  by (simp add: qpsk_tx_block_def arm_add_f32_def arm_scale_f32_def)

lemma example_test4_refs:
  assumes "example_test4 cfg s t0 t1 t2 mic = Some (s', l, r, msgs)"
    "length (cos_ref s) = AUDIO_BLOCKSIZE cfg" "length (sin_ref s) = AUDIO_BLOCKSIZE cfg"
  shows "cos_ref s' = cos_ref s \<and> sin_ref s' = sin_ref s
         \<and> length l = AUDIO_BLOCKSIZE cfg \<and> length r = AUDIO_BLOCKSIZE cfg"
  using assms
  by (auto simp: example_test4_def test4_rest_def test4_fetch_def arm_fill_f32_def Let_def length_qpsk_tx_block
      split: option.splits prod.splits if_splits)

lemma test4_reachable_refs:
  "test4_reachable cfg s \<Longrightarrow> length (cos_ref s) = AUDIO_BLOCKSIZE cfg \<and> length (sin_ref s) = AUDIO_BLOCKSIZE cfg"
proof (induction rule: test4_reachable.induct)
  case (init now)
  then show ?case by (simp add: example_test4_init_def blocks_gen_cos_def blocks_gen_sin_def)
next
  case (btnpress s)
  then show ?case by (simp add: example_test4_btnpress_def)
next
  case (block s t0 t1 t2 micinp s' l r msgs)
  then show ?case using example_test4_refs [of cfg s t0 t1 t2 micinp s' l r msgs] by simp
qed

section \<open>Properties of the QPSK modem\<close>

text \<open>C11. No block call from a reachable state reads qpsk_msg out of bounds or an uninitialised candidate block: for every clock readings and microphone block the handler returns.\<close>

theorem test4_no_undefined_behaviour:
  "test4_reachable cfg s \<Longrightarrow> \<exists>r. example_test4 cfg s t0 t1 t2 micinp = Some r"
  using example_test4_eq [OF test4_reachable_inv] by blast

theorem test4_no_undefined_behaviour_witness:
  "test4_reachable cfg_example (example_test4_init cfg_example 0)
   \<and> (\<exists>r. example_test4 cfg_example (example_test4_init cfg_example 0) 0 0 0 [] = Some r)"
  using test4_no_undefined_behaviour [OF test4_reachable.init] test4_reachable.init by blast

text \<open>C12. After a button press, the next QPSK_MSG_LEN block calls (with no further press) send the blocks of the message symbols in order, and the transmitter is then idle with the request consumed.\<close>

theorem qpsk_transmits_message:
  assumes "qpsk_inv s" "qpsk_newmsg_g s" "length ins = QPSK_MSG_LEN"
  shows "\<exists>s'. example_test4_run cfg s ins = Some (s', map (qpsk_tx_block (cos_ref s) (sin_ref s)) (qpsk_msg s))
              \<and> curr_symbol s' = -1 \<and> \<not> qpsk_newmsg_g s'"
proof -
  obtain t0 t1 t2 micinp ins' where ins: "ins = (t0, t1, t2, micinp) # ins'"
    using assms(3) by (cases ins) (auto simp: QPSK_MSG_LEN_def)
  obtain s1 l r ms where step: "example_test4 cfg s t0 t1 t2 micinp = Some (s1, l, r, ms)"
    using example_test4_eq [OF assms(1), of cfg t0 t1 t2 micinp] by blast
  have one: "l = qpsk_tx_block (cos_ref s) (sin_ref s) (qpsk_msg s ! 0)" "curr_symbol s1 = int 1"
      "\<not> qpsk_newmsg_g s1" "qpsk_msg s1 = qpsk_msg s" "cos_ref s1 = cos_ref s" "sin_ref s1 = sin_ref s"
    using example_test4_eq [OF assms(1), of cfg t0 t1 t2 micinp] step assms(2)
    by (auto simp: QPSK_MSG_LEN_def)
  have inv1: "qpsk_inv s1" using example_test4_inv [OF assms(1) step] .
  have len: "length (qpsk_msg s) = QPSK_MSG_LEN" using assms(1) by (simp add: qpsk_inv_def)
  have "length ins' = QPSK_MSG_LEN - 1" using assms(3) ins by simp
  then obtain s' where "example_test4_run cfg s1 ins' =
        Some (s', map (qpsk_tx_block (cos_ref s1) (sin_ref s1)) (drop 1 (qpsk_msg s1)))"
      and "curr_symbol s' = -1" "\<not> qpsk_newmsg_g s'"
    using example_test4_run_sends [OF inv1 one(3) one(2)] by (auto simp: QPSK_MSG_LEN_def)
  moreover have "qpsk_msg s = qpsk_msg s ! 0 # drop 1 (qpsk_msg s)"
    using len by (cases "qpsk_msg s") (auto simp: QPSK_MSG_LEN_def)
  moreover have "example_test4_run cfg s ins
                   = map_option (\<lambda>(s'', ls). (s'', l # ls)) (example_test4_run cfg s1 ins')"
    using ins step by simp
  ultimately show ?thesis using one
    by (metis (no_types, lifting) list.simps(9) option.map case_prod_conv)
qed

theorem qpsk_transmits_message_witness:
  "\<exists>s'. example_test4_run cfg_example ((example_test4_init cfg_example 0)\<lparr>qpsk_newmsg_g := True\<rparr>)
            (replicate QPSK_MSG_LEN (0, 0, 0, []))
          = Some (s', map (qpsk_tx_block (cos_ref (example_test4_init cfg_example 0))
                                         (sin_ref (example_test4_init cfg_example 0))) qpsk_msg_init)
       \<and> curr_symbol s' = -1 \<and> \<not> qpsk_newmsg_g s'"
proof -
  have "qpsk_inv ((example_test4_init cfg_example 0)\<lparr>qpsk_newmsg_g := True\<rparr>)"
    using test4_init_inv [of cfg_example 0] by (simp add: qpsk_inv_def)
  from qpsk_transmits_message [OF this] show ?thesis by (simp add: example_test4_init_def)
qed

text \<open>C13. With the receive window open at both clock readings, and reference blocks that separate the four candidates, a microphone block equal to the transmitted block of a symbol is reported as that symbol.\<close>

theorem qpsk_loopback_report:
  assumes "qpsk_inv s" "qpsk_newmsg_g s \<or> enable_receiver s"
    and "\<not> systime_get_delay_passed (if qpsk_newmsg_g s then systime_get_delay (S2US (QPSK_RX_ENABLETIME_s cfg)) t0
                                    else receiver_timer s) t1"
    and "\<not> systime_get_delay_passed (if qpsk_newmsg_g s then systime_get_delay (S2US (QPSK_RX_ENABLETIME_s cfg)) t0
                                    else receiver_timer s) t2"
    and "length (cos_ref s) = length (sin_ref s)" "x \<in> set qpsk_syms"
    and "mean_abs_comb 1 0 (cos_ref s) (sin_ref s) < mean_abs_comb 1 1 (cos_ref s) (sin_ref s)"
        "mean_abs_comb 0 1 (cos_ref s) (sin_ref s) < mean_abs_comb 1 1 (cos_ref s) (sin_ref s)"
        "mean_abs_comb 1 0 (cos_ref s) (sin_ref s) < mean_abs_comb 1 (-1) (cos_ref s) (sin_ref s)"
        "mean_abs_comb 0 1 (cos_ref s) (sin_ref s) < mean_abs_comb 1 (-1) (cos_ref s) (sin_ref s)"
    and "example_test4 cfg s t0 t1 t2 (qpsk_tx_block (cos_ref s) (sin_ref s) x) = Some (s', l, r, ms)"
  shows "last ms = Msg_rx x"
proof -
  have inv: "qpsk_inv (test4_fetch s)" using assms(1) by (simp add: qpsk_inv_def test4_fetch_def)
  have step: "test4_rest cfg (test4_fetch s) t0 t1 t2 (qpsk_tx_block (cos_ref s) (sin_ref s) x) = Some (s', l, r, ms)"
    using assms(11) by (simp add: example_test4_def)
  have "ms = (if qpsk_newmsg (test4_fetch s) then [Msg_receiver_enabled] else [])
              @ [Msg_rx (qpsk_first_max (qpsk_score (cos_ref (test4_fetch s)) (sin_ref (test4_fetch s))
                                          (qpsk_tx_block (cos_ref s) (sin_ref s) x)))]"
    by (rule test4_rest_decodes [OF inv _ _ _ step]) (use assms(2-4) in \<open>auto split: if_splits\<close>)
  moreover have "qpsk_detect (cos_ref s) (sin_ref s) (qpsk_tx_block (cos_ref s) (sin_ref s) x) = Some x"
    using assms(5-10) by (rule qpsk_detect_loopback)
  ultimately show ?thesis by (simp add: qpsk_detect_eq)
qed

theorem qpsk_loopback_report_witness:
  "\<exists>s' l r ms. example_test4 cfg_example qpsk_loopback_example 0 0 0 (qpsk_tx_block [1, 0] [0, 1] qpsk_sym_2)
                   = Some (s', l, r, ms) \<and> last ms = Msg_rx qpsk_sym_2"
proof -
  have inv: "qpsk_inv qpsk_loopback_example"
    by (simp add: qpsk_inv_def qpsk_loopback_example_def qpsk_msg_init_def)
  have tx: "qpsk_tx_block [1, 0] [0, 1] qpsk_sym_2
             = qpsk_tx_block (cos_ref qpsk_loopback_example) (sin_ref qpsk_loopback_example) qpsk_sym_2"
    by (simp add: qpsk_loopback_example_def)
  obtain s' l r ms where step: "example_test4 cfg_example qpsk_loopback_example 0 0 0
      (qpsk_tx_block (cos_ref qpsk_loopback_example) (sin_ref qpsk_loopback_example) qpsk_sym_2) = Some (s', l, r, ms)"
    using example_test4_eq [OF inv] by blast
  have t: "S2US (QPSK_RX_ENABLETIME_s cfg_example) = 2048000"
    by (simp add: S2US_def QPSK_RX_ENABLETIME_s_def AUDIO_BLOCKTIME_s_def QPSK_MSG_LEN_def cfg_example_def)
  have "last ms = Msg_rx qpsk_sym_2"
    by (rule qpsk_loopback_report [OF inv _ _ _ _ _ _ _ _ _ step])
       (simp_all add: qpsk_loopback_example_def t systime_get_delay_passed_def systime_get_delay_def
          qpsk_syms_def mean_abs_comb_def vector_mean_def)
  then show ?thesis using step tx by (simp only:) blast
qed

text \<open>C14. The detector always returns one of the four symbols (never the QPSK_SYM_NUM error marker): one with the highest score, and strictly higher than every symbol tried before it.\<close>

theorem qpsk_detect_first_max:
  "\<exists>b. qpsk_detect cosr sinr micinp = Some b \<and> b \<in> set qpsk_syms
     \<and> (\<forall>c \<in> set qpsk_syms. qpsk_score cosr sinr micinp c \<le> qpsk_score cosr sinr micinp b)
     \<and> (\<forall>c \<in> set (takeWhile (\<lambda>x. x \<noteq> b) qpsk_syms).
           qpsk_score cosr sinr micinp c < qpsk_score cosr sinr micinp b)"
  using qpsk_first_max_spec [of "qpsk_score cosr sinr micinp"] by (simp add: qpsk_detect_eq)

theorem qpsk_detect_first_max_witness:
  "\<exists>b. qpsk_detect [1, 0] [0, 1] [1, 1] = Some b \<and> b \<noteq> QPSK_SYM_NUM"
  using qpsk_detect_first_max [of "[1, 0]" "[0, 1]" "[1, 1]"] by (auto simp: qpsk_syms_def)

text \<open>C15. A button press during a transmission restarts it: the next block sends symbol 0, moves the cursor to 1 and resets the receive deadline.\<close>

theorem qpsk_press_restarts:
  assumes "qpsk_inv s" "qpsk_newmsg_g s" "example_test4 cfg s t0 t1 t2 micinp = Some (s', l, r, ms)"
  shows "l = qpsk_tx_block (cos_ref s) (sin_ref s) (qpsk_msg s ! 0) \<and> curr_symbol s' = 1
         \<and> receiver_timer s' = t0 + S2US (QPSK_RX_ENABLETIME_s cfg)"
  using example_test4_eq [OF assms(1), of cfg t0 t1 t2 micinp] assms(2,3)
  by (auto simp: QPSK_MSG_LEN_def systime_get_delay_def)

theorem qpsk_press_restarts_witness:
  "\<exists>s' l r ms. example_test4 cfg_example ((example_test4_init cfg_example 0)\<lparr>qpsk_newmsg_g := True, curr_symbol := 5\<rparr>) 7 7 7 []
       = Some (s', l, r, ms) \<and> curr_symbol s' = 1"
proof -
  let ?s = "(example_test4_init cfg_example 0)\<lparr>qpsk_newmsg_g := True, curr_symbol := 5\<rparr>"
  have inv: "qpsk_inv ?s" by (simp add: qpsk_inv_def example_test4_init_def qpsk_msg_init_def QPSK_MSG_LEN_def)
  obtain s' l r ms where step: "example_test4 cfg_example ?s 7 7 7 [] = Some (s', l, r, ms)"
    using example_test4_eq [OF inv] by blast
  then show ?thesis using qpsk_press_restarts [OF inv _ step] by simp
qed

text \<open>C16. When both receiver tests of a call read the same clock value, the receiver flag is never cleared: after the call it is set exactly when it was set before or a transmission was requested.\<close>

theorem qpsk_receiver_flag_never_cleared:
  assumes "qpsk_inv s" "example_test4 cfg s t0 t t micinp = Some (s', l, r, ms)"
  shows "enable_receiver s' = (qpsk_newmsg_g s \<or> enable_receiver s)"
  using example_test4_eq [OF assms(1), of cfg t0 t t micinp] assms(2) by auto

theorem qpsk_receiver_flag_never_cleared_witness:
  "\<exists>s' l r ms. example_test4 cfg_example ((example_test4_init cfg_example 10)\<lparr>enable_receiver := True\<rparr>) 0 20 20 []
       = Some (s', l, r, ms) \<and> enable_receiver s'"
proof -
  let ?s = "(example_test4_init cfg_example 10)\<lparr>enable_receiver := True\<rparr>"
  have inv: "qpsk_inv ?s" by (simp add: qpsk_inv_def example_test4_init_def qpsk_msg_init_def)
  obtain s' l r ms where step: "example_test4 cfg_example ?s 0 20 20 [] = Some (s', l, r, ms)"
    using example_test4_eq [OF inv] by blast
  then show ?thesis using qpsk_receiver_flag_never_cleared [OF inv step] by simp
qed

text \<open>C17. The button handler commutes with the part of the block handler after the atomic read-and-clear: a press during the rest of a block call has the same effect as a press right after it.\<close>

theorem qpsk_btnpress_commutes:
  "test4_rest cfg (fst (example_test4_btnpress s)) t0 t1 t2 micinp
     = map_option (\<lambda>(s', out). (fst (example_test4_btnpress s'), out)) (test4_rest cfg s t0 t1 t2 micinp)"
  by (simp add: test4_rest_def example_test4_btnpress_def Let_def split: option.split)

text \<open>C18. When the static assertion of line 412 holds, the reference blocks cos_ref and sin_ref computed once by example_test4_init, sent back to back as the transmitter does, are the carrier generated continuously over any number of blocks: there is no phase jump at a block boundary.\<close>

theorem qpsk_carrier_continuous:
  assumes "test4_build_ok cfg"
  shows "concat (replicate m (cos_ref (example_test4_init cfg now)))
           = blocks_gen_cos cfg QPSK_CARRIER_Hz 0 (m * AUDIO_BLOCKSIZE cfg)
         \<and> concat (replicate m (sin_ref (example_test4_init cfg now)))
           = blocks_gen_sin cfg QPSK_CARRIER_Hz 0 (m * AUDIO_BLOCKSIZE cfg)"
proof -
  obtain z where z: "real (AUDIO_BLOCKSIZE cfg) * QPSK_CARRIER_Hz / AUDIO_SAMPLE_RATE cfg = real_of_int z"
    using assms by (auto simp: test4_build_ok_def IS_INTEGER_def AUDIO_BLOCKTIME_s_def)
  show ?thesis
    using tone_blocks_periodic [of cos, OF cos_add_2pi_int z, where ph = 0 and m = m]
          tone_blocks_periodic [of sin, OF sin_add_2pi_int z, where ph = 0 and m = m]
    by (simp add: example_test4_init_def blocks_gen_cos_def blocks_gen_sin_def)
qed

theorem qpsk_carrier_continuous_witness:
  "test4_build_ok cfg_example
   \<and> concat (replicate 2 (cos_ref (example_test4_init cfg_example 0)))
       = blocks_gen_cos cfg_example QPSK_CARRIER_Hz 0 (2 * AUDIO_BLOCKSIZE cfg_example)"
proof -
  have b: "test4_build_ok cfg_example"
    by (simp add: test4_build_ok_def IS_INTEGER_def AUDIO_BLOCKTIME_s_def cfg_example_def QPSK_CARRIER_Hz_def)
  show ?thesis using b conjunct1 [OF qpsk_carrier_continuous [OF b, where m = 2 and now = 0]] by blast
qed

text \<open>With no transmission requested and the cursor idle, a block call outputs silence on both channels and the cursor stays idle.\<close>

theorem qpsk_idle_silence:
  assumes "qpsk_inv s" "\<not> qpsk_newmsg_g s" "curr_symbol s = -1"
    "example_test4 cfg s t0 t1 t2 micinp = Some (s', l, r, ms)"
  shows "l = replicate (AUDIO_BLOCKSIZE cfg) 0 \<and> r = replicate (AUDIO_BLOCKSIZE cfg) 0 \<and> curr_symbol s' = -1"
  using example_test4_eq [OF assms(1), of cfg t0 t1 t2 micinp] assms(2-4)
  by (auto simp: arm_fill_f32_def)

theorem qpsk_idle_silence_witness:
  "\<exists>s' l r ms. example_test4 cfg_example (example_test4_init cfg_example 0) 0 0 0 [] = Some (s', l, r, ms)
       \<and> l = replicate 512 0 \<and> curr_symbol s' = -1"
proof -
  have inv: "qpsk_inv (example_test4_init cfg_example 0)" by (rule test4_init_inv)
  obtain s' l r ms where step: "example_test4 cfg_example (example_test4_init cfg_example 0) 0 0 0 [] = Some (s', l, r, ms)"
    using example_test4_eq [OF inv] by blast
  then show ?thesis
    using qpsk_idle_silence [OF inv _ _ step] by (simp add: example_test4_init_def cfg_example_def)
qed

text \<open>The receiver's candidate for a symbol is the transmitter's block for that symbol, for each of the four symbols, and there is none for QPSK_SYM_NUM.\<close>

theorem qpsk_rx_tx_same_mapping:
  "qpsk_candidate cosr sinr x = Some (qpsk_tx_block cosr sinr x) \<longleftrightarrow> x \<in> set qpsk_syms"
  by (cases x) (simp_all add: qpsk_candidate_def qpsk_tx_block_def qpsk_inphase_scale_def
      qpsk_quadphase_scale_def qpsk_syms_def)

text \<open>C20. Once the receive deadline has passed at the first receiver test, a call with no new request reports nothing and leaves the deadline where it is: the receive window closes by itself.\<close>

theorem qpsk_window_closes:
  assumes "\<not> qpsk_newmsg_g s" "systime_get_delay_passed (receiver_timer s) t1"
    "example_test4 cfg s t0 t1 t2 micinp = Some (s', l, r, ms)"
  shows "ms = [] \<and> receiver_timer s' = receiver_timer s"
  using assms by (auto simp: example_test4_def test4_rest_def test4_fetch_def Let_def split: if_splits option.splits)

theorem qpsk_window_closes_witness:
  "\<exists>s' l r ms. example_test4 cfg_example (example_test4_init cfg_example 0) 0 0 0 [] = Some (s', l, r, ms) \<and> ms = []"
proof -
  have inv: "qpsk_inv (example_test4_init cfg_example 0)" by (rule test4_init_inv)
  obtain s' l r ms where step: "example_test4 cfg_example (example_test4_init cfg_example 0) 0 0 0 [] = Some (s', l, r, ms)"
    using example_test4_eq [OF inv] by blast
  then show ?thesis
    using qpsk_window_closes [OF _ _ step] by (simp add: example_test4_init_def systime_get_delay_passed_def systime_get_delay_def)
qed

text \<open>The symbol mapping is the grey code of the specification: the in-phase sign is positive exactly when the high bit of the symbol value is 0, the quadrature sign exactly when the low bit is 1 (00 to (+,-), 01 to (+,+), 11 to (-,+), 10 to (-,-)).\<close>

theorem qpsk_grey_code:
  "qpsk_inphase_scale x = (if qpsk_sym_index x div 2 = 0 then M_SQRT1_2 else - M_SQRT1_2)
   \<and> qpsk_quadphase_scale x = (if qpsk_sym_index x mod 2 = 1 then M_SQRT1_2 else - M_SQRT1_2)"
  by (cases x) (simp_all add: qpsk_inphase_scale_def qpsk_quadphase_scale_def)

end
