(* ===== verification/Monitor.thy ===== *)
theory Monitor
  imports Numerics
begin

text \<open>
  The two modes of \<open>example.c\<close> that only route blocks: \<open>SYSMODE_TEST1\<close>
  (lines 16--34) and the serial monitor \<open>SYSMODE_MONITOR\<close> (lines 586--664).
  A block handler's calls of \<open>blocks_sinks_leftout\<close> and
  \<open>blocks_sinks_rightout\<close> are kept as the list of writes in program order.
  A later write to a channel in the same block period replaces the earlier
  one, so the block a channel plays is its last write (\<open>sink_output\<close>). The
  monitor's counter \<open>count_1\<close> is its only state.
\<close>

section \<open>Output sinks\<close>

datatype sink_write = Leftout block | Rightout block

datatype channel = Left | Right

fun sink_channel :: "sink_write \<Rightarrow> channel" where
  "sink_channel (Leftout b) = Left"
| "sink_channel (Rightout b) = Right"

fun sink_block :: "sink_write \<Rightarrow> block" where
  "sink_block (Leftout b) = b"
| "sink_block (Rightout b) = b"

definition sink_output :: "channel \<Rightarrow> sink_write list \<Rightarrow> block option" where
  "sink_output ch ws = fold (\<lambda>w acc. if sink_channel w = ch then Some (sink_block w) else acc) ws None"

section \<open>Pass-through test\<close>

text \<open>\<open>example_test1\<close>, lines 22--33: the waveform to the left, the microphone to the right.\<close>

definition example_test1 :: "block \<Rightarrow> block \<Rightarrow> sink_write list" where
  "example_test1 micdata wavedata = [Leftout wavedata, Rightout micdata]"

section \<open>Serial monitor\<close>

definition MAX_COUNT :: int where "MAX_COUNT = 10"
definition MIN_COUNT :: int where "MIN_COUNT = 0"

record monitor_state =
  count_1 :: int

datatype monitor_msg =
  Msg_button_pressed | Msg_usage | Msg_invalid_key | Msg_key_pressed char | Msg_counter int

definition example_monitor_init :: monitor_state where
  "example_monitor_init = \<lparr>count_1 = MIN_COUNT\<rparr>"

definition example_monitor_btnpress :: "monitor_state \<Rightarrow> monitor_state \<times> monitor_msg list" where
  "example_monitor_btnpress s = (s, [Msg_button_pressed])"

definition example_monitor_btnpress_init :: "monitor_msg list" where
  "example_monitor_btnpress_init = [Msg_usage]"

text \<open>The key switch of lines 624--652.\<close>

definition monitor_key :: "monitor_state \<Rightarrow> char \<Rightarrow> monitor_state \<times> monitor_msg list" where
  "monitor_key s key =
     (if key = CHR ''n'' \<or> key = CHR ''f'' \<or> key = CHR ''r'' \<or> key = CHR ''b'' then
        (s, [Msg_key_pressed key])
      else if key = CHR ''+'' then
        (let c = (if count_1 s < MAX_COUNT then count_1 s + 1 else count_1 s)
         in (s\<lparr>count_1 := c\<rparr>, [Msg_counter c]))
      else if key = CHR ''-'' then
        (let c = (if count_1 s > MIN_COUNT then count_1 s - 1 else count_1 s)
         in (s\<lparr>count_1 := c\<rparr>, [Msg_counter c]))
      else (s, [Msg_invalid_key]))"

text \<open>
  \<open>example_monitor\<close>, lines 609--662: pass the blocks through, handle the
  key returned by \<open>board_get_usart_char\<close>, if any, then write a zero block
  to both channels.
\<close>

definition example_monitor ::
  "config \<Rightarrow> monitor_state \<Rightarrow> block \<Rightarrow> block \<Rightarrow> char option
   \<Rightarrow> monitor_state \<times> sink_write list \<times> monitor_msg list" where
  "example_monitor cfg s micdata wavedata key =
     (let (s', msgs) = (case key of None \<Rightarrow> (s, []) | Some k \<Rightarrow> monitor_key s k);
          output = arm_fill_f32 0 (AUDIO_BLOCKSIZE cfg)
      in (s', [Leftout wavedata, Rightout micdata, Leftout output, Rightout output], msgs))"

inductive monitor_reachable :: "config \<Rightarrow> monitor_state \<Rightarrow> bool" for cfg where
  init: "monitor_reachable cfg example_monitor_init"
| btnpress: "monitor_reachable cfg s \<Longrightarrow> monitor_reachable cfg (fst (example_monitor_btnpress s))"
| block: "monitor_reachable cfg s \<Longrightarrow> monitor_reachable cfg (fst (example_monitor cfg s mic wave key))"

section \<open>Lemmas\<close>

lemma sink_output_append [simp]:
  "sink_output ch (ws @ [w]) = (if sink_channel w = ch then Some (sink_block w) else sink_output ch ws)"
  by (simp add: sink_output_def)

lemma sink_output_Nil [simp]: "sink_output ch [] = None"
  by (simp add: sink_output_def)

lemma monitor_key_count:
  "MIN_COUNT \<le> count_1 s \<Longrightarrow> count_1 s \<le> MAX_COUNT \<Longrightarrow>
   MIN_COUNT \<le> count_1 (fst (monitor_key s k)) \<and> count_1 (fst (monitor_key s k)) \<le> MAX_COUNT"
  by (auto simp: monitor_key_def Let_def MIN_COUNT_def MAX_COUNT_def)

lemma example_monitor_state:
  "fst (example_monitor cfg s mic wave key) = (case key of None \<Rightarrow> s | Some k \<Rightarrow> fst (monitor_key s k))"
  by (simp add: example_monitor_def Let_def split: option.split prod.split)

section \<open>Properties of the pass-through and monitor modes\<close>

text \<open>C21. In every reachable state of the monitor the counter lies in [MIN_COUNT, MAX_COUNT]: the '+' and '-' keys saturate at the bounds.\<close>

theorem monitor_count_bounds:
  assumes "monitor_reachable cfg s"
  shows "MIN_COUNT \<le> count_1 s \<and> count_1 s \<le> MAX_COUNT"
  using assms
proof (induction rule: monitor_reachable.induct)
  case init
  then show ?case by (simp add: example_monitor_init_def MIN_COUNT_def MAX_COUNT_def)
next
  case (btnpress s)
  then show ?case by (simp add: example_monitor_btnpress_def)
next
  case (block s mic wave key)
  then show ?case by (auto simp: example_monitor_state monitor_key_count split: option.split)
qed

theorem monitor_count_bounds_witness:
  "monitor_reachable cfg_example (fst (example_monitor cfg_example example_monitor_init [] [] (Some CHR ''+'')))
   \<and> count_1 (fst (example_monitor cfg_example example_monitor_init [] [] (Some CHR ''+''))) = 1"
proof -
  have r: "monitor_reachable cfg_example (fst (example_monitor cfg_example example_monitor_init [] [] (Some CHR ''+'')))"
    by (rule monitor_reachable.block [OF monitor_reachable.init])
  have "count_1 (fst (example_monitor cfg_example example_monitor_init [] [] (Some CHR ''+''))) \<le> MAX_COUNT"
    using monitor_count_bounds [OF r] by simp
  then show ?thesis using r
    by (simp add: example_monitor_def monitor_key_def example_monitor_init_def MIN_COUNT_def MAX_COUNT_def Let_def)
qed

text \<open>C22. Whatever the input blocks and the key, both channels of the monitor play a zero block of AUDIO_BLOCKSIZE samples: the pass-through writes of lines 618--619 are replaced by the zero block written on lines 660--661.\<close>

theorem monitor_outputs_silence:
  "sink_output Left (fst (snd (example_monitor cfg s mic wave key))) = Some (replicate (AUDIO_BLOCKSIZE cfg) 0)
   \<and> sink_output Right (fst (snd (example_monitor cfg s mic wave key))) = Some (replicate (AUDIO_BLOCKSIZE cfg) 0)"
proof -
  have "fst (snd (example_monitor cfg s mic wave key))
        = [Leftout wave, Rightout mic] @ [Leftout (replicate (AUDIO_BLOCKSIZE cfg) 0)]
          @ [Rightout (replicate (AUDIO_BLOCKSIZE cfg) 0)]"
    by (simp add: example_monitor_def arm_fill_f32_def Let_def split: prod.split)
  then show ?thesis by (simp only: append_assoc [symmetric] sink_output_append) simp
qed

end
