(* ===== verification/Radar.thy ===== *)
theory Radar
  imports Numerics
begin

text \<open>
  The two acoustic ranging modes of \<open>example.c\<close>: \<open>SYSMODE_RADAR\<close> (lines
  666--742), which sends a chirp every two seconds and correlates the
  microphone block three block calls later, and \<open>SYSMODE_RADAR2\<close> (lines
  744--822), which correlates every block and reports averages over
  \<open>RADAR_PRINT_DELAY\<close> blocks.

  The sizes and the chirp band are defined outside the sources (\<open>config.h\<close>).
  They are the fields of the record \<open>radar_config\<close>. C undefined behaviour
  is \<^const>\<open>None\<close>: a store of the chirp outside \<open>radar_buffer\<close>, a correlation
  longer than \<open>corr_result\<close>, and overflow of the 32-bit \<open>int\<close> counters of
  the averaging variant.
\<close>

section \<open>Configuration and external functions\<close>

record radar_config =
  RADAR_SIZE :: nat
  RADAR_OFFSET :: nat
  CORR_SIZE :: nat
  RADAR_F_START :: real
  RADAR_F_STOP :: real
  RADAR_PRINT_DELAY :: int

text \<open>The sizes for which the buffers of the two modes are large enough.\<close>

definition radar_cfg_ok :: "radar_config \<Rightarrow> config \<Rightarrow> bool" where
  "radar_cfg_ok rc cfg \<longleftrightarrow>
     RADAR_OFFSET rc + RADAR_SIZE rc \<le> AUDIO_BLOCKSIZE cfg
     \<and> 2 * max (AUDIO_BLOCKSIZE cfg) (RADAR_SIZE rc) - 1 \<le> CORR_SIZE rc"

text \<open>\<open>arm_sin_f32\<close> of CMSIS-DSP: the sine of an angle in radians.\<close>

definition arm_sin_f32 :: "real \<Rightarrow> real" where
  "arm_sin_f32 x = sin x"

text \<open>
  \<open>arm_correlate_f32 a b\<close> of CMSIS-DSP for \<open>length a \<ge> length b\<close>: the
  \<open>2 * M - 1\<close> values (\<open>M = max (length a) (length b)\<close>) of the cross-correlation,
  value \<open>i\<close> at lag \<open>n = i - (M - 1)\<close>, \<open>\<Sum>j. a[j + n] * b[j]\<close>, with \<open>a\<close> read
  as 0 outside its range.
\<close>

definition sig_at :: "block \<Rightarrow> int \<Rightarrow> real" where
  "sig_at a k = (if 0 \<le> k \<and> k < int (length a) then a ! nat k else 0)"

definition corr_at :: "block \<Rightarrow> block \<Rightarrow> nat \<Rightarrow> real" where
  "corr_at a b i =
     (\<Sum>j\<leftarrow>[0..<length b]. sig_at a (int j + int i - int (max (length a) (length b) - 1)) * b ! j)"

definition arm_correlate_f32 :: "block \<Rightarrow> block \<Rightarrow> block" where
  "arm_correlate_f32 a b = map (corr_at a b) [0..<2 * max (length a) (length b) - 1]"

text \<open>Writing a block into the start of a buffer, out of bounds if it is longer.\<close>

definition store_prefix :: "block \<Rightarrow> block \<Rightarrow> block option" where
  "store_prefix dst src = (if length src \<le> length dst then Some (src @ drop (length src) dst) else None)"

text \<open>A 32-bit C \<open>int\<close> result: \<^const>\<open>None\<close> where the operation overflows.\<close>

definition c_int :: "int \<Rightarrow> int option" where
  "c_int x = (if - (2 ^ 31) \<le> x \<and> x < 2 ^ 31 then Some x else None)"

section \<open>The chirp\<close>

text \<open>
  Lines 679--681 and 762--764: \<open>df\<close> and \<open>f0\<close> in cycles per sample; line 688:
  sample \<open>i\<close> of the chirp is \<open>arm_sin_f32 (i * (f0 + i * df))\<close>.
\<close>

definition radar_df :: "radar_config \<Rightarrow> config \<Rightarrow> real" where
  "radar_df rc cfg = (RADAR_F_STOP rc - RADAR_F_START rc) / real (RADAR_SIZE rc) / AUDIO_SAMPLE_RATE cfg"

definition radar_f0 :: "radar_config \<Rightarrow> config \<Rightarrow> real" where
  "radar_f0 rc cfg = RADAR_F_START rc / AUDIO_SAMPLE_RATE cfg"

definition radar_phase :: "radar_config \<Rightarrow> config \<Rightarrow> nat \<Rightarrow> real" where
  "radar_phase rc cfg i = real i * (radar_f0 rc cfg + real i * radar_df rc cfg)"

definition radar_chirp :: "radar_config \<Rightarrow> config \<Rightarrow> real \<Rightarrow> block" where
  "radar_chirp rc cfg amp = map (\<lambda>i. amp * arm_sin_f32 (radar_phase rc cfg i)) [0..<RADAR_SIZE rc]"

text \<open>Lines 687--690: the loop that also copies the chirp into \<open>radar_buffer\<close> at \<open>RADAR_OFFSET\<close>.\<close>

definition radar_fill_buffer :: "nat \<Rightarrow> block \<Rightarrow> block \<Rightarrow> block option" where
  "radar_fill_buffer off chirp buf =
     fold (\<lambda>i acc. Option.bind acc (\<lambda>b. array_store b (int i + int off) (chirp ! i))) [0..<length chirp] (Some buf)"

text \<open>Lines 705--712 and 787--794: the first index of the largest value, starting from \<open>max = 0\<close>.\<close>

definition radar_peak_scan :: "block \<Rightarrow> nat \<times> real" where
  "radar_peak_scan corr =
     fold (\<lambda>i (max_i, m). if m < corr ! i then (i, corr ! i) else (max_i, m)) [0..<length corr] (0, 0)"

text \<open>The correlation step shared by both modes: correlate into the buffer, take magnitudes.\<close>

definition radar_correlate :: "block \<Rightarrow> block \<Rightarrow> block \<Rightarrow> block option" where
  "radar_correlate corr micdata chirp = map_option arm_abs_f32 (store_prefix corr (arm_correlate_f32 micdata chirp))"

section \<open>Single-shot radar (SYSMODE_RADAR)\<close>

record radar_state =
  radar_waveform :: block
  radar_buffer :: block
  radar_zerobuffer :: block
  corr_result :: block
  tx_timer :: nat
  radar_trig :: int
  radar_trig_delay :: int
  index_0 :: int

datatype radar_msg =
  Msg_f0 real | Msg_range nat real real int | Msg_invalid_key | Msg_zero_distance

text \<open>\<open>example_radar_init\<close>, lines 677--691, on the globals' initial values (lines 672--675).\<close>

definition example_radar_init :: "radar_config \<Rightarrow> config \<Rightarrow> (radar_state \<times> radar_msg list) option" where
  "example_radar_init rc cfg =
     (let chirp = radar_chirp rc cfg 1; N = AUDIO_BLOCKSIZE cfg
      in map_option (\<lambda>buf.
            (\<lparr>radar_waveform = chirp, radar_buffer = buf, radar_zerobuffer = arm_fill_f32 0 N,
              corr_result = arm_fill_f32 0 (CORR_SIZE rc), tx_timer = 0, radar_trig = 0,
              radar_trig_delay = 0, index_0 = 0\<rparr>, [Msg_f0 (radar_f0 rc cfg)]))
           (radar_fill_buffer (RADAR_OFFSET rc) chirp (arm_fill_f32 0 N)))"

text \<open>
  The measurement of lines 702--727: correlate, scan, report, then poll the
  serial port. \<open>key\<close> is what \<open>board_get_usart_char\<close> returns when polled.
\<close>

definition radar_measure ::
  "config \<Rightarrow> radar_state \<Rightarrow> block \<Rightarrow> char option \<Rightarrow> (radar_state \<times> radar_msg list) option" where
  "radar_measure cfg s micdata key =
     (case radar_correlate (arm_fill_f32 0 (length (corr_result s))) micdata (radar_waveform s) of
        None \<Rightarrow> None
      | Some corr \<Rightarrow>
          (let (max_i, m) = radar_peak_scan corr;
               msg = Msg_range max_i (real_of_int (int max_i - index_0 s) * 343 / AUDIO_SAMPLE_RATE cfg) m (index_0 s);
               s1 = s\<lparr>corr_result := corr, radar_trig := 0\<rparr>
           in Some (case key of
                      None \<Rightarrow> (s1, [msg])
                    | Some k \<Rightarrow>
                        if k = CHR ''r'' then (s1\<lparr>index_0 := int max_i\<rparr>, [msg, Msg_zero_distance])
                        else (s1, [msg, Msg_invalid_key]))))"

text \<open>
  \<open>example_radar\<close>, lines 693--741. \<open>now\<close> is the clock reading of
  \<open>systime_get_delay_passed\<close> on line 731. The decrement of line 700 is evaluated
  only when \<open>radar_trig\<close> is set (\<open>&&\<close> short-circuits). The result holds the
  new state, the left and right output blocks, and the printed lines.
\<close>

definition example_radar ::
  "config \<Rightarrow> radar_state \<Rightarrow> block \<Rightarrow> nat \<Rightarrow> char option
   \<Rightarrow> (radar_state \<times> block \<times> block \<times> radar_msg list) option" where
  "example_radar cfg s micdata now key =
     (let s0 = (if radar_trig s \<noteq> 0 then s\<lparr>radar_trig_delay := radar_trig_delay s - 1\<rparr> else s);
          r1 = (if radar_trig s \<noteq> 0 \<and> radar_trig_delay s - 1 = 0 then radar_measure cfg s0 micdata key
                else Some (s0, []))
      in case r1 of
           None \<Rightarrow> None
         | Some (s1, msgs) \<Rightarrow>
             if systime_get_delay_passed (tx_timer s1) now then
               Some (s1\<lparr>tx_timer := systime_get_delay (S2US 2) now, radar_trig := 1, radar_trig_delay := 3\<rparr>,
                     radar_zerobuffer s1, radar_buffer s1, msgs)
             else Some (s1, radar_zerobuffer s1, radar_zerobuffer s1, msgs))"

inductive radar_reachable :: "radar_config \<Rightarrow> config \<Rightarrow> radar_state \<Rightarrow> bool" for rc cfg where
  init: "example_radar_init rc cfg = Some (s, msgs) \<Longrightarrow> radar_reachable rc cfg s"
| block: "radar_reachable rc cfg s \<Longrightarrow> example_radar cfg s micdata now key = Some (s', l, r, msgs)
          \<Longrightarrow> radar_reachable rc cfg s'"

section \<open>Averaging radar (SYSMODE_RADAR2)\<close>

record radar2_state =
  radar2_waveform :: block
  radar2_buffer :: block
  radar2_zerobuffer :: block
  corr_result2 :: block
  radar_print_cnt :: int
  index_0_f :: real
  max_i_average :: int
  max_i_average_f :: real
  max_average :: real

datatype radar2_msg = Msg_range_avg real real real real | Msg2_invalid_key | Msg2_zero_distance

text \<open>\<open>example_radar_init\<close> of the variant, lines 757--774; \<open>max_i_average_f\<close> keeps its zero initial value.\<close>

definition example_radar2_init :: "radar_config \<Rightarrow> config \<Rightarrow> radar2_state option" where
  "example_radar2_init rc cfg =
     (let chirp = radar_chirp rc cfg (1/2); N = AUDIO_BLOCKSIZE cfg
      in map_option (\<lambda>buf.
            \<lparr>radar2_waveform = chirp, radar2_buffer = buf, radar2_zerobuffer = arm_fill_f32 0 N,
             corr_result2 = arm_fill_f32 0 (CORR_SIZE rc), radar_print_cnt = RADAR_PRINT_DELAY rc,
             index_0_f = 0, max_i_average = 0, max_i_average_f = 0, max_average = 0\<rparr>)
           (radar_fill_buffer (RADAR_OFFSET rc) chirp (arm_fill_f32 0 N)))"

text \<open>
  The report of lines 798--817, once the countdown has reached zero: average,
  print, poll the serial port, reset the accumulators.
\<close>

definition radar2_report ::
  "radar_config \<Rightarrow> config \<Rightarrow> radar2_state \<Rightarrow> char option \<Rightarrow> radar2_state \<times> radar2_msg list" where
  "radar2_report rc cfg s key =
     (let f = real_of_int (max_i_average s) / real_of_int (RADAR_PRINT_DELAY rc);
          avg = max_average s / real_of_int (RADAR_PRINT_DELAY rc);
          msg = Msg_range_avg f ((f - index_0_f s) * 343 / AUDIO_SAMPLE_RATE cfg) avg (index_0_f s);
          (s1, msgs) = (case key of
                          None \<Rightarrow> (s, [msg])
                        | Some k \<Rightarrow> if k = CHR ''r'' then (s\<lparr>index_0_f := f\<rparr>, [msg, Msg2_zero_distance])
                                    else (s, [msg, Msg2_invalid_key]))
      in (s1\<lparr>max_i_average_f := f, radar_print_cnt := RADAR_PRINT_DELAY rc, max_i_average := 0,
             max_average := 0\<rparr>, msgs))"

text \<open>\<open>example_radar\<close> of the variant, lines 776--821.\<close>

definition example_radar2 ::
  "radar_config \<Rightarrow> config \<Rightarrow> radar2_state \<Rightarrow> block \<Rightarrow> char option
   \<Rightarrow> (radar2_state \<times> block \<times> block \<times> radar2_msg list) option" where
  "example_radar2 rc cfg s micdata key =
     (case radar_correlate (corr_result2 s) micdata (radar2_waveform s) of
        None \<Rightarrow> None
      | Some corr \<Rightarrow>
          (let (max_i, m) = radar_peak_scan corr
           in case c_int (max_i_average s + int max_i) of
                None \<Rightarrow> None
              | Some avg \<Rightarrow>
                  (case c_int (radar_print_cnt s - 1) of
                     None \<Rightarrow> None
                   | Some cnt \<Rightarrow>
                       (let s1 = s\<lparr>corr_result2 := corr, max_i_average := avg,
                                   max_average := max_average s + m, radar_print_cnt := cnt\<rparr>;
                            (s2, msgs) = (if cnt = 0 then radar2_report rc cfg s1 key else (s1, []))
                        in Some (s2, radar2_zerobuffer s2, radar2_buffer s2, msgs)))))"

inductive radar2_reachable :: "radar_config \<Rightarrow> config \<Rightarrow> radar2_state \<Rightarrow> bool" for rc cfg where
  init: "example_radar2_init rc cfg = Some s \<Longrightarrow> radar2_reachable rc cfg s"
| block: "radar2_reachable rc cfg s \<Longrightarrow> example_radar2 rc cfg s micdata key = Some (s', l, r, msgs)
          \<Longrightarrow> radar2_reachable rc cfg s'"

section \<open>Specifications, invariants and runs\<close>

text \<open>What the peak scan has found after the first \<open>n\<close> values.\<close>

definition peak_inv :: "block \<Rightarrow> nat \<Rightarrow> nat \<times> real \<Rightarrow> bool" where
  "peak_inv xs n r \<longleftrightarrow>
     (case r of (i, m) \<Rightarrow>
        (i = 0 \<and> m = 0 \<and> (\<forall>j<n. xs ! j \<le> 0))
        \<or> (0 < m \<and> i < n \<and> m = xs ! i \<and> (\<forall>j<n. xs ! j \<le> m) \<and> (\<forall>j<i. xs ! j < m)))"

text \<open>Buffer lengths of the single-shot radar.\<close>

definition radar_inv :: "radar_config \<Rightarrow> radar_state \<Rightarrow> bool" where
  "radar_inv rc s \<longleftrightarrow> length (radar_waveform s) = RADAR_SIZE rc \<and> length (corr_result s) = CORR_SIZE rc"

text \<open>A microphone block of \<open>n\<close> samples holding the echo \<open>b\<close> delayed by \<open>d\<close> samples, and the energy of a block.\<close>

definition radar_echo :: "nat \<Rightarrow> block \<Rightarrow> nat \<Rightarrow> block" where
  "radar_echo n b d = replicate d 0 @ b @ replicate (n - d - length b) 0"

definition energy :: "block \<Rightarrow> real" where
  "energy xs = sum_list (map (\<lambda>x. x * x) xs)"

text \<open>Sizes for which the averaging radar's counters stay within a 32-bit \<open>int\<close>, and its invariant.\<close>

definition radar2_cfg_ok :: "radar_config \<Rightarrow> config \<Rightarrow> bool" where
  "radar2_cfg_ok rc cfg \<longleftrightarrow> radar_cfg_ok rc cfg \<and> 1 \<le> RADAR_PRINT_DELAY rc
     \<and> RADAR_PRINT_DELAY rc < 2 ^ 31 \<and> RADAR_PRINT_DELAY rc * int (CORR_SIZE rc) < 2 ^ 31"

definition radar2_inv :: "radar_config \<Rightarrow> radar2_state \<Rightarrow> bool" where
  "radar2_inv rc s \<longleftrightarrow> length (radar2_waveform s) = RADAR_SIZE rc \<and> length (corr_result2 s) = CORR_SIZE rc
     \<and> 1 \<le> radar_print_cnt s \<and> radar_print_cnt s \<le> RADAR_PRINT_DELAY rc
     \<and> 0 \<le> max_i_average s \<and> max_i_average s \<le> (RADAR_PRINT_DELAY rc - radar_print_cnt s) * int (CORR_SIZE rc)
     \<and> (radar_print_cnt s = RADAR_PRINT_DELAY rc \<longrightarrow> max_average s = 0)"

text \<open>Consecutive block calls of the averaging radar, with the state after each call and its printed lines.\<close>

fun radar2_run ::
  "radar_config \<Rightarrow> config \<Rightarrow> radar2_state \<Rightarrow> (block \<times> char option) list
   \<Rightarrow> (radar2_state \<times> radar2_msg list) list option" where
  "radar2_run rc cfg s [] = Some []"
| "radar2_run rc cfg s ((micdata, key) # ins) =
     (case example_radar2 rc cfg s micdata key of
        None \<Rightarrow> None
      | Some (s', l, r, msgs) \<Rightarrow> map_option (\<lambda>tr. (s', msgs) # tr) (radar2_run rc cfg s' ins))"

definition radar2_peak_sum :: "(radar2_state \<times> radar2_msg list) list \<Rightarrow> int" where
  "radar2_peak_sum tr = sum_list (map (\<lambda>x. int (fst (radar_peak_scan (corr_result2 (fst x))))) tr)"

definition radar2_amp_sum :: "(radar2_state \<times> radar2_msg list) list \<Rightarrow> real" where
  "radar2_amp_sum tr = sum_list (map (\<lambda>x. snd (radar_peak_scan (corr_result2 (fst x)))) tr)"

text \<open>
  Example sizes for the concrete instances of the theorems: a 64-sample chirp at
  offset 16 in a 512-sample block, a correlation buffer of 2 * 512 - 1 values,
  averages over 10 blocks. The second pair is a one-sample instance.
\<close>

definition radar_cfg_example :: radar_config where
  "radar_cfg_example = \<lparr>RADAR_SIZE = 64, RADAR_OFFSET = 16, CORR_SIZE = 1023, RADAR_F_START = 2000,
     RADAR_F_STOP = 6000, RADAR_PRINT_DELAY = 10\<rparr>"

definition radar_cfg_unit :: radar_config where
  "radar_cfg_unit = \<lparr>RADAR_SIZE = 1, RADAR_OFFSET = 0, CORR_SIZE = 1, RADAR_F_START = 2000,
     RADAR_F_STOP = 6000, RADAR_PRINT_DELAY = 1\<rparr>"

definition cfg_unit :: config where
  "cfg_unit = \<lparr>AUDIO_BLOCKSIZE = 1, AUDIO_SAMPLE_RATE = 16000\<rparr>"

definition radar_unit_state :: radar_state where
  "radar_unit_state = \<lparr>radar_waveform = [1], radar_buffer = [0], radar_zerobuffer = [0], corr_result = [0],
     tx_timer = 0, radar_trig = 1, radar_trig_delay = 1, index_0 = 0\<rparr>"

section \<open>Lemmas\<close>

lemma radar_fill_prefix:
  assumes "n \<le> length chirp"
  shows "fold (\<lambda>i acc. Option.bind acc (\<lambda>b. array_store b (int i + int off) (chirp ! i))) [0..<n] (Some buf)
         = (if off + n \<le> length buf \<or> n = 0
            then Some (map (\<lambda>k. if off \<le> k \<and> k < off + n then chirp ! (k - off) else buf ! k) [0..<length buf])
            else None)"
  using assms
proof (induction n)
  case 0
  have "map (\<lambda>k. if off \<le> k \<and> k < off + 0 then chirp ! (k - off) else buf ! k) [0..<length buf] = buf"
    by (rule nth_equalityI) auto
  then show ?case by simp
next
  case (Suc n)
  let ?L = "map (\<lambda>k. if off \<le> k \<and> k < off + n then chirp ! (k - off) else buf ! k) [0..<length buf]"
  show ?case
  proof (cases "off + Suc n \<le> length buf")
    case True
    then have "?L[n + off := chirp ! n]
               = map (\<lambda>k. if off \<le> k \<and> k < off + Suc n then chirp ! (k - off) else buf ! k) [0..<length buf]"
      by (intro nth_equalityI) (auto simp: nth_list_update)
    moreover have "off + n \<le> length buf" using True by simp
    ultimately show ?thesis using True Suc by (simp add: nat_add_distrib)
  next
    case False
    then show ?thesis using Suc by (cases n) (auto simp: nat_add_distrib)
  qed
qed

lemma radar_fill_buffer_eq:
  "radar_fill_buffer off chirp buf
     = (if off + length chirp \<le> length buf \<or> chirp = []
        then Some (map (\<lambda>k. if off \<le> k \<and> k < off + length chirp then chirp ! (k - off) else buf ! k) [0..<length buf])
        else None)"
  unfolding radar_fill_buffer_def using radar_fill_prefix [of "length chirp" chirp off buf] by simp

lemma radar_peak_scan_prefix:
  "n \<le> length xs \<Longrightarrow>
   peak_inv xs n (fold (\<lambda>i (max_i, m). if m < xs ! i then (i, xs ! i) else (max_i, m)) [0..<n] (0, 0))"
proof (induction n)
  case 0
  then show ?case by (simp add: peak_inv_def)
next
  case (Suc n)
  obtain i m where r: "fold (\<lambda>i (max_i, m). if m < xs ! i then (i, xs ! i) else (max_i, m)) [0..<n] (0, 0) = (i, m)"
    by fastforce
  with Suc have "peak_inv xs n (i, m)" by simp
  then show ?case
    using r by (auto simp: peak_inv_def less_Suc_eq)
qed

lemma radar_peak_scan_spec:
  "peak_inv xs (length xs) (radar_peak_scan xs)"
  unfolding radar_peak_scan_def by (rule radar_peak_scan_prefix) simp

lemma store_prefix_Some [simp]:
  "length src \<le> length dst \<Longrightarrow> store_prefix dst src = Some (src @ drop (length src) dst)"
  by (simp add: store_prefix_def)

lemma arm_correlate_length [simp]:
  "length (arm_correlate_f32 a b) = 2 * max (length a) (length b) - 1"
  by (simp add: arm_correlate_f32_def)

lemma radar_correlate_Some:
  assumes "radar_cfg_ok rc cfg" "length micdata = AUDIO_BLOCKSIZE cfg" "length chirp = RADAR_SIZE rc"
    "length corr = CORR_SIZE rc"
  shows "\<exists>c. radar_correlate corr micdata chirp = Some c \<and> length c = CORR_SIZE rc"
proof -
  have "length (arm_correlate_f32 micdata chirp) \<le> length corr"
    using assms by (auto simp: radar_cfg_ok_def max_def)
  then show ?thesis using assms(4) by (simp add: radar_correlate_def arm_abs_f32_def)
qed

lemma radar_measure_Some:
  assumes "radar_cfg_ok rc cfg" "radar_inv rc s" "length micdata = AUDIO_BLOCKSIZE cfg"
  shows "\<exists>s' ms. radar_measure cfg s micdata key = Some (s', ms) \<and> radar_inv rc s' \<and> radar_trig s' = 0
           \<and> radar_trig_delay s' = radar_trig_delay s \<and> tx_timer s' = tx_timer s
           \<and> radar_buffer s' = radar_buffer s \<and> radar_zerobuffer s' = radar_zerobuffer s
           \<and> (\<exists>i d a z. hd ms = Msg_range i d a z)"
proof -
  obtain c where c: "radar_correlate (arm_fill_f32 0 (length (corr_result s))) micdata (radar_waveform s) = Some c"
    "length c = CORR_SIZE rc"
    using radar_correlate_Some [OF assms(1,3), of "radar_waveform s" "arm_fill_f32 0 (length (corr_result s))"]
      assms(2) by (auto simp: radar_inv_def arm_fill_f32_def)
  obtain i m where p: "radar_peak_scan c = (i, m)" by fastforce
  show ?thesis using c p assms(2)
    by (auto simp: radar_measure_def radar_inv_def Let_def split: option.split)
qed

lemma example_radar_Some:
  assumes "radar_cfg_ok rc cfg" "radar_inv rc s" "length micdata = AUDIO_BLOCKSIZE cfg"
  shows "\<exists>s' l r ms. example_radar cfg s micdata now key = Some (s', l, r, ms) \<and> radar_inv rc s'"
proof (cases "radar_trig s \<noteq> 0 \<and> radar_trig_delay s - 1 = 0")
  case True
  have "radar_inv rc (s\<lparr>radar_trig_delay := radar_trig_delay s - 1\<rparr>)"
    using assms(2) by (simp add: radar_inv_def)
  from radar_measure_Some [OF assms(1) this assms(3), of key] True show ?thesis
    by (auto simp: example_radar_def Let_def radar_inv_def)
next
  case False
  then show ?thesis using assms(2) by (auto simp: example_radar_def Let_def radar_inv_def)
qed

lemma radar_init_Some:
  assumes "radar_cfg_ok rc cfg"
  shows "\<exists>s ms. example_radar_init rc cfg = Some (s, ms) \<and> radar_inv rc s"
  using assms
  by (auto simp: example_radar_init_def radar_fill_buffer_eq radar_cfg_ok_def radar_inv_def
      radar_chirp_def arm_fill_f32_def Let_def)

lemma radar_reachable_inv:
  assumes "radar_cfg_ok rc cfg" "radar_reachable rc cfg s"
  shows "radar_inv rc s"
  using assms(2)
proof (induction rule: radar_reachable.induct)
  case (init s msgs)
  then show ?case using radar_init_Some [OF assms(1)] by auto
next
  case (block s micdata now key s' l r msgs)
  then show ?case by (auto simp: example_radar_def Let_def radar_inv_def radar_measure_def
      radar_correlate_def store_prefix_def arm_abs_f32_def arm_fill_f32_def split: if_splits option.splits prod.splits)
qed

lemma example_radar_wait:
  assumes "radar_trig s = 1" "2 \<le> radar_trig_delay s" "\<not> systime_get_delay_passed (tx_timer s) now"
  shows "example_radar cfg s micdata now key
           = Some (s\<lparr>radar_trig_delay := radar_trig_delay s - 1\<rparr>, radar_zerobuffer s, radar_zerobuffer s, [])"
  using assms by (simp add: example_radar_def Let_def)

lemma example_radar_fires:
  assumes "radar_cfg_ok rc cfg" "radar_inv rc s" "radar_trig s = 1" "radar_trig_delay s = 1"
    "\<not> systime_get_delay_passed (tx_timer s) now" "length micdata = AUDIO_BLOCKSIZE cfg"
  shows "\<exists>s' ms. example_radar cfg s micdata now key = Some (s', radar_zerobuffer s, radar_zerobuffer s, ms)
           \<and> radar_inv rc s' \<and> radar_trig s' = 0 \<and> (\<exists>i d a z. hd ms = Msg_range i d a z)"
proof -
  have "radar_inv rc (s\<lparr>radar_trig_delay := 0\<rparr>)" using assms(2) by (simp add: radar_inv_def)
  from radar_measure_Some [OF assms(1) this assms(6), of key]
  obtain s' ms where m: "radar_measure cfg (s\<lparr>radar_trig_delay := 0\<rparr>) micdata key = Some (s', ms)"
    "radar_inv rc s'" "radar_trig s' = 0" "tx_timer s' = tx_timer s" "radar_zerobuffer s' = radar_zerobuffer s"
    "\<exists>i d a z. hd ms = Msg_range i d a z"
    by auto
  show ?thesis using assms(3-5) m by (auto simp: example_radar_def Let_def)
qed

lemma example_radar_transmits:
  assumes "radar_cfg_ok rc cfg" "radar_inv rc s" "systime_get_delay_passed (tx_timer s) now"
    "length micdata = AUDIO_BLOCKSIZE cfg"
  shows "\<exists>s' ms. example_radar cfg s micdata now key = Some (s', radar_zerobuffer s, radar_buffer s, ms)
           \<and> radar_inv rc s' \<and> radar_trig s' = 1 \<and> radar_trig_delay s' = 3
           \<and> tx_timer s' = now + S2US 2"
proof (cases "radar_trig s \<noteq> 0 \<and> radar_trig_delay s - 1 = 0")
  case True
  have "radar_inv rc (s\<lparr>radar_trig_delay := radar_trig_delay s - 1\<rparr>)" using assms(2) by (simp add: radar_inv_def)
  from radar_measure_Some [OF assms(1) this assms(4), of key]
  obtain s' ms where m: "radar_measure cfg (s\<lparr>radar_trig_delay := radar_trig_delay s - 1\<rparr>) micdata key = Some (s', ms)"
    "radar_inv rc s'" "tx_timer s' = tx_timer s" "radar_zerobuffer s' = radar_zerobuffer s"
    "radar_buffer s' = radar_buffer s"
    by auto
  show ?thesis using True assms(3) m
    by (auto simp: example_radar_def Let_def radar_inv_def systime_get_delay_def)
next
  case False
  then show ?thesis using assms(2,3)
    by (auto simp: example_radar_def Let_def radar_inv_def systime_get_delay_def)
qed

lemma energy_nth: "energy xs = (\<Sum>k<length xs. xs ! k * xs ! k)"
  by (simp add: energy_def sum_list_sum_nth atLeast0LessThan)

lemma energy_nonneg: "0 \<le> energy xs"
  unfolding energy_nth by (intro sum_nonneg) simp

lemma energy_echo: "energy (radar_echo n b d) = energy b"
  by (simp add: energy_def radar_echo_def sum_list_replicate)

lemma sig_at_window_energy:
  "(\<Sum>j<r. sig_at a (int j + c) * sig_at a (int j + c)) \<le> energy a"
proof -
  let ?J = "{j. j < r \<and> 0 \<le> int j + c \<and> int j + c < int (length a)}"
  let ?h = "\<lambda>j. nat (int j + c)"
  have "(\<Sum>j<r. sig_at a (int j + c) * sig_at a (int j + c)) = (\<Sum>j\<in>?J. a ! ?h j * a ! ?h j)"
    by (rule sum.mono_neutral_cong_right) (auto simp: sig_at_def)
  also have "\<dots> = (\<Sum>k\<in>?h ` ?J. a ! k * a ! k)"
    by (subst sum.reindex) (auto simp: inj_on_def)
  also have "\<dots> \<le> (\<Sum>k<length a. a ! k * a ! k)"
    by (rule sum_mono2) auto
  finally show ?thesis by (simp add: energy_nth)
qed

lemma corr_at_bound:
  "\<bar>corr_at a b i\<bar> \<le> (energy a + energy b) / 2"
proof -
  let ?c = "int i - int (max (length a) (length b) - 1)"
  let ?x = "\<lambda>j. sig_at a (int j + ?c)"
  have "corr_at a b i = (\<Sum>j<length b. ?x j * b ! j)"
    by (simp add: corr_at_def sum_list_sum_nth atLeast0LessThan algebra_simps)
  then have "\<bar>corr_at a b i\<bar> \<le> (\<Sum>j<length b. \<bar>?x j * b ! j\<bar>)"
    by (simp add: sum_abs)
  also have "\<dots> \<le> (\<Sum>j<length b. (?x j * ?x j + b ! j * b ! j) / 2)"
  proof (rule sum_mono)
    fix j
    have "0 \<le> (\<bar>?x j\<bar> - \<bar>b ! j\<bar>) * (\<bar>?x j\<bar> - \<bar>b ! j\<bar>)" by simp
    then show "\<bar>?x j * b ! j\<bar> \<le> (?x j * ?x j + b ! j * b ! j) / 2"
      by (simp add: abs_mult algebra_simps)
  qed
  also have "\<dots> = ((\<Sum>j<length b. ?x j * ?x j) + energy b) / 2"
    by (simp add: sum.distrib sum_divide_distrib [symmetric] energy_nth)
  also have "\<dots> \<le> (energy a + energy b) / 2"
    using sig_at_window_energy [where r = "length b" and a = a and c = ?c] by simp
  finally show ?thesis .
qed

lemma corr_at_echo:
  assumes "d + length b \<le> n"
  shows "corr_at (radar_echo n b d) b (n - 1 + d) = energy b"
proof (cases "b = []")
  case True
  then show ?thesis by (simp add: corr_at_def energy_def)
next
  case False
  then have n1: "1 \<le> n" using assms by (cases b) auto
  have m: "max (length (radar_echo n b d)) (length b) = n" using assms by (simp add: radar_echo_def)
  have k: "\<And>j. int j + int (n - 1 + d) - int (n - 1) = int (j + d)" using n1 by simp
  have e: "\<And>j. j < length b \<Longrightarrow> sig_at (radar_echo n b d) (int j + int d) = b ! j"
    using assms by (simp add: sig_at_def radar_echo_def nth_append nat_add_distrib)
  have "corr_at (radar_echo n b d) b (n - 1 + d) = (\<Sum>j\<leftarrow>[0..<length b]. b ! j * b ! j)"
    unfolding corr_at_def m k by (rule arg_cong [where f = sum_list], rule map_cong) (simp_all add: e)
  then show ?thesis by (simp add: energy_nth sum_list_sum_nth atLeast0LessThan)
qed

lemma radar_peak_scan_bounded:
  assumes "\<forall>x\<in>set xs. x \<le> e" "k < length xs" "xs ! k = e" "0 < e" "radar_peak_scan xs = (i, m)"
  shows "m = e \<and> i \<le> k \<and> i < length xs \<and> xs ! i = e"
proof -
  have p: "peak_inv xs (length xs) (i, m)" using radar_peak_scan_spec [of xs] assms(5) by simp
  have "xs ! i \<le> e" if "i < length xs" using assms(1) that by simp
  then show ?thesis using p assms(2-4) by (auto simp: peak_inv_def not_less [symmetric])
qed

lemma radar_echo_length [simp]:
  "d + length b \<le> n \<Longrightarrow> length (radar_echo n b d) = n"
  by (simp add: radar_echo_def)

lemma radar_peak_scan_index: "fst (radar_peak_scan xs) \<le> length xs"
proof -
  obtain i m where "radar_peak_scan xs = (i, m)" by fastforce
  moreover have "peak_inv xs (length xs) (i, m)" using radar_peak_scan_spec [of xs] calculation by simp
  ultimately show ?thesis by (auto simp: peak_inv_def)
qed

lemma radar_correlate_length:
  "radar_correlate corr micdata chirp = Some c \<Longrightarrow> length c = length corr"
  by (auto simp: radar_correlate_def store_prefix_def arm_abs_f32_def split: if_splits)

lemma c_int_Some [simp]: "- (2 ^ 31) \<le> x \<Longrightarrow> x < 2 ^ 31 \<Longrightarrow> c_int x = Some x"
  by (simp add: c_int_def)

lemma radar2_report_eq:
  "\<exists>dist z ms'. radar2_report rc cfg s key
     = (s\<lparr>index_0_f := (if key = Some CHR ''r'' then real_of_int (max_i_average s) / real_of_int (RADAR_PRINT_DELAY rc)
                        else index_0_f s),
         max_i_average_f := real_of_int (max_i_average s) / real_of_int (RADAR_PRINT_DELAY rc),
         radar_print_cnt := RADAR_PRINT_DELAY rc, max_i_average := 0, max_average := 0\<rparr>,
        Msg_range_avg (real_of_int (max_i_average s) / real_of_int (RADAR_PRINT_DELAY rc)) dist
          (max_average s / real_of_int (RADAR_PRINT_DELAY rc)) z # ms')"
  by (auto simp: radar2_report_def Let_def split: option.split)

lemma radar2_acc_bound:
  assumes "radar2_cfg_ok rc cfg" "radar2_inv rc s" "int i \<le> int (CORR_SIZE rc)"
  shows "max_i_average s + int i < 2 ^ 31" "- (2 ^ 31) \<le> radar_print_cnt s - 1" "radar_print_cnt s - 1 < 2 ^ 31"
    "max_i_average s + int i \<le> (RADAR_PRINT_DELAY rc - (radar_print_cnt s - 1)) * int (CORR_SIZE rc)"
proof -
  have c: "1 \<le> RADAR_PRINT_DELAY rc" "RADAR_PRINT_DELAY rc * int (CORR_SIZE rc) < 2 ^ 31"
    "RADAR_PRINT_DELAY rc < 2 ^ 31"
    using assms(1) by (simp_all add: radar2_cfg_ok_def)
  have iv: "1 \<le> radar_print_cnt s" "radar_print_cnt s \<le> RADAR_PRINT_DELAY rc"
    "max_i_average s \<le> (RADAR_PRINT_DELAY rc - radar_print_cnt s) * int (CORR_SIZE rc)"
    using assms(2) by (simp_all add: radar2_inv_def)
  have e: "(RADAR_PRINT_DELAY rc - radar_print_cnt s) * int (CORR_SIZE rc) + int (CORR_SIZE rc)
        = (RADAR_PRINT_DELAY rc - (radar_print_cnt s - 1)) * int (CORR_SIZE rc)"
    by (simp add: algebra_simps)
  then show le: "max_i_average s + int i \<le> (RADAR_PRINT_DELAY rc - (radar_print_cnt s - 1)) * int (CORR_SIZE rc)"
    using iv(3) assms(3) by linarith
  have "(RADAR_PRINT_DELAY rc - (radar_print_cnt s - 1)) * int (CORR_SIZE rc) \<le> RADAR_PRINT_DELAY rc * int (CORR_SIZE rc)"
    using iv(1) by (intro mult_right_mono) simp_all
  then show "max_i_average s + int i < 2 ^ 31" using le c(2) by linarith
  show "- (2 ^ 31) \<le> radar_print_cnt s - 1" "radar_print_cnt s - 1 < 2 ^ 31" using iv(1,2) c(3) by simp_all
qed

lemma example_radar2_step:
  assumes "radar2_cfg_ok rc cfg" "radar2_inv rc s" "length micdata = AUDIO_BLOCKSIZE cfg"
  obtains corr where "radar_correlate (corr_result2 s) micdata (radar2_waveform s) = Some corr"
    "length corr = CORR_SIZE rc"
    "radar_print_cnt s = 1 \<Longrightarrow> \<exists>s' ms dist z.
        example_radar2 rc cfg s micdata key = Some (s', radar2_zerobuffer s, radar2_buffer s, ms)
        \<and> radar2_inv rc s' \<and> corr_result2 s' = corr
        \<and> hd ms = Msg_range_avg (real_of_int (max_i_average s + int (fst (radar_peak_scan corr)))
                                   / real_of_int (RADAR_PRINT_DELAY rc)) dist
                    ((max_average s + snd (radar_peak_scan corr)) / real_of_int (RADAR_PRINT_DELAY rc)) z"
    "radar_print_cnt s \<noteq> 1 \<Longrightarrow>
        example_radar2 rc cfg s micdata key
          = Some (s\<lparr>corr_result2 := corr, max_i_average := max_i_average s + int (fst (radar_peak_scan corr)),
                    max_average := max_average s + snd (radar_peak_scan corr),
                    radar_print_cnt := radar_print_cnt s - 1\<rparr>, radar2_zerobuffer s, radar2_buffer s, [])
        \<and> radar2_inv rc (s\<lparr>corr_result2 := corr, max_i_average := max_i_average s + int (fst (radar_peak_scan corr)),
                    max_average := max_average s + snd (radar_peak_scan corr),
                    radar_print_cnt := radar_print_cnt s - 1\<rparr>)"
proof -
  have c: "radar_cfg_ok rc cfg" "1 \<le> RADAR_PRINT_DELAY rc" "RADAR_PRINT_DELAY rc * int (CORR_SIZE rc) < 2 ^ 31"
    "RADAR_PRINT_DELAY rc < 2 ^ 31"
    using assms(1) by (simp_all add: radar2_cfg_ok_def)
  have iv: "length (radar2_waveform s) = RADAR_SIZE rc" "length (corr_result2 s) = CORR_SIZE rc"
    "1 \<le> radar_print_cnt s" "radar_print_cnt s \<le> RADAR_PRINT_DELAY rc" "0 \<le> max_i_average s"
    "max_i_average s \<le> (RADAR_PRINT_DELAY rc - radar_print_cnt s) * int (CORR_SIZE rc)"
    using assms(2) by (simp_all add: radar2_inv_def)
  obtain corr where corr: "radar_correlate (corr_result2 s) micdata (radar2_waveform s) = Some corr"
    "length corr = CORR_SIZE rc"
    using radar_correlate_Some [OF c(1) assms(3) iv(1,2)] by blast
  obtain i m where p: "radar_peak_scan corr = (i, m)" by fastforce
  have i: "int i \<le> int (CORR_SIZE rc)" using radar_peak_scan_index [of corr] p corr(2) by simp
  have sum: "max_i_average s + int i < 2 ^ 31" and cnt: "- (2 ^ 31) \<le> radar_print_cnt s - 1" "radar_print_cnt s - 1 < 2 ^ 31"
    using radar2_acc_bound [OF assms(1,2) i] by simp_all
  have inv1: "radar_print_cnt s \<noteq> 1 \<Longrightarrow>
      radar2_inv rc (s\<lparr>corr_result2 := corr, max_i_average := max_i_average s + int i,
                      max_average := max_average s + m, radar_print_cnt := radar_print_cnt s - 1\<rparr>)"
    using iv corr(2) radar2_acc_bound(4) [OF assms(1,2) i] by (auto simp: radar2_inv_def)
  show ?thesis
  proof (rule that [OF corr])
    assume one: "radar_print_cnt s = 1"
    let ?s1 = "s\<lparr>corr_result2 := corr, max_i_average := max_i_average s + int i,
                      max_average := max_average s + m, radar_print_cnt := 0\<rparr>"
    obtain dist z ms' where r: "radar2_report rc cfg ?s1 key
       = (?s1\<lparr>index_0_f := (if key = Some CHR ''r'' then real_of_int (max_i_average ?s1) / real_of_int (RADAR_PRINT_DELAY rc)
                        else index_0_f ?s1),
         max_i_average_f := real_of_int (max_i_average ?s1) / real_of_int (RADAR_PRINT_DELAY rc),
         radar_print_cnt := RADAR_PRINT_DELAY rc, max_i_average := 0, max_average := 0\<rparr>,
        Msg_range_avg (real_of_int (max_i_average ?s1) / real_of_int (RADAR_PRINT_DELAY rc)) dist
          (max_average ?s1 / real_of_int (RADAR_PRINT_DELAY rc)) z # ms')"
      using radar2_report_eq [of rc cfg ?s1 key] by blast
    show "\<exists>s' ms dist z. example_radar2 rc cfg s micdata key = Some (s', radar2_zerobuffer s, radar2_buffer s, ms)
        \<and> radar2_inv rc s' \<and> corr_result2 s' = corr
        \<and> hd ms = Msg_range_avg (real_of_int (max_i_average s + int (fst (radar_peak_scan corr)))
                                   / real_of_int (RADAR_PRINT_DELAY rc)) dist
                    ((max_average s + snd (radar_peak_scan corr)) / real_of_int (RADAR_PRINT_DELAY rc)) z"
      using corr(1) p sum cnt one r iv(1,2) corr(2) c(2) iv(5)
      by (simp add: example_radar2_def Let_def radar2_inv_def)
  next
    assume "radar_print_cnt s \<noteq> 1"
    then show "example_radar2 rc cfg s micdata key
          = Some (s\<lparr>corr_result2 := corr, max_i_average := max_i_average s + int (fst (radar_peak_scan corr)),
                    max_average := max_average s + snd (radar_peak_scan corr),
                    radar_print_cnt := radar_print_cnt s - 1\<rparr>, radar2_zerobuffer s, radar2_buffer s, [])
        \<and> radar2_inv rc (s\<lparr>corr_result2 := corr, max_i_average := max_i_average s + int (fst (radar_peak_scan corr)),
                    max_average := max_average s + snd (radar_peak_scan corr),
                    radar_print_cnt := radar_print_cnt s - 1\<rparr>)"
      using corr(1) p sum cnt inv1 iv(3,5) by (simp add: example_radar2_def Let_def)
  qed
qed

lemma example_radar2_inv:
  assumes "radar2_cfg_ok rc cfg" "radar2_inv rc s" "example_radar2 rc cfg s micdata key = Some (s', l, r, ms)"
  shows "radar2_inv rc s'"
proof -
  obtain corr where corr: "radar_correlate (corr_result2 s) micdata (radar2_waveform s) = Some corr"
    using assms(3) by (auto simp: example_radar2_def split: option.splits)
  have lc: "length corr = CORR_SIZE rc"
    using radar_correlate_length [OF corr] assms(2) by (simp add: radar2_inv_def)
  obtain i m where p: "radar_peak_scan corr = (i, m)" by fastforce
  have i: "int i \<le> int (CORR_SIZE rc)" using radar_peak_scan_index [of corr] p lc by simp
  note b = radar2_acc_bound [OF assms(1,2) i]
  let ?s1 = "s\<lparr>corr_result2 := corr, max_i_average := max_i_average s + int i,
                 max_average := max_average s + m, radar_print_cnt := radar_print_cnt s - 1\<rparr>"
  have inv1: "radar_print_cnt s \<noteq> 1 \<Longrightarrow> radar2_inv rc ?s1"
    using assms(2) lc b(4) by (auto simp: radar2_inv_def)
  have c1: "c_int (max_i_average s + int i) = Some (max_i_average s + int i)"
    using assms(2) b(1) by (simp add: radar2_inv_def)
  have c2: "c_int (radar_print_cnt s - 1) = Some (radar_print_cnt s - 1)" using b(2,3) by simp
  have "example_radar2 rc cfg s micdata key
        = (let (s2, msgs) = (if radar_print_cnt s - 1 = 0 then radar2_report rc cfg ?s1 key else (?s1, []))
           in Some (s2, radar2_zerobuffer s2, radar2_buffer s2, msgs))"
    by (simp add: example_radar2_def corr p c1 c2 Let_def)
  then have s': "s' = (if radar_print_cnt s - 1 = 0 then fst (radar2_report rc cfg ?s1 key) else ?s1)"
    using assms(3) by (auto split: if_splits prod.splits)
  show ?thesis
  proof (cases "radar_print_cnt s - 1 = 0")
    case True
    obtain dist z ms' where "radar2_report rc cfg ?s1 key
       = (?s1\<lparr>index_0_f := (if key = Some CHR ''r'' then real_of_int (max_i_average ?s1) / real_of_int (RADAR_PRINT_DELAY rc)
                        else index_0_f ?s1),
         max_i_average_f := real_of_int (max_i_average ?s1) / real_of_int (RADAR_PRINT_DELAY rc),
         radar_print_cnt := RADAR_PRINT_DELAY rc, max_i_average := 0, max_average := 0\<rparr>,
        Msg_range_avg (real_of_int (max_i_average ?s1) / real_of_int (RADAR_PRINT_DELAY rc)) dist
          (max_average ?s1 / real_of_int (RADAR_PRINT_DELAY rc)) z # ms')"
      using radar2_report_eq [of rc cfg ?s1 key] by blast
    then show ?thesis using s' True assms(1,2) lc by (simp add: radar2_inv_def radar2_cfg_ok_def)
  next
    case False
    then show ?thesis using s' inv1 by simp
  qed
qed

lemma radar2_init_inv:
  assumes "radar2_cfg_ok rc cfg"
  shows "\<exists>s. example_radar2_init rc cfg = Some s \<and> radar2_inv rc s"
  using assms
  by (auto simp: example_radar2_init_def radar_fill_buffer_eq radar2_cfg_ok_def radar_cfg_ok_def radar2_inv_def
      radar_chirp_def arm_fill_f32_def Let_def)

lemma radar2_reachable_inv:
  assumes "radar2_cfg_ok rc cfg" "radar2_reachable rc cfg s"
  shows "radar2_inv rc s"
  using assms(2)
proof (induction rule: radar2_reachable.induct)
  case (init s)
  then show ?case using radar2_init_inv [OF assms(1)] by auto
next
  case (block s micdata key s' l r msgs)
  then show ?case using example_radar2_inv [OF assms(1)] by blast
qed

lemma radar2_run_window:
  assumes "radar2_cfg_ok rc cfg" "radar2_inv rc s" "int (length ins) = radar_print_cnt s"
    "\<forall>x\<in>set ins. length (fst x) = AUDIO_BLOCKSIZE cfg"
  shows "\<exists>tr. radar2_run rc cfg s ins = Some tr \<and> tr \<noteq> [] \<and> (\<forall>x\<in>set (butlast tr). snd x = [])
           \<and> (\<exists>dist z. hd (snd (last tr))
                 = Msg_range_avg (real_of_int (max_i_average s + radar2_peak_sum tr) / real_of_int (RADAR_PRINT_DELAY rc))
                     dist ((max_average s + radar2_amp_sum tr) / real_of_int (RADAR_PRINT_DELAY rc)) z)"
  using assms(2-4)
proof (induction ins arbitrary: s)
  case Nil
  then show ?case by (simp add: radar2_inv_def)
next
  case (Cons x ins)
  obtain micdata key where x: "x = (micdata, key)" by fastforce
  have mic: "length micdata = AUDIO_BLOCKSIZE cfg" using Cons.prems(3) x by simp
  obtain corr where corr: "radar_correlate (corr_result2 s) micdata (radar2_waveform s) = Some corr"
    and one: "radar_print_cnt s = 1 \<Longrightarrow> \<exists>s' ms dist z.
        example_radar2 rc cfg s micdata key = Some (s', radar2_zerobuffer s, radar2_buffer s, ms)
        \<and> radar2_inv rc s' \<and> corr_result2 s' = corr
        \<and> hd ms = Msg_range_avg (real_of_int (max_i_average s + int (fst (radar_peak_scan corr)))
                                   / real_of_int (RADAR_PRINT_DELAY rc)) dist
                    ((max_average s + snd (radar_peak_scan corr)) / real_of_int (RADAR_PRINT_DELAY rc)) z"
    and more: "radar_print_cnt s \<noteq> 1 \<Longrightarrow>
        example_radar2 rc cfg s micdata key
          = Some (s\<lparr>corr_result2 := corr, max_i_average := max_i_average s + int (fst (radar_peak_scan corr)),
                    max_average := max_average s + snd (radar_peak_scan corr),
                    radar_print_cnt := radar_print_cnt s - 1\<rparr>, radar2_zerobuffer s, radar2_buffer s, [])
        \<and> radar2_inv rc (s\<lparr>corr_result2 := corr, max_i_average := max_i_average s + int (fst (radar_peak_scan corr)),
                    max_average := max_average s + snd (radar_peak_scan corr),
                    radar_print_cnt := radar_print_cnt s - 1\<rparr>)"
    using example_radar2_step [OF assms(1) Cons.prems(1) mic, of key] by metis
  show ?case
  proof (cases "radar_print_cnt s = 1")
    case True
    then have "ins = []" using Cons.prems(2) by simp
    with one [OF True] show ?thesis
      by (auto simp: x radar2_peak_sum_def radar2_amp_sum_def)
  next
    case False
    let ?s1 = "s\<lparr>corr_result2 := corr, max_i_average := max_i_average s + int (fst (radar_peak_scan corr)),
                    max_average := max_average s + snd (radar_peak_scan corr),
                    radar_print_cnt := radar_print_cnt s - 1\<rparr>"
    have step: "example_radar2 rc cfg s micdata key = Some (?s1, radar2_zerobuffer s, radar2_buffer s, [])"
      and inv1: "radar2_inv rc ?s1" using more [OF False] by simp_all
    have "int (length ins) = radar_print_cnt ?s1" using Cons.prems(2) by simp
    from Cons.IH [OF inv1 this] Cons.prems(3)
    obtain tr where tr: "radar2_run rc cfg ?s1 ins = Some tr" "tr \<noteq> []" "\<forall>x\<in>set (butlast tr). snd x = []"
      "\<exists>dist z. hd (snd (last tr))
                 = Msg_range_avg (real_of_int (max_i_average ?s1 + radar2_peak_sum tr) / real_of_int (RADAR_PRINT_DELAY rc))
                     dist ((max_average ?s1 + radar2_amp_sum tr) / real_of_int (RADAR_PRINT_DELAY rc)) z"
      by auto
    show ?thesis
      using step tr by (auto simp: x radar2_peak_sum_def radar2_amp_sum_def algebra_simps)
  qed
qed

lemma radar_cfg_example_ok: "radar2_cfg_ok radar_cfg_example cfg_example"
  by (simp add: radar2_cfg_ok_def radar_cfg_ok_def radar_cfg_example_def cfg_example_def)

lemma example_radar_buffers:
  "example_radar cfg s mic now key = Some (s', l, r, ms) \<Longrightarrow>
   radar_buffer s' = radar_buffer s \<and> radar_zerobuffer s' = radar_zerobuffer s
   \<and> l = radar_zerobuffer s \<and> (r = radar_zerobuffer s \<or> r = radar_buffer s)"
  by (auto simp: example_radar_def radar_measure_def Let_def split: if_splits option.splits prod.splits)

lemma example_radar2_buffers:
  "example_radar2 rc cfg s mic key = Some (s', l, r, ms) \<Longrightarrow>
   radar2_buffer s' = radar2_buffer s \<and> radar2_zerobuffer s' = radar2_zerobuffer s
   \<and> l = radar2_zerobuffer s \<and> r = radar2_buffer s"
  by (auto simp: example_radar2_def radar2_report_def Let_def split: if_splits option.splits prod.splits)

lemma radar_reachable_buffers:
  "radar_reachable rc cfg s \<Longrightarrow>
   length (radar_buffer s) = AUDIO_BLOCKSIZE cfg \<and> length (radar_zerobuffer s) = AUDIO_BLOCKSIZE cfg"
proof (induction rule: radar_reachable.induct)
  case (init s msgs)
  then show ?case
    by (auto simp: example_radar_init_def radar_fill_buffer_eq arm_fill_f32_def Let_def split: if_splits)
next
  case (block s micdata now key s' l r msgs)
  then show ?case using example_radar_buffers [of cfg s micdata now key s' l r msgs] by simp
qed

lemma radar2_reachable_buffers:
  "radar2_reachable rc cfg s \<Longrightarrow>
   length (radar2_buffer s) = AUDIO_BLOCKSIZE cfg \<and> length (radar2_zerobuffer s) = AUDIO_BLOCKSIZE cfg"
proof (induction rule: radar2_reachable.induct)
  case (init s)
  then show ?case
    by (auto simp: example_radar2_init_def radar_fill_buffer_eq arm_fill_f32_def Let_def split: if_splits)
next
  case (block s micdata key s' l r msgs)
  then show ?case using example_radar2_buffers [of rc cfg s micdata key s' l r msgs] by simp
qed

lemma example_radar2_Some:
  assumes "radar2_cfg_ok rc cfg" "radar2_inv rc s" "length micdata = AUDIO_BLOCKSIZE cfg"
  shows "\<exists>r. example_radar2 rc cfg s micdata key = Some r"
proof -
  obtain corr where "radar_print_cnt s = 1 \<Longrightarrow> \<exists>s' ms dist z.
        example_radar2 rc cfg s micdata key = Some (s', radar2_zerobuffer s, radar2_buffer s, ms)
        \<and> radar2_inv rc s' \<and> corr_result2 s' = corr
        \<and> hd ms = Msg_range_avg (real_of_int (max_i_average s + int (fst (radar_peak_scan corr)))
                                   / real_of_int (RADAR_PRINT_DELAY rc)) dist
                    ((max_average s + snd (radar_peak_scan corr)) / real_of_int (RADAR_PRINT_DELAY rc)) z"
    "radar_print_cnt s \<noteq> 1 \<Longrightarrow> \<exists>r. example_radar2 rc cfg s micdata key = Some r"
    using example_radar2_step [OF assms, of key] by metis
  then show ?thesis by (cases "radar_print_cnt s = 1") blast+
qed

section \<open>Properties of the radar modes\<close>

text \<open>C23. When the chirp does not fit in the output block at RADAR_OFFSET, the initialisation loop of example_radar_init stores out of bounds (undefined behaviour).\<close>

theorem radar_init_out_of_bounds:
  assumes "AUDIO_BLOCKSIZE cfg < RADAR_OFFSET rc + RADAR_SIZE rc" "0 < RADAR_SIZE rc"
  shows "example_radar_init rc cfg = None"
  using assms by (simp add: example_radar_init_def radar_fill_buffer_eq radar_chirp_def arm_fill_f32_def Let_def)

theorem radar_init_out_of_bounds_witness:
  "example_radar_init (radar_cfg_example\<lparr>RADAR_OFFSET := 500\<rparr>) cfg_example = None"
  by (rule radar_init_out_of_bounds) (simp_all add: radar_cfg_example_def cfg_example_def)

text \<open>C24. After a call that transmits the chirp, if the clock has not reached the next transmit time, the third following call correlates and reports a range, and the two calls in between report nothing and play silence.\<close>

theorem radar_measures_third_block:
  assumes "radar_cfg_ok rc cfg" "radar_reachable rc cfg s"
    "systime_get_delay_passed (tx_timer s) t0" "length m0 = AUDIO_BLOCKSIZE cfg"
    "t1 < t0 + S2US 2" "t2 < t0 + S2US 2" "t3 < t0 + S2US 2" "length m3 = AUDIO_BLOCKSIZE cfg"
  shows "\<exists>s1 ms0 s2 s3 s4 ms3.
           example_radar cfg s m0 t0 k0 = Some (s1, radar_zerobuffer s, radar_buffer s, ms0)
         \<and> example_radar cfg s1 m1 t1 k1 = Some (s2, radar_zerobuffer s, radar_zerobuffer s, [])
         \<and> example_radar cfg s2 m2 t2 k2 = Some (s3, radar_zerobuffer s, radar_zerobuffer s, [])
         \<and> example_radar cfg s3 m3 t3 k3 = Some (s4, radar_zerobuffer s, radar_zerobuffer s, ms3)
         \<and> (\<exists>i d a z. hd ms3 = Msg_range i d a z)"
proof -
  have inv: "radar_inv rc s" using assms(1,2) by (rule radar_reachable_inv)
  obtain s1 ms0 where c0: "example_radar cfg s m0 t0 k0 = Some (s1, radar_zerobuffer s, radar_buffer s, ms0)"
    "radar_inv rc s1" "radar_trig s1 = 1" "radar_trig_delay s1 = 3" "tx_timer s1 = t0 + S2US 2"
    using example_radar_transmits [OF assms(1) inv assms(3,4)] by blast
  have z1: "radar_zerobuffer s1 = radar_zerobuffer s"
    using c0(1) by (auto simp: example_radar_def Let_def radar_measure_def split: if_splits option.splits prod.splits)
  let ?s2 = "s1\<lparr>radar_trig_delay := 2\<rparr>" and ?s3 = "s1\<lparr>radar_trig_delay := 1\<rparr>"
  have c1: "example_radar cfg s1 m1 t1 k1 = Some (?s2, radar_zerobuffer s, radar_zerobuffer s, [])"
    using example_radar_wait [of s1 t1 cfg m1 k1] c0(3-5) assms(5) z1
    by (simp add: systime_get_delay_passed_def)
  have c2: "example_radar cfg ?s2 m2 t2 k2 = Some (?s3, radar_zerobuffer s, radar_zerobuffer s, [])"
    using example_radar_wait [of ?s2 t2 cfg m2 k2] c0(3-5) assms(6) z1
    by (simp add: systime_get_delay_passed_def)
  have i3: "radar_inv rc ?s3" using c0(2) by (simp add: radar_inv_def)
  obtain s4 ms3 where c3: "example_radar cfg ?s3 m3 t3 k3 = Some (s4, radar_zerobuffer s, radar_zerobuffer s, ms3)"
    "\<exists>i d a z. hd ms3 = Msg_range i d a z"
    using example_radar_fires [OF assms(1) i3 _ _ _ assms(8), of t3 k3] c0(3,5) assms(7) z1
    by (auto simp: systime_get_delay_passed_def)
  show ?thesis using c0(1) c1 c2 c3 by blast
qed

theorem radar_measures_third_block_witness:
  "\<exists>s s1 ms0 s2 s3 s4 ms3. radar_reachable radar_cfg_example cfg_example s
     \<and> example_radar cfg_example s (replicate 512 0) 0 None = Some (s1, radar_zerobuffer s, radar_buffer s, ms0)
     \<and> example_radar cfg_example s1 (replicate 512 0) 1 None = Some (s2, radar_zerobuffer s, radar_zerobuffer s, [])
     \<and> example_radar cfg_example s2 (replicate 512 0) 1 None = Some (s3, radar_zerobuffer s, radar_zerobuffer s, [])
     \<and> example_radar cfg_example s3 (replicate 512 0) 1 None = Some (s4, radar_zerobuffer s, radar_zerobuffer s, ms3)
     \<and> (\<exists>i d a z. hd ms3 = Msg_range i d a z)"
proof -
  have ok: "radar_cfg_ok radar_cfg_example cfg_example"
    using radar_cfg_example_ok by (simp add: radar2_cfg_ok_def)
  obtain s ms where i: "example_radar_init radar_cfg_example cfg_example = Some (s, ms)"
    using radar_init_Some [OF ok] by blast
  then have r: "radar_reachable radar_cfg_example cfg_example s" by (rule radar_reachable.init)
  have t: "tx_timer s = 0" using i by (auto simp: example_radar_init_def Let_def)
  have l: "length (replicate 512 (0::real)) = AUDIO_BLOCKSIZE cfg_example" by (simp add: cfg_example_def)
  have p: "systime_get_delay_passed (tx_timer s) 0" using t by (simp add: systime_get_delay_passed_def)
  have lt: "(1::nat) < 0 + S2US 2" by (simp add: S2US_def)
  show ?thesis
    using radar_measures_third_block [of radar_cfg_example cfg_example s 0 "replicate 512 0" 1 1 1
        "replicate 512 0" None "replicate 512 0" None "replicate 512 0" None None, OF ok r p l lt lt lt l] r
    by blast
qed

text \<open>C25. The peak scan returns the first index of the largest value when some value is positive, and index 0 with amplitude 0 otherwise.\<close>

theorem radar_peak_scan_first_max:
  assumes "radar_peak_scan xs = (i, m)"
  shows "if \<exists>x\<in>set xs. 0 < x
         then i < length xs \<and> m = xs ! i \<and> (\<forall>x\<in>set xs. x \<le> m) \<and> (\<forall>j<i. xs ! j < m)
         else i = 0 \<and> m = 0"
proof -
  have p: "peak_inv xs (length xs) (i, m)" using radar_peak_scan_spec [of xs] assms by simp
  show ?thesis
  proof (cases "\<exists>x\<in>set xs. 0 < x")
    case True
    then obtain j where "j < length xs" "0 < xs ! j" by (auto simp: in_set_conv_nth)
    then show ?thesis using p True by (auto simp: peak_inv_def in_set_conv_nth)
  next
    case False
    then show ?thesis using p nth_mem [of i xs] by (auto simp: peak_inv_def)
  qed
qed

theorem radar_peak_scan_first_max_witness:
  "radar_peak_scan [0, 2, 1] = (1, 2) \<and> [0, 2, 1] ! 0 < (2::real) \<and> [0, 2, 1] ! 2 \<le> (2::real)"
proof -
  have p: "radar_peak_scan [0, 2, 1] = (1, 2)" by (simp add: radar_peak_scan_def upt_rec)
  from radar_peak_scan_first_max [OF p] p show ?thesis by (simp add: nth_Cons')
qed

text \<open>C26. When the microphone block is the stored chirp delayed by d samples, the measurement reports the chirp energy as amplitude, at an index no later than the lag of the echo (AUDIO_BLOCKSIZE - 1 + d), where the correlation magnitude equals that energy.\<close>

theorem radar_echo_report:
  assumes "radar_cfg_ok rc cfg" "radar_inv rc s" "d + RADAR_SIZE rc \<le> AUDIO_BLOCKSIZE cfg"
    "0 < energy (radar_waveform s)"
    "radar_measure cfg s (radar_echo (AUDIO_BLOCKSIZE cfg) (radar_waveform s) d) key = Some (s', ms)"
  shows "\<exists>i dist z. hd ms = Msg_range i dist (energy (radar_waveform s)) z
           \<and> i \<le> AUDIO_BLOCKSIZE cfg - 1 + d \<and> corr_result s' ! i = energy (radar_waveform s)"
proof -
  let ?N = "AUDIO_BLOCKSIZE cfg" and ?b = "radar_waveform s" and ?E = "energy (radar_waveform s)"
  let ?mic = "radar_echo ?N ?b d"
  let ?c = "arm_correlate_f32 ?mic ?b"
  define xs where "xs = map abs (?c @ drop (length ?c) (arm_fill_f32 0 (length (corr_result s))))"
  have lb: "length ?b = RADAR_SIZE rc" using assms(2) by (simp add: radar_inv_def)
  have bne: "?b \<noteq> []" using assms(4) by (auto simp: energy_def)
  have mic: "length ?mic = ?N" using assms(3) lb by simp
  have M: "max (length ?mic) (length ?b) = ?N" using mic assms(3) lb by simp
  have lc: "length ?c = 2 * ?N - 1" using M by simp
  have "2 * ?N - 1 \<le> CORR_SIZE rc" using assms(1,3) by (auto simp: radar_cfg_ok_def max_def split: if_splits)
  then have fits: "length ?c \<le> length (corr_result s)"
    unfolding lc using assms(2) by (simp add: radar_inv_def)
  have corr: "radar_correlate (arm_fill_f32 0 (length (corr_result s))) ?mic ?b = Some xs"
    unfolding xs_def using fits by (simp add: radar_correlate_def arm_abs_f32_def store_prefix_def arm_fill_f32_def)
  have le: "\<forall>x\<in>set xs. x \<le> ?E"
  proof
    fix x assume "x \<in> set xs"
    then consider j where "j < length ?c" "x = \<bar>corr_at ?mic ?b j\<bar>" | "x = 0"
      by (auto simp: xs_def in_set_conv_nth arm_correlate_f32_def arm_fill_f32_def dest: in_set_dropD)
    then show "x \<le> ?E"
    proof cases
      case 1
      then show ?thesis using corr_at_bound [of ?mic ?b j] energy_echo [of ?N ?b d] by simp
    next
      case 2
      then show ?thesis using energy_nonneg [of ?b] by simp
    qed
  qed
  have d: "d < ?N" using assms(3) lb bne by (cases ?b) auto
  have k: "?N - 1 + d < length ?c" using lc d by simp
  then have kx: "?N - 1 + d < length xs" by (simp add: xs_def)
  have at: "xs ! (?N - 1 + d) = ?E"
    unfolding xs_def
    using k d corr_at_echo [of d ?b ?N] assms(3) lb energy_nonneg [of ?b]
    by (simp add: nth_append arm_correlate_f32_def)
  obtain i m where p: "radar_peak_scan xs = (i, m)" by fastforce
  have r: "m = ?E \<and> i \<le> ?N - 1 + d \<and> i < length xs \<and> xs ! i = ?E"
    by (rule radar_peak_scan_bounded [OF le kx at assms(4) p])
  show ?thesis using assms(5) corr p r by (auto simp: radar_measure_def Let_def split: option.splits if_splits)
qed

theorem radar_echo_report_witness:
  "\<exists>s' ms i dist z. radar_measure cfg_unit (radar_unit_state) [1] None = Some (s', ms)
      \<and> hd ms = Msg_range i dist 1 z \<and> i = 0"
proof -
  have ok: "radar_cfg_ok radar_cfg_unit cfg_unit" by (simp add: radar_cfg_ok_def radar_cfg_unit_def cfg_unit_def)
  have inv: "radar_inv radar_cfg_unit radar_unit_state"
    by (simp add: radar_inv_def radar_unit_state_def radar_cfg_unit_def)
  have e: "radar_echo (AUDIO_BLOCKSIZE cfg_unit) (radar_waveform radar_unit_state) 0 = [1]"
    by (simp add: radar_echo_def cfg_unit_def radar_unit_state_def)
  have en: "energy (radar_waveform radar_unit_state) = 1" by (simp add: energy_def radar_unit_state_def)
  obtain s' ms where m: "radar_measure cfg_unit radar_unit_state [1] None = Some (s', ms)"
    using radar_measure_Some [OF ok inv, of "[1]" None] by (auto simp: cfg_unit_def)
  have "\<exists>i dist z. hd ms = Msg_range i dist 1 z \<and> i \<le> AUDIO_BLOCKSIZE cfg_unit - 1 + 0"
    using radar_echo_report [OF ok inv _ _ m [folded e], of] en
    by (auto simp: radar_cfg_unit_def cfg_unit_def)
  then show ?thesis using m by (auto simp: cfg_unit_def)
qed

text \<open>C27. From the start of an averaging window, the averaging radar stays silent for RADAR_PRINT_DELAY - 1 calls and then reports the mean of the peak indices and of the peak amplitudes of the window's RADAR_PRINT_DELAY correlations.\<close>

theorem radar2_window_average:
  assumes "radar2_cfg_ok rc cfg" "radar2_reachable rc cfg s" "radar_print_cnt s = RADAR_PRINT_DELAY rc"
    "int (length ins) = RADAR_PRINT_DELAY rc" "\<forall>x\<in>set ins. length (fst x) = AUDIO_BLOCKSIZE cfg"
  shows "\<exists>tr. radar2_run rc cfg s ins = Some tr \<and> (\<forall>x\<in>set (butlast tr). snd x = [])
           \<and> (\<exists>dist z. hd (snd (last tr))
                 = Msg_range_avg (real_of_int (radar2_peak_sum tr) / real_of_int (RADAR_PRINT_DELAY rc))
                     dist (radar2_amp_sum tr / real_of_int (RADAR_PRINT_DELAY rc)) z)"
proof -
  have inv: "radar2_inv rc s" using assms(1,2) by (rule radar2_reachable_inv)
  then have "max_i_average s = 0" "max_average s = 0" using assms(3) by (simp_all add: radar2_inv_def)
  with radar2_run_window [OF assms(1) inv _ assms(5)] assms(3,4) show ?thesis by auto
qed

theorem radar2_window_average_witness:
  "\<exists>s tr. radar2_reachable radar_cfg_example cfg_example s
      \<and> radar2_run radar_cfg_example cfg_example s (replicate 10 (replicate 512 0, None)) = Some tr"
proof -
  obtain s where i: "example_radar2_init radar_cfg_example cfg_example = Some s"
    using radar2_init_inv [OF radar_cfg_example_ok] by blast
  then have r: "radar2_reachable radar_cfg_example cfg_example s" by (rule radar2_reachable.init)
  have c: "radar_print_cnt s = RADAR_PRINT_DELAY radar_cfg_example"
    using i by (auto simp: example_radar2_init_def Let_def)
  have "int (length (replicate 10 (replicate 512 (0::real), None :: char option))) = RADAR_PRINT_DELAY radar_cfg_example"
    by (simp add: radar_cfg_example_def)
  from radar2_window_average [OF radar_cfg_example_ok r c this] r show ?thesis
    by (auto simp: cfg_example_def)
qed

text \<open>C28. In every reachable state of the averaging radar the countdown lies in [1, RADAR_PRINT_DELAY] and the index accumulator in [0, 2^31): when RADAR_PRINT_DELAY * CORR_SIZE < 2^31 the int counters never overflow, and every call returns.\<close>

theorem radar2_counters_bounded:
  assumes "radar2_cfg_ok rc cfg" "radar2_reachable rc cfg s" "length micdata = AUDIO_BLOCKSIZE cfg"
  shows "1 \<le> radar_print_cnt s \<and> radar_print_cnt s \<le> RADAR_PRINT_DELAY rc
         \<and> 0 \<le> max_i_average s \<and> max_i_average s < 2 ^ 31
         \<and> (\<exists>r. example_radar2 rc cfg s micdata key = Some r)"
proof -
  have inv: "radar2_inv rc s" using assms(1,2) by (rule radar2_reachable_inv)
  have "max_i_average s < 2 ^ 31" using radar2_acc_bound(1) [OF assms(1) inv, of 0] inv by simp
  moreover obtain corr where "radar_correlate (corr_result2 s) micdata (radar2_waveform s) = Some corr"
    "radar_print_cnt s = 1 \<Longrightarrow> \<exists>s' ms dist z.
        example_radar2 rc cfg s micdata key = Some (s', radar2_zerobuffer s, radar2_buffer s, ms)
        \<and> radar2_inv rc s' \<and> corr_result2 s' = corr
        \<and> hd ms = Msg_range_avg (real_of_int (max_i_average s + int (fst (radar_peak_scan corr)))
                                   / real_of_int (RADAR_PRINT_DELAY rc)) dist
                    ((max_average s + snd (radar_peak_scan corr)) / real_of_int (RADAR_PRINT_DELAY rc)) z"
    "radar_print_cnt s \<noteq> 1 \<Longrightarrow> \<exists>r. example_radar2 rc cfg s micdata key = Some r"
    using example_radar2_step [OF assms(1) inv assms(3), of key] by metis
  ultimately show ?thesis using inv by (cases "radar_print_cnt s = 1") (auto simp: radar2_inv_def)
qed

theorem radar2_counters_bounded_witness:
  "\<exists>s. radar2_reachable radar_cfg_example cfg_example s
      \<and> radar_print_cnt s = 10 \<and> (\<exists>r. example_radar2 radar_cfg_example cfg_example s (replicate 512 0) None = Some r)"
proof -
  obtain s where i: "example_radar2_init radar_cfg_example cfg_example = Some s"
    using radar2_init_inv [OF radar_cfg_example_ok] by blast
  then have r: "radar2_reachable radar_cfg_example cfg_example s" by (rule radar2_reachable.init)
  have c: "radar_print_cnt s = 10"
    using i by (auto simp: example_radar2_init_def Let_def radar_cfg_example_def)
  have "length (replicate 512 (0::real)) = AUDIO_BLOCKSIZE cfg_example" by (simp add: cfg_example_def)
  from radar2_counters_bounded [OF radar_cfg_example_ok r this, of None] r c show ?thesis by blast
qed

end
