(* ===== verification/Dft.thy ===== *)
theory Dft
  imports Numerics
begin

text \<open>
  The discrete Fourier transform that the CMSIS FFT functions compute, as used by
  the spectral shifter (\<open>arm_cfft_f32\<close>) and the FFT filter
  (\<open>arm_rfft_fast_f32\<close>). The forward transform is unscaled, and the inverse
  (\<open>ifftFlag = 1\<close>) is scaled by \<open>1/N\<close>. The library code is not in the
  sources, so the transform is modelled from its mathematical definition. This
  theory holds the facts the modes rely on: the orthogonality of the roots of
  unity, the inverse property, the spectrum of a constant block, and the
  conjugate symmetry of the spectrum of a real block.
\<close>

definition dft :: "complex list \<Rightarrow> complex list" where
  "dft xs = map (\<lambda>k. \<Sum>m<length xs. xs ! m * cis (- 2 * pi * real (k * m) / real (length xs))) [0..<length xs]"

definition idft :: "complex list \<Rightarrow> complex list" where
  "idft xs = map (\<lambda>n. (\<Sum>k<length xs. xs ! k * cis (2 * pi * real (k * n) / real (length xs))) / of_nat (length xs))
                [0..<length xs]"

lemma cis_int_2pi: "cis (2 * pi * of_int q) = 1"
  by (metis cis_multiple_2pi Ints_of_int mult.commute)

lemma cis_eq_1_int:
  assumes "cis x = 1"
  shows "\<exists>q::int. x = 2 * pi * of_int q"
proof -
  have "cos x = 1" using assms by (metis cis.sel(1) one_complex.sel(1))
  then obtain q :: int where "x = of_int q * 2 * pi" using cos_one_2pi_int by blast
  then show ?thesis by (intro exI [of _ q]) simp
qed

lemma roots_sum:
  fixes d :: int
  assumes "0 < n"
  shows "(\<Sum>k<n. cis (2 * pi * real k * of_int d / real n)) = (if d mod int n = 0 then of_nat n else 0)"
proof (cases "d mod int n = 0")
  case True
  then obtain q where q: "d = int n * q" by auto
  have "cis (2 * pi * real k * of_int d / real n) = 1" for k
  proof -
    have "2 * pi * real k * of_int d / real n = 2 * pi * of_int (int k * q)"
      using assms by (simp add: q)
    then show ?thesis by (simp add: cis_int_2pi)
  qed
  then show ?thesis using True by simp
next
  case False
  let ?z = "cis (2 * pi * of_int d / real n)"
  have pow: "cis (2 * pi * real k * of_int d / real n) = ?z ^ k" for k
    by (simp add: DeMoivre algebra_simps)
  have zn: "?z ^ n = 1"
  proof -
    have "?z ^ n = cis (real n * (2 * pi * of_int d / real n))" by (simp add: DeMoivre)
    also have "\<dots> = cis (2 * pi * of_int d)" using assms by simp
    finally show ?thesis by (simp add: cis_int_2pi)
  qed
  have z1: "?z \<noteq> 1"
  proof
    assume "?z = 1"
    then obtain q :: int where "2 * pi * of_int d / real n = 2 * pi * of_int q" using cis_eq_1_int by blast
    then have "of_int d = real n * of_int q" using assms by (simp add: field_simps)
    then have "d = int n * q" by (metis of_int_eq_iff of_int_mult of_int_of_nat_eq)
    with False show False by simp
  qed
  have "(\<Sum>k<n. cis (2 * pi * real k * of_int d / real n)) = (\<Sum>k<n. ?z ^ k)" by (simp add: pow)
  also have "\<dots> = (?z ^ n - 1) / (?z - 1)" using z1 by (rule geometric_sum)
  finally show ?thesis using zn False by simp
qed

lemma cis_dft_mult:
  "cis (- 2 * pi * real (k * m) / real n) * cis (2 * pi * real (k * j) / real n)
   = cis (2 * pi * real k * of_int (int j - int m) / real n)"
  by (simp add: cis_mult algebra_simps diff_divide_distrib)

lemma idft_dft_nth:
  assumes "j < length xs"
  shows "idft (dft xs) ! j = xs ! j"
proof -
  let ?N = "length xs"
  have N: "0 < ?N" using assms by linarith
  have "idft (dft xs) ! j
        = (\<Sum>k<?N. (\<Sum>m<?N. xs ! m * cis (- 2 * pi * real (k * m) / real ?N)) * cis (2 * pi * real (k * j) / real ?N))
          / of_nat ?N"
    using assms by (simp add: idft_def dft_def)
  also have "(\<Sum>k<?N. (\<Sum>m<?N. xs ! m * cis (- 2 * pi * real (k * m) / real ?N)) * cis (2 * pi * real (k * j) / real ?N))
        = (\<Sum>k<?N. \<Sum>m<?N. xs ! m * cis (2 * pi * real k * of_int (int j - int m) / real ?N))"
    unfolding sum_distrib_right by (intro sum.cong refl) (subst cis_dft_mult [symmetric], rule mult.assoc)
  also have "\<dots> = (\<Sum>m<?N. \<Sum>k<?N. xs ! m * cis (2 * pi * real k * of_int (int j - int m) / real ?N))"
    by (rule sum.swap)
  also have "\<dots> = (\<Sum>m<?N. xs ! m * (\<Sum>k<?N. cis (2 * pi * real k * of_int (int j - int m) / real ?N)))"
    by (simp only: sum_distrib_left)
  also have "\<dots> = (\<Sum>m<?N. if m = j then xs ! m * of_nat ?N else 0)"
  proof (rule sum.cong [OF refl])
    fix m assume m: "m \<in> {..<?N}"
    have "(int j - int m) mod int ?N = 0 \<longleftrightarrow> m = j"
    proof
      assume d: "(int j - int m) mod int ?N = 0"
      show "m = j"
      proof (rule ccontr)
        assume "m \<noteq> j"
        then have "int j - int m \<noteq> 0" by simp
        moreover have "int ?N dvd int j - int m" using d by (simp add: mod_eq_0_iff_dvd)
        ultimately have "\<bar>int ?N\<bar> \<le> \<bar>int j - int m\<bar>" by (rule dvd_imp_le_int)
        then show False using m assms by simp
      qed
    qed simp
    then show "xs ! m * (\<Sum>k<?N. cis (2 * pi * real k * of_int (int j - int m) / real ?N))
               = (if m = j then xs ! m * of_nat ?N else 0)"
      using roots_sum [OF N, of "int j - int m"] by simp
  qed
  also have "\<dots> = xs ! j * of_nat ?N" using assms by simp
  finally show ?thesis using N by simp
qed

lemma length_dft [simp]: "length (dft xs) = length xs"
  by (simp add: dft_def)

lemma length_idft [simp]: "length (idft xs) = length xs"
  by (simp add: idft_def)

lemma idft_dft: "idft (dft xs) = xs"
  by (rule nth_equalityI) (simp_all add: idft_dft_nth)


lemma dft_nth:
  "k < length xs \<Longrightarrow> dft xs ! k = (\<Sum>m<length xs. xs ! m * cis (- 2 * pi * real (k * m) / real (length xs)))"
  by (simp add: dft_def)

lemma dft_replicate:
  assumes "k < n"
  shows "dft (replicate n c) ! k = (if k = 0 then of_nat n * c else 0)"
proof -
  have n: "0 < n" using assms by simp
  have "dft (replicate n c) ! k = c * (\<Sum>m<n. cis (2 * pi * real m * of_int (- int k) / real n))"
    using assms by (simp add: dft_nth sum_distrib_left algebra_simps)
  also have "\<dots> = c * (if (- int k) mod int n = 0 then of_nat n else 0)"
    by (simp only: roots_sum [OF n])
  also have "(- int k) mod int n = 0 \<longleftrightarrow> k = 0"
  proof
    assume "(- int k) mod int n = 0"
    then have "int n dvd int k" by (simp add: mod_eq_0_iff_dvd)
    then show "k = 0" using assms by (metis dvd_imp_le not_less of_nat_dvd_iff zero_less_iff_neq_zero)
  qed simp
  finally show ?thesis by (simp add: mult.commute)
qed

lemma cis_shift_period:
  "m < n \<Longrightarrow> 0 < k \<Longrightarrow> k < n \<Longrightarrow>
   cis (- 2 * pi * real ((n - k) * m) / real n) = cis (2 * pi * real (k * m) / real n)"
proof -
  assume "m < n" "0 < k" "k < n"
  then have "- 2 * pi * real ((n - k) * m) / real n = 2 * pi * real (k * m) / real n + 2 * pi * of_int (- int m)"
    by (simp add: of_nat_diff field_simps)
  then have "cis (- 2 * pi * real ((n - k) * m) / real n)
             = cis (2 * pi * real (k * m) / real n) * cis (2 * pi * of_int (- int m))"
    by (simp only: cis_mult)
  then show ?thesis by (simp only: cis_int_2pi mult_1_right)
qed

lemma dft_real_conj:
  assumes "\<forall>z\<in>set xs. Im z = 0" "0 < k" "k < length xs"
  shows "dft xs ! (length xs - k) = cnj (dft xs ! k)"
proof -
  have r: "cnj (xs ! m) = xs ! m" if "m < length xs" for m
    using assms(1) that by (simp add: complex_eq_iff)
  have "dft xs ! (length xs - k)
        = (\<Sum>m<length xs. xs ! m * cis (- 2 * pi * real ((length xs - k) * m) / real (length xs)))"
    by (rule dft_nth) (use assms in simp)
  also have "\<dots> = (\<Sum>m<length xs. xs ! m * cis (2 * pi * real (k * m) / real (length xs)))"
    by (rule sum.cong [OF refl], subst cis_shift_period) (use assms in auto)
  also have "\<dots> = cnj (\<Sum>m<length xs. xs ! m * cis (- 2 * pi * real (k * m) / real (length xs)))"
    by (simp add: r cis_cnj)
  finally show ?thesis using assms(3) by (simp add: dft_nth)
qed

end
