(* ===== verification/Spectral.thy ===== *)
theory Spectral
  imports Dft
begin

text \<open>
  The \<open>SYSMODE_TEST3\<close> spectral shifter of \<open>example.c\<close> (lines 234--359). The
  microphone block is low-pass filtered and windowed. It is then transformed with
  the complex FFT \<open>arm_cfft_f32\<close> on an interleaved (real, imaginary) float
  array, shifted up by \<open>TEST3_FREQSHIFT_BINS\<close> bins, mirrored into the upper
  half, transformed back, and the real parts are played on the right channel.
  Every \<open>DEBUG_PRINT_PERIOD_ms\<close> the peak bin of the unshifted spectrum is
  printed.

  The CMSIS functions are modelled from their contracts. \<open>arm_cfft_f32\<close> with
  \<open>bitReverseFlag = 1\<close> is the DFT of \<open>Dft\<close> in natural order, the inverse
  scaled by \<open>1/N\<close>. The upper half of \<open>shift_fftdata\<close> is uninitialised when
  the mirror loop starts. It is an argument (\<open>junk\<close>) of the handler, so the
  theorems show what does not depend on it.
\<close>

section \<open>External functions\<close>

text \<open>The interleaved float layout of CMSIS complex arrays.\<close>

definition cplx_of_interleaved :: "real list \<Rightarrow> complex list" where
  "cplx_of_interleaved p = map (\<lambda>k. Complex (p ! (2 * k)) (p ! (2 * k + 1))) [0..<length p div 2]"

definition interleaved_of_cplx :: "complex list \<Rightarrow> real list" where
  "interleaved_of_cplx zs =
     map (\<lambda>i. if even i then Re (zs ! (i div 2)) else Im (zs ! (i div 2))) [0..<2 * length zs]"

definition arm_cfft_f32 :: "bool \<Rightarrow> real list \<Rightarrow> real list" where
  "arm_cfft_f32 ifftFlag p = interleaved_of_cplx ((if ifftFlag then idft else dft) (cplx_of_interleaved p))"

definition arm_cmplx_mag_squared_f32 :: "real list \<Rightarrow> nat \<Rightarrow> real list" where
  "arm_cmplx_mag_squared_f32 p n = map (\<lambda>k. p ! (2 * k) * p ! (2 * k) + p ! (2 * k + 1) * p ! (2 * k + 1)) [0..<n]"

text \<open>\<open>arm_max_f32\<close>: the largest value and the index of its first occurrence.\<close>

definition arm_max_f32 :: "real list \<Rightarrow> real \<times> nat" where
  "arm_max_f32 xs = fold (\<lambda>i (m, idx). if m < xs ! i then (xs ! i, i) else (m, idx)) [1..<length xs] (xs ! 0, 0)"

text \<open>\<open>windows_blackman\<close> of \<open>blocks/windows.h\<close>: the Blackman window of \<open>n\<close> samples.\<close>

definition windows_blackman :: "nat \<Rightarrow> block" where
  "windows_blackman n =
     map (\<lambda>k. 21/50 - 1/2 * cos (2 * pi * real k / real (n - 1)) + 2/25 * cos (4 * pi * real k / real (n - 1))) [0..<n]"

definition MS2US :: "nat \<Rightarrow> nat" where
  "MS2US ms = ms * 1000"

section \<open>Constants and state\<close>

definition TEST3_LP_TAPS :: nat where "TEST3_LP_TAPS = 257"

text \<open>
  Line 238: the 256 initialisers of the 257-element coefficient array; C
  initialises the remaining element to 0.
\<close>

definition test3_lp_filt_init :: "real list" where
  "test3_lp_filt_init =
     [0, 119825 / 10 ^ 12, 444618 / 10 ^ 12, - 727863 / 10 ^ 12, 270288 / 10 ^ 11, - 669514 / 10 ^ 12,
      - 137716 / 10 ^ 11, 688468 / 10 ^ 11, - 909659 / 10 ^ 11, 320771 / 10 ^ 11, 283699 / 10 ^ 11, - 221577 / 10 ^ 10,
      129173 / 10 ^ 10, - 213187 / 10 ^ 10, - 272683 / 10 ^ 10, 134271 / 10 ^ 10, - 649697 / 10 ^ 10, - 142944 / 10 ^ 10,
      - 19333 / 10 ^ 9, - 106406 / 10 ^ 9, 648035 / 10 ^ 11, - 986873 / 10 ^ 10, - 113308 / 10 ^ 9, - 139721 / 10 ^ 11,
      - 204096 / 10 ^ 9, - 714905 / 10 ^ 10, - 803624 / 10 ^ 10, - 278129 / 10 ^ 9, - 119404 / 10 ^ 10, - 23832 / 10 ^ 8,
      - 25763 / 10 ^ 8, - 793432 / 10 ^ 11, - 416107 / 10 ^ 9, - 127345 / 10 ^ 9, - 128519 / 10 ^ 9, - 497854 / 10 ^ 9,
      424158 / 10 ^ 10, - 368516 / 10 ^ 9, - 376913 / 10 ^ 9, 116328 / 10 ^ 9, - 606198 / 10 ^ 9, - 465452 / 10 ^ 10,
      - 169301 / 10 ^ 10, - 63943 / 10 ^ 8, 351097 / 10 ^ 9, - 331976 / 10 ^ 9, - 306589 / 10 ^ 9, 577824 / 10 ^ 9,
      - 615253 / 10 ^ 9, 370121 / 10 ^ 9, 454429 / 10 ^ 9, - 545039 / 10 ^ 9, 112599 / 10 ^ 8, 338275 / 10 ^ 10,
      105563 / 10 ^ 9, 156123 / 10 ^ 8, - 340389 / 10 ^ 9, 125379 / 10 ^ 8, 139452 / 10 ^ 8, - 18273 / 10 ^ 8,
      244381 / 10 ^ 8, 719492 / 10 ^ 9, 813936 / 10 ^ 9, 303999 / 10 ^ 8, 663427 / 10 ^ 10, 246896 / 10 ^ 8,
      262177 / 10 ^ 8, 151051 / 10 ^ 9, 405365 / 10 ^ 8, 135228 / 10 ^ 8, 139214 / 10 ^ 8, 461113 / 10 ^ 8,
      367289 / 10 ^ 10, 347663 / 10 ^ 8, 354677 / 10 ^ 8, - 273875 / 10 ^ 9, 531143 / 10 ^ 8, 114548 / 10 ^ 8,
      101094 / 10 ^ 8, 551941 / 10 ^ 8, - 138019 / 10 ^ 8, 34199 / 10 ^ 7, 329394 / 10 ^ 8, - 248685 / 10 ^ 8,
      538703 / 10 ^ 8, - 885153 / 10 ^ 9, - 130981 / 10 ^ 8, 498121 / 10 ^ 8, - 52152 / 10 ^ 7, 150326 / 10 ^ 8,
      111372 / 10 ^ 8, - 743222 / 10 ^ 8, 376306 / 10 ^ 8, - 546854 / 10 ^ 8, - 623171 / 10 ^ 8, 276174 / 10 ^ 8,
      - 121349 / 10 ^ 7, - 244371 / 10 ^ 8, - 304666 / 10 ^ 8, - 15557 / 10 ^ 6, 88422 / 10 ^ 8, - 126357 / 10 ^ 7,
      - 136837 / 10 ^ 7, - 159923 / 10 ^ 9, - 222439 / 10 ^ 7, - 745253 / 10 ^ 8, - 804826 / 10 ^ 8, - 268774 / 10 ^ 7,
      - 11183 / 10 ^ 7, - 217286 / 10 ^ 7, - 229721 / 10 ^ 7, - 695233 / 10 ^ 9, - 360123 / 10 ^ 7, - 109452 / 10 ^ 7,
      - 110355 / 10 ^ 7, - 429906 / 10 ^ 7, 371085 / 10 ^ 8, - 329441 / 10 ^ 7, - 347753 / 10 ^ 7, 1121 / 10 ^ 5,
      - 61916 / 10 ^ 6, - 513354 / 10 ^ 8, - 206648 / 10 ^ 8, - 89382 / 10 ^ 6, 591558 / 10 ^ 7, - 7345 / 10 ^ 5,
      - 106091 / 10 ^ 6, 563131 / 10 ^ 6, 563131 / 10 ^ 6, - 106091 / 10 ^ 6, - 7345 / 10 ^ 5, 591558 / 10 ^ 7,
      - 89382 / 10 ^ 6, - 206648 / 10 ^ 8, - 513354 / 10 ^ 8, - 61916 / 10 ^ 6, 1121 / 10 ^ 5, - 347753 / 10 ^ 7,
      - 329441 / 10 ^ 7, 371085 / 10 ^ 8, - 429906 / 10 ^ 7, - 110355 / 10 ^ 7, - 109452 / 10 ^ 7, - 360123 / 10 ^ 7,
      - 695233 / 10 ^ 9, - 229721 / 10 ^ 7, - 217286 / 10 ^ 7, - 11183 / 10 ^ 7, - 268774 / 10 ^ 7, - 804826 / 10 ^ 8,
      - 745253 / 10 ^ 8, - 222439 / 10 ^ 7, - 159923 / 10 ^ 9, - 136837 / 10 ^ 7, - 126357 / 10 ^ 7, 88422 / 10 ^ 8,
      - 15557 / 10 ^ 6, - 304666 / 10 ^ 8, - 244371 / 10 ^ 8, - 121349 / 10 ^ 7, 276174 / 10 ^ 8, - 623171 / 10 ^ 8,
      - 546854 / 10 ^ 8, 376306 / 10 ^ 8, - 743222 / 10 ^ 8, 111372 / 10 ^ 8, 150326 / 10 ^ 8, - 52152 / 10 ^ 7,
      498121 / 10 ^ 8, - 130981 / 10 ^ 8, - 885153 / 10 ^ 9, 538703 / 10 ^ 8, - 248685 / 10 ^ 8, 329394 / 10 ^ 8,
      34199 / 10 ^ 7, - 138019 / 10 ^ 8, 551941 / 10 ^ 8, 101094 / 10 ^ 8, 114548 / 10 ^ 8, 531143 / 10 ^ 8,
      - 273875 / 10 ^ 9, 354677 / 10 ^ 8, 347663 / 10 ^ 8, 367289 / 10 ^ 10, 461113 / 10 ^ 8, 139214 / 10 ^ 8,
      135228 / 10 ^ 8, 405365 / 10 ^ 8, 151051 / 10 ^ 9, 262177 / 10 ^ 8, 246896 / 10 ^ 8, 663427 / 10 ^ 10,
      303999 / 10 ^ 8, 813936 / 10 ^ 9, 719492 / 10 ^ 9, 244381 / 10 ^ 8, - 18273 / 10 ^ 8, 139452 / 10 ^ 8,
      125379 / 10 ^ 8, - 340389 / 10 ^ 9, 156123 / 10 ^ 8, 105563 / 10 ^ 9, 338275 / 10 ^ 10, 112599 / 10 ^ 8,
      - 545039 / 10 ^ 9, 454429 / 10 ^ 9, 370121 / 10 ^ 9, - 615253 / 10 ^ 9, 577824 / 10 ^ 9, - 306589 / 10 ^ 9,
      - 331976 / 10 ^ 9, 351097 / 10 ^ 9, - 63943 / 10 ^ 8, - 169301 / 10 ^ 10, - 465452 / 10 ^ 10, - 606198 / 10 ^ 9,
      116328 / 10 ^ 9, - 376913 / 10 ^ 9, - 368516 / 10 ^ 9, 424158 / 10 ^ 10, - 497854 / 10 ^ 9, - 128519 / 10 ^ 9,
      - 127345 / 10 ^ 9, - 416107 / 10 ^ 9, - 793432 / 10 ^ 11, - 25763 / 10 ^ 8, - 23832 / 10 ^ 8, - 119404 / 10 ^ 10,
      - 278129 / 10 ^ 9, - 803624 / 10 ^ 10, - 714905 / 10 ^ 10, - 204096 / 10 ^ 9, - 139721 / 10 ^ 11, - 113308 / 10 ^ 9,
      - 986873 / 10 ^ 10, 648035 / 10 ^ 11, - 106406 / 10 ^ 9, - 19333 / 10 ^ 9, - 142944 / 10 ^ 10, - 649697 / 10 ^ 10,
      134271 / 10 ^ 10, - 272683 / 10 ^ 10, - 213187 / 10 ^ 10, 129173 / 10 ^ 10, - 221577 / 10 ^ 10, 283699 / 10 ^ 11,
      320771 / 10 ^ 11, - 909659 / 10 ^ 11, 688468 / 10 ^ 11, - 137716 / 10 ^ 11, - 669514 / 10 ^ 12, 270288 / 10 ^ 11,
      - 727863 / 10 ^ 12, 444618 / 10 ^ 12, 119825 / 10 ^ 12, 0]"

definition test3_lp_filt_coeffs :: "real list" where
  "test3_lp_filt_coeffs = test3_lp_filt_init @ replicate (TEST3_LP_TAPS - length test3_lp_filt_init) 0"

definition TEST3_LP_RELCUTOFF :: real where "TEST3_LP_RELCUTOFF = 3/4"

definition TEST3_FREQSHIFT_BINS :: nat where "TEST3_FREQSHIFT_BINS = 5"

text \<open>
  Lines 245 and 249--269: \<open>TEST3_FFT_LEN\<close> is \<open>AUDIO_BLOCKSIZE\<close>, and the preprocessor
  table picks the CMSIS twiddle table \<open>arm_cfft_sR_f32_len<n>\<close> for it; \<open>Some n\<close>
  is that table, and \<^const>\<open>None\<close> is the \<open>#error\<close> branch (the mode does
  not build).
\<close>

definition test3_cfft_instance :: "config \<Rightarrow> nat option" where
  "test3_cfft_instance cfg =
     (let TEST3_FFT_LEN = AUDIO_BLOCKSIZE cfg
      in if TEST3_FFT_LEN = 16 then Some 16
         else if TEST3_FFT_LEN = 32 then Some 32
         else if TEST3_FFT_LEN = 64 then Some 64
         else if TEST3_FFT_LEN = 128 then Some 128
         else if TEST3_FFT_LEN = 256 then Some 256
         else if TEST3_FFT_LEN = 512 then Some 512
         else if TEST3_FFT_LEN = 1024 then Some 1024
         else if TEST3_FFT_LEN = 2048 then Some 2048
         else if TEST3_FFT_LEN = 4096 then Some 4096
         else None)"

record test3_state =
  test3_lp_filt_state :: "real list"
  window :: block
  print_delay :: nat

datatype test3_msg = Msg_peak real real

text \<open>\<open>example_test3_init\<close>, lines 276--280: \<open>arm_fir_init_f32\<close> clears the filter history.\<close>

definition example_test3_init :: "config \<Rightarrow> nat \<Rightarrow> test3_state" where
  "example_test3_init cfg now =
     \<lparr>test3_lp_filt_state = replicate (TEST3_LP_TAPS - 1) 0, window = windows_blackman (AUDIO_BLOCKSIZE cfg),
      print_delay = systime_get_delay 0 now\<rparr>"

text \<open>
  The static assertions of lines 283--284 of \<open>example_test3\<close> (\<open>BUILD_BUG_ON\<close> of \<open>util.h\<close>, not in the
  sources, stops the build when its condition holds), together with the FFT table:
  the configurations for which the mode builds.
\<close>

definition test3_build_ok :: "config \<Rightarrow> bool" where
  "test3_build_ok cfg \<longleftrightarrow>
     test3_cfft_instance cfg \<noteq> None
     \<and> \<not> (int TEST3_FREQSHIFT_BINS < 0)
     \<and> \<not> (TEST3_LP_RELCUTOFF > 1 - real TEST3_FREQSHIFT_BINS / real (AUDIO_BLOCKSIZE cfg))"

section \<open>The loops of example_test3\<close>

text \<open>Lines 302--309: real parts at even positions, zero imaginary parts.\<close>

definition test3_interleave :: "block \<Rightarrow> real list" where
  "test3_interleave final_td_data =
     map (\<lambda>i. if i mod 2 = 0 then final_td_data ! (i div 2) else 0) [0..<2 * length final_td_data]"

text \<open>Lines 317--323: the lower half of \<open>shift_fftdata\<close>, shifted up by \<open>2 K\<close> floats.\<close>

definition test3_shift :: "nat \<Rightarrow> real list \<Rightarrow> real list" where
  "test3_shift K fftdata = map (\<lambda>i. if i \<le> K * 2 then 0 else fftdata ! (i - K * 2)) [0..<length fftdata div 2]"

text \<open>Lines 326--328, in place on the whole array.\<close>

definition test3_mirror :: "real list \<Rightarrow> real list" where
  "test3_mirror shift_fftdata =
     fold (\<lambda>i a. a[length a - 1 - i := a ! i]) [0..<length shift_fftdata div 2] shift_fftdata"

text \<open>Lines 335--337.\<close>

definition test3_real_part :: "real list \<Rightarrow> block" where
  "test3_real_part p = map (\<lambda>i. p ! (2 * i)) [0..<length p div 2]"

text \<open>Lines 314--337 after the forward FFT: shift, mirror, inverse FFT, real part.\<close>

definition test3_spectral_shift :: "nat \<Rightarrow> real list \<Rightarrow> real list \<Rightarrow> block" where
  "test3_spectral_shift K fftdata junk =
     test3_real_part (arm_cfft_f32 True (test3_mirror (test3_shift K fftdata @ junk)))"

text \<open>Lines 346--356: the peak bin of the unshifted spectrum and its frequency.\<close>

definition test3_peak :: "config \<Rightarrow> real list \<Rightarrow> test3_msg" where
  "test3_peak cfg fftdata =
     (let N = AUDIO_BLOCKSIZE cfg;
          (max_mag, idx) = arm_max_f32 (arm_cmplx_mag_squared_f32 fftdata N)
      in Msg_peak (real idx * AUDIO_SAMPLE_RATE cfg / real N) (sqrt max_mag))"

text \<open>
  \<open>example_test3\<close>, lines 282--358. \<open>inpdata\<close> is the microphone block,
  \<open>junk\<close> the uninitialised upper half of \<open>shift_fftdata\<close>, \<open>now\<close> the clock
  reading of line 344 and \<open>period_ms\<close> the value of \<open>DEBUG_PRINT_PERIOD_ms\<close>
  (\<open>config.h\<close>).
\<close>

definition example_test3 ::
  "config \<Rightarrow> nat \<Rightarrow> test3_state \<Rightarrow> block \<Rightarrow> real list \<Rightarrow> nat
   \<Rightarrow> test3_state \<times> block \<times> block \<times> test3_msg list" where
  "example_test3 cfg period_ms s inpdata junk now =
     (let (lpdata, st') = arm_fir_f32 test3_lp_filt_coeffs (test3_lp_filt_state s) inpdata;
          final_td_data = arm_mult_f32 lpdata (window s);
          fftdata = arm_cfft_f32 False (test3_interleave final_td_data);
          output = test3_spectral_shift TEST3_FREQSHIFT_BINS fftdata junk;
          s1 = s\<lparr>test3_lp_filt_state := st'\<rparr>
      in if systime_get_delay_passed (print_delay s1) now
         then (s1\<lparr>print_delay := systime_get_delay (MS2US period_ms) now\<rparr>, inpdata, output,
               [test3_peak cfg fftdata])
         else (s1, inpdata, output, []))"

section \<open>Lemmas\<close>

lemma length_interleaved_of_cplx [simp]: "length (interleaved_of_cplx zs) = 2 * length zs"
  by (simp add: interleaved_of_cplx_def)

lemma interleaved_of_cplx_nth:
  "i < 2 * length zs \<Longrightarrow>
   interleaved_of_cplx zs ! i = (if even i then Re (zs ! (i div 2)) else Im (zs ! (i div 2)))"
  by (simp add: interleaved_of_cplx_def)

lemma cplx_of_interleaved_inv [simp]: "cplx_of_interleaved (interleaved_of_cplx zs) = zs"
  by (rule nth_equalityI) (simp_all add: cplx_of_interleaved_def interleaved_of_cplx_nth)

lemma length_test3_interleave [simp]: "length (test3_interleave x) = 2 * length x"
  by (simp add: test3_interleave_def)

lemma cplx_of_test3_interleave: "cplx_of_interleaved (test3_interleave x) = map complex_of_real x"
  by (rule nth_equalityI) (simp_all add: cplx_of_interleaved_def test3_interleave_def Complex_eq)

lemma test3_real_part_interleaved: "test3_real_part (interleaved_of_cplx zs) = map Re zs"
  by (rule nth_equalityI) (simp_all add: test3_real_part_def interleaved_of_cplx_nth)

lemma arm_cfft_f32_eq:
  "arm_cfft_f32 False p = interleaved_of_cplx (dft (cplx_of_interleaved p))"
  "arm_cfft_f32 True p = interleaved_of_cplx (idft (cplx_of_interleaved p))"
  by (simp_all add: arm_cfft_f32_def)

lemma test3_mirror_prefix:
  assumes "length junk = length lower" "n \<le> length lower"
  shows "fold (\<lambda>i a. a[length a - 1 - i := a ! i]) [0..<n] (lower @ junk)
         = lower @ map (\<lambda>j. if length lower - n \<le> j then lower ! (length lower - 1 - j) else junk ! j)
                       [0..<length lower]"
  using assms(2)
proof (induction n)
  case 0
  have "map (\<lambda>j. if length lower \<le> j then lower ! (length lower - 1 - j) else junk ! j) [0..<length lower]
        = map (\<lambda>j. junk ! j) [0..<length junk]"
    using assms(1) by (intro map_cong) simp_all
  also have "\<dots> = junk" by (simp add: map_nth)
  finally have "map (\<lambda>j. if length lower \<le> j then lower ! (length lower - 1 - j) else junk ! j) [0..<length lower] = junk" .
  then show ?case by simp
next
  case (Suc n)
  let ?L = "length lower"
  let ?u = "map (\<lambda>j. if ?L - n \<le> j then lower ! (?L - 1 - j) else junk ! j) [0..<?L]"
  have n: "n < ?L" using Suc.prems by simp
  have u: "?u[?L - 1 - n := lower ! n]
           = map (\<lambda>j. if ?L - Suc n \<le> j then lower ! (?L - 1 - j) else junk ! j) [0..<?L]"
  proof (rule nth_equalityI)
    fix j assume "j < length (?u[?L - 1 - n := lower ! n])"
    then have j: "j < ?L" by simp
    show "?u[?L - 1 - n := lower ! n] ! j
          = map (\<lambda>j. if ?L - Suc n \<le> j then lower ! (?L - 1 - j) else junk ! j) [0..<?L] ! j"
    proof (cases "j = ?L - 1 - n")
      case True
      then show ?thesis using j n by simp
    next
      case False
      have "?u[?L - 1 - n := lower ! n] ! j = ?u ! j" using False by simp
      also have "\<dots> = (if ?L - n \<le> j then lower ! (?L - 1 - j) else junk ! j)" using j by simp
      also have "(?L - n \<le> j) = (?L - Suc n \<le> j)" using False j n by auto
      then have "(if ?L - n \<le> j then lower ! (?L - 1 - j) else junk ! j)
                 = (if ?L - Suc n \<le> j then lower ! (?L - 1 - j) else junk ! j)" by simp
      finally show ?thesis using j by simp
    qed
  qed simp
  have idx: "length (lower @ ?u) - 1 - n = ?L + (?L - 1 - n)" using n by simp
  have at: "(lower @ ?u) ! n = lower ! n" using n by (simp add: nth_append)
  have "(lower @ ?u)[?L + (?L - 1 - n) := lower ! n] = lower @ ?u[?L - 1 - n := lower ! n]"
    by (simp add: list_update_append)
  then have "(lower @ ?u)[length (lower @ ?u) - 1 - n := (lower @ ?u) ! n] = lower @ ?u[?L - 1 - n := lower ! n]"
    by (simp only: idx at)
  with u have "(lower @ ?u)[length (lower @ ?u) - 1 - n := (lower @ ?u) ! n]
        = lower @ map (\<lambda>j. if ?L - Suc n \<le> j then lower ! (?L - 1 - j) else junk ! j) [0..<?L]"
    by simp
  then show ?case using Suc by simp
qed

lemma test3_mirror_eq:
  assumes "length junk = length lower"
  shows "test3_mirror (lower @ junk) = lower @ rev lower"
proof -
  have "test3_mirror (lower @ junk)
        = fold (\<lambda>i a. a[length a - 1 - i := a ! i]) [0..<length lower] (lower @ junk)"
    using assms by (simp add: test3_mirror_def)
  also have "\<dots> = lower @ map (\<lambda>j. lower ! (length lower - 1 - j)) [0..<length lower]"
    using test3_mirror_prefix [OF assms order_refl] by simp
  also have "map (\<lambda>j. lower ! (length lower - 1 - j)) [0..<length lower] = rev lower"
    by (rule nth_equalityI) (simp_all add: rev_nth)
  finally show ?thesis .
qed

lemma length_test3_shift [simp]: "length (test3_shift K p) = length p div 2"
  by (simp add: test3_shift_def)

lemma test3_fft_const_nth:
  assumes "i < 2 * n"
  shows "arm_cfft_f32 False (test3_interleave (replicate n c)) ! i = (if i = 0 then real n * c else 0)"
proof -
  have d: "i div 2 < n" using assms by simp
  have "arm_cfft_f32 False (test3_interleave (replicate n c)) ! i
        = (if even i then Re (dft (replicate n (complex_of_real c)) ! (i div 2))
           else Im (dft (replicate n (complex_of_real c)) ! (i div 2)))"
    using assms by (simp add: arm_cfft_f32_eq cplx_of_test3_interleave interleaved_of_cplx_nth)
  also have "\<dots> = (if i = 0 then real n * c else 0)"
    using d by (auto simp: dft_replicate elim: oddE)
  finally show ?thesis .
qed

lemma idft_zeros: "idft (replicate n 0) = replicate n 0"
  by (rule nth_equalityI) (simp_all add: idft_def)

lemma cplx_of_interleaved_zeros: "cplx_of_interleaved (replicate (2 * n) 0) = replicate n 0"
  by (rule nth_equalityI) (simp_all add: cplx_of_interleaved_def Complex_eq)

lemma pow2_4_12:
  "(\<exists>k. 4 \<le> k \<and> k \<le> 12 \<and> n = (2::nat) ^ k)
   \<longleftrightarrow> n \<in> {16, 32, 64, 128, 256, 512, 1024, 2048, 4096}"
proof
  assume "\<exists>k. 4 \<le> k \<and> k \<le> 12 \<and> n = (2::nat) ^ k"
  then obtain k where k: "4 \<le> k" "k \<le> 12" and n: "n = 2 ^ k" by blast
  from k have "k = 4 \<or> k = 5 \<or> k = 6 \<or> k = 7 \<or> k = 8 \<or> k = 9 \<or> k = 10 \<or> k = 11 \<or> k = 12"
    by linarith
  then show "n \<in> {16, 32, 64, 128, 256, 512, 1024, 2048, 4096}" using n by (elim disjE) simp_all
next
  assume "n \<in> {16, 32, 64, 128, 256, 512, 1024, 2048, 4096}"
  then show "\<exists>k. 4 \<le> k \<and> k \<le> 12 \<and> n = 2 ^ k"
    apply (elim insertE emptyE)
            apply (rule exI [of _ 4], simp)
           apply (rule exI [of _ 5], simp)
          apply (rule exI [of _ 6], simp)
         apply (rule exI [of _ 7], simp)
        apply (rule exI [of _ 8], simp)
       apply (rule exI [of _ 9], simp)
      apply (rule exI [of _ 10], simp)
     apply (rule exI [of _ 11], simp)
    apply (rule exI [of _ 12], simp)
    done
qed

lemma test3_cfft_instance_eq:
  "test3_cfft_instance cfg =
     (if AUDIO_BLOCKSIZE cfg \<in> {16, 32, 64, 128, 256, 512, 1024, 2048, 4096} then Some (AUDIO_BLOCKSIZE cfg) else None)"
  by (simp add: test3_cfft_instance_def Let_def)

lemma length_test3_mirror: "length (test3_mirror p) = length p"
proof -
  have "length (fold (\<lambda>i a. a[length a - 1 - i := a ! i]) is p) = length p" for "is"
    by (induction "is" arbitrary: p) simp_all
  then show ?thesis by (simp add: test3_mirror_def)
qed

lemma length_arm_cfft_f32: "length (arm_cfft_f32 f p) = 2 * (length p div 2)"
  by (simp add: arm_cfft_f32_def cplx_of_interleaved_def)

lemma length_test3_spectral_shift:
  "length fftdata = 2 * n \<Longrightarrow> length junk = n \<Longrightarrow> length (test3_spectral_shift K fftdata junk) = n"
  by (simp add: test3_spectral_shift_def test3_real_part_def length_arm_cfft_f32 length_test3_mirror)

lemma example_test3_lengths:
  assumes "length inp = AUDIO_BLOCKSIZE cfg" "length junk = AUDIO_BLOCKSIZE cfg"
    "length (window s) = AUDIO_BLOCKSIZE cfg"
    "example_test3 cfg p s inp junk now = (s', l, r, msgs)"
  shows "window s' = window s \<and> length l = AUDIO_BLOCKSIZE cfg \<and> length r = AUDIO_BLOCKSIZE cfg"
proof -
  let ?f = "arm_cfft_f32 False (test3_interleave (arm_mult_f32 (fst (arm_fir_f32 test3_lp_filt_coeffs (test3_lp_filt_state s) inp)) (window s)))"
  have "length ?f = 2 * AUDIO_BLOCKSIZE cfg"
    using assms(1,3) by (simp add: arm_mult_f32_def arm_fir_f32_def Let_def length_arm_cfft_f32)
  then have "length (test3_spectral_shift TEST3_FREQSHIFT_BINS ?f junk) = AUDIO_BLOCKSIZE cfg"
    using assms(2) by (rule length_test3_spectral_shift)
  then show ?thesis
    using assms(1,4) by (auto simp: example_test3_def Let_def split: if_splits prod.splits)
qed

section \<open>Properties of the spectral shifter\<close>

text \<open>C29. The mirror loop does not read the uninitialised upper half of shift_fftdata: the output of the shift stage is the inverse transform of the shifted lower half followed by its element-wise reversal, whatever the upper half held.\<close>

theorem test3_spectral_shift_eq:
  assumes "length junk = length fftdata div 2"
  shows "test3_spectral_shift K fftdata junk
         = test3_real_part (arm_cfft_f32 True (test3_shift K fftdata @ rev (test3_shift K fftdata)))"
  using assms by (simp add: test3_spectral_shift_def test3_mirror_eq)

theorem test3_spectral_shift_eq_witness:
  "test3_spectral_shift 0 [1, 2, 3, 4] [9, 9]
   = test3_real_part (arm_cfft_f32 True (test3_shift 0 [1, 2, 3, 4] @ rev (test3_shift 0 [1, 2, 3, 4])))"
  by (rule test3_spectral_shift_eq) simp

text \<open>C30. With zero shift bins the code still zeroes the first float of the spectrum (the loop tests i <= 2K), so a constant block, whose spectrum is all DC, comes out of the shift stage as silence.\<close>

theorem test3_dc_block_silenced:
  assumes "length junk = n"
  shows "test3_spectral_shift 0 (arm_cfft_f32 False (test3_interleave (replicate n c))) junk = replicate n 0"
proof -
  let ?F = "arm_cfft_f32 False (test3_interleave (replicate n c))"
  have lF: "length ?F = 2 * n" by (simp add: arm_cfft_f32_eq cplx_of_test3_interleave)
  have sh: "test3_shift 0 ?F = replicate n 0"
    by (rule nth_equalityI) (simp_all add: lF test3_shift_def test3_fft_const_nth)
  have "test3_mirror (test3_shift 0 ?F @ junk) = replicate (2 * n) 0"
    using assms by (simp add: sh test3_mirror_eq replicate_add [symmetric] mult_2)
  then show ?thesis
    by (simp add: test3_spectral_shift_def arm_cfft_f32_eq cplx_of_interleaved_zeros idft_zeros
        test3_real_part_interleaved)
qed

theorem test3_dc_block_silenced_witness:
  "test3_spectral_shift 0 (arm_cfft_f32 False (test3_interleave (replicate 4 1))) [5, 6, 7, 8] = replicate 4 0"
  by (rule test3_dc_block_silenced) simp

text \<open>C34. The TEST3 FFT table selects the complex FFT of length AUDIO_BLOCKSIZE when it is a power of two from 16 to 4096 and reaches #error otherwise; with the BUILD_BUG_ON of line 284 (TEST3_LP_RELCUTOFF = 0.75, TEST3_FREQSHIFT_BINS = 5) the mode builds exactly for the powers of two from 32 to 4096: the length 16 that the table accepts is rejected by the static assertion.\<close>

theorem test3_build_configs:
  "test3_cfft_instance cfg =
     (if \<exists>k. 4 \<le> k \<and> k \<le> 12 \<and> AUDIO_BLOCKSIZE cfg = 2 ^ k then Some (AUDIO_BLOCKSIZE cfg) else None)
   \<and> (test3_build_ok cfg \<longleftrightarrow> (\<exists>k. 4 \<le> k \<and> k \<le> 12 \<and> AUDIO_BLOCKSIZE cfg = 2 ^ k) \<and> AUDIO_BLOCKSIZE cfg \<noteq> 16)"
proof -
  have "test3_build_ok cfg \<longleftrightarrow> AUDIO_BLOCKSIZE cfg \<in> {32, 64, 128, 256, 512, 1024, 2048, 4096}"
  proof (cases "AUDIO_BLOCKSIZE cfg \<in> {16, 32, 64, 128, 256, 512, 1024, 2048, 4096}")
    case True
    then show ?thesis
      by (elim insertE emptyE)
         (simp_all add: test3_build_ok_def test3_cfft_instance_eq TEST3_LP_RELCUTOFF_def TEST3_FREQSHIFT_BINS_def)
  next
    case False
    then show ?thesis by (auto simp: test3_build_ok_def test3_cfft_instance_eq)
  qed
  then show ?thesis unfolding pow2_4_12 by (auto simp: test3_cfft_instance_eq)
qed

theorem test3_build_configs_witness:
  "test3_cfft_instance \<lparr>AUDIO_BLOCKSIZE = 16, AUDIO_SAMPLE_RATE = 16000\<rparr> = Some 16
   \<and> \<not> test3_build_ok \<lparr>AUDIO_BLOCKSIZE = 16, AUDIO_SAMPLE_RATE = 16000\<rparr>
   \<and> test3_build_ok cfg_example"
proof -
  have "\<exists>k. 4 \<le> k \<and> k \<le> 12 \<and> AUDIO_BLOCKSIZE \<lparr>AUDIO_BLOCKSIZE = 16, AUDIO_SAMPLE_RATE = 16000\<rparr> = 2 ^ k"
    unfolding pow2_4_12 by simp
  then have a: "test3_cfft_instance \<lparr>AUDIO_BLOCKSIZE = 16, AUDIO_SAMPLE_RATE = 16000\<rparr> = Some 16
      \<and> \<not> test3_build_ok \<lparr>AUDIO_BLOCKSIZE = 16, AUDIO_SAMPLE_RATE = 16000\<rparr>"
    using test3_build_configs [of "\<lparr>AUDIO_BLOCKSIZE = 16, AUDIO_SAMPLE_RATE = 16000\<rparr>"] by simp
  have "\<exists>k. 4 \<le> k \<and> k \<le> 12 \<and> AUDIO_BLOCKSIZE cfg_example = 2 ^ k"
    unfolding pow2_4_12 by (simp add: cfg_example_def)
  then have "test3_build_ok cfg_example"
    using test3_build_configs [of cfg_example] by (simp add: cfg_example_def)
  then show ?thesis using a by simp
qed

end
