(* ===== verification/FftFilter.thy ===== *)
theory FftFilter
  imports Dft
begin

text \<open>
  The \<open>SYSMODE_FFT\<close> mode of \<open>example.c\<close> (lines 824--935): an overlap-add
  FIR filter of the waveform block with the 64-tap low-pass \<open>lp_filter\<close>. The
  block is zero-padded to \<open>FFT_SIZE = 2 * AUDIO_BLOCKSIZE\<close> samples and
  transformed with the real FFT \<open>arm_rfft_fast_f32\<close>. It is multiplied with the
  filter's spectrum \<open>H\<close>, transformed back, and the tail is added to the next
  block through \<open>saved\<close>.

  \<open>arm_rfft_fast_f32\<close> is modelled from its contract. The forward transform of
  \<open>L\<close> real samples is packed into \<open>L\<close> floats: the real DC and Nyquist values
  first, then the real and imaginary parts of bins \<open>1 .. L/2 - 1\<close>. The inverse
  reads the same layout, rebuilds the conjugate-symmetric spectrum, and returns
  the real signal scaled by \<open>1/L\<close>. Reads and writes outside the C arrays are
  \<^const>\<open>None\<close>.
\<close>

section \<open>External functions\<close>

definition rfft_pack :: "complex list \<Rightarrow> real list" where
  "rfft_pack X =
     map (\<lambda>i. if i = 0 then Re (X ! 0) else if i = 1 then Re (X ! (length X div 2))
              else if even i then Re (X ! (i div 2)) else Im (X ! (i div 2))) [0..<length X]"

definition rfft_unpack :: "real list \<Rightarrow> complex list" where
  "rfft_unpack p =
     (let L = length p
      in map (\<lambda>k. if k = 0 then complex_of_real (p ! 0)
                  else if k = L div 2 then complex_of_real (p ! 1)
                  else if k < L div 2 then Complex (p ! (2 * k)) (p ! (2 * k + 1))
                  else cnj (Complex (p ! (2 * (L - k))) (p ! (2 * (L - k) + 1)))) [0..<L])"

definition arm_rfft_fast_f32 :: "bool \<Rightarrow> real list \<Rightarrow> real list" where
  "arm_rfft_fast_f32 ifftFlag p =
     (if ifftFlag then map Re (idft (rfft_unpack p)) else rfft_pack (dft (map complex_of_real p)))"

text \<open>
  \<open>arm_rfft_fast_init_f32 S fftLen\<close>: CMSIS-DSP supports the real FFT lengths
  32, 64, ..., 4096 only. For those it fills the instance for \<open>fftLen\<close> (\<open>Some\<close>
  of the length); for any other length it returns \<open>ARM_MATH_ARGUMENT_ERROR\<close> and
  leaves the instance without twiddle tables (\<^const>\<open>None\<close>), so a transform
  through it is undefined behaviour.
\<close>

definition arm_rfft_fast_init_f32 :: "nat \<Rightarrow> nat option" where
  "arm_rfft_fast_init_f32 fftLen =
     (if fftLen \<in> {32, 64, 128, 256, 512, 1024, 2048, 4096} then Some fftLen else None)"

text \<open>\<open>arm_cmplx_mult_cmplx_f32 a b n\<close>: \<open>n\<close> complex products of interleaved arrays.\<close>

definition arm_cmplx_mult_cmplx_f32 :: "real list \<Rightarrow> real list \<Rightarrow> nat \<Rightarrow> real list" where
  "arm_cmplx_mult_cmplx_f32 a b n =
     map (\<lambda>i. let k = i div 2 in
               if even i then a ! (2 * k) * b ! (2 * k) - a ! (2 * k + 1) * b ! (2 * k + 1)
               else a ! (2 * k) * b ! (2 * k + 1) + a ! (2 * k + 1) * b ! (2 * k)) [0..<2 * n]"

text \<open>\<open>arm_copy_f32 src dst n\<close>: the first \<open>n\<close> elements of \<open>dst\<close> replaced by \<open>src\<close>.\<close>

definition arm_copy_f32 :: "real list \<Rightarrow> real list \<Rightarrow> nat \<Rightarrow> real list option" where
  "arm_copy_f32 src dst n =
     (if n \<le> length src \<and> n \<le> length dst then Some (take n src @ drop n dst) else None)"

section \<open>Constants and state\<close>

definition FILTER_SIZE :: nat where "FILTER_SIZE = 64"

definition FFT_SIZE :: "config \<Rightarrow> nat" where "FFT_SIZE cfg = AUDIO_BLOCKSIZE cfg * 2"

definition FFT_FLAG :: bool where "FFT_FLAG = False"
definition IFFT_FLAG :: bool where "IFFT_FLAG = True"

text \<open>Lines 830--895.\<close>

definition lp_filter :: "real list" where
  "lp_filter =
     [- 2496956319982458 / 10 ^ 18, 1061123057910895 / 10 ^ 18, 1799575981839800 / 10 ^ 18,
      2677675432046559 / 10 ^ 18, 3246366234977765 / 10 ^ 18, 3090521427050170 / 10 ^ 18,
      1954953083021346 / 10 ^ 18, - 1303892962678101 / 10 ^ 19, - 2795326496320816 / 10 ^ 18,
      - 5356144072505601 / 10 ^ 18, - 6972193079604380 / 10 ^ 18, - 6867088217447664 / 10 ^ 18,
      - 4610028643185672 / 10 ^ 18, - 3312566693466183 / 10 ^ 19, 5175765824001333 / 10 ^ 18,
      1054753460776610 / 10 ^ 17, 1411890548432881 / 10 ^ 17, 1436065007374038 / 10 ^ 17,
      1032985773994797 / 10 ^ 17, 2132543581602375 / 10 ^ 18, - 8919519113938091 / 10 ^ 18,
      - 2035820813689276 / 10 ^ 17, - 2895083648554942 / 10 ^ 17, - 3135674961111528 / 10 ^ 17,
      - 2489424533023874 / 10 ^ 17, - 8266237880079758 / 10 ^ 18, 1794823774717696 / 10 ^ 17,
      5118254654955430 / 10 ^ 17, 8719283811339594 / 10 ^ 17, 1207736510603734 / 10 ^ 16,
      1467272709948181 / 10 ^ 16, 1608677439150870 / 10 ^ 16, 1608677439150870 / 10 ^ 16,
      1467272709948181 / 10 ^ 16, 1207736510603734 / 10 ^ 16, 8719283811339594 / 10 ^ 17,
      5118254654955430 / 10 ^ 17, 1794823774717696 / 10 ^ 17, - 8266237880079758 / 10 ^ 18,
      - 2489424533023874 / 10 ^ 17, - 3135674961111528 / 10 ^ 17, - 2895083648554942 / 10 ^ 17,
      - 2035820813689276 / 10 ^ 17, - 8919519113938091 / 10 ^ 18, 2132543581602375 / 10 ^ 18,
      1032985773994797 / 10 ^ 17, 1436065007374038 / 10 ^ 17, 1411890548432881 / 10 ^ 17,
      1054753460776610 / 10 ^ 17, 5175765824001333 / 10 ^ 18, - 3312566693466183 / 10 ^ 19,
      - 4610028643185672 / 10 ^ 18, - 6867088217447664 / 10 ^ 18, - 6972193079604380 / 10 ^ 18,
      - 5356144072505601 / 10 ^ 18, - 2795326496320816 / 10 ^ 18, - 1303892962678101 / 10 ^ 19,
      1954953083021346 / 10 ^ 18, 3090521427050170 / 10 ^ 18, 3246366234977765 / 10 ^ 18,
      2677675432046559 / 10 ^ 18, 1799575981839800 / 10 ^ 18, 1061123057910895 / 10 ^ 18,
      - 2496956319982458 / 10 ^ 18]"

text \<open>
  The globals of lines 897--904 that carry state between calls; \<open>S_fft\<close> is the
  real FFT instance as \<open>arm_rfft_fast_init_f32\<close> left it.
\<close>

record fft_state =
  H :: "real list"
  buffer :: "real list"
  saved :: "real list"
  S_fft :: "nat option"

text \<open>
  \<open>example_fft_init\<close>, lines 905--912. The status of \<open>arm_rfft_fast_init_f32\<close>
  (line 906) is ignored, so with an unsupported \<open>FFT_SIZE\<close> the transform of
  line 910 runs on an unusable instance: undefined behaviour.
\<close>

definition example_fft_init :: "config \<Rightarrow> fft_state option" where
  "example_fft_init cfg =
     (case arm_rfft_fast_init_f32 (FFT_SIZE cfg) of
        None \<Rightarrow> None
      | Some S \<Rightarrow>
          map_option (\<lambda>buf. \<lparr>H = arm_rfft_fast_f32 FFT_FLAG buf, buffer = arm_fill_f32 0 (FFT_SIZE cfg),
                             saved = arm_fill_f32 0 FILTER_SIZE, S_fft = Some S\<rparr>)
            (arm_copy_f32 lp_filter (arm_fill_f32 0 (FFT_SIZE cfg)) FILTER_SIZE))"

section \<open>The block handler\<close>

text \<open>Lines 920--923: the zero-padded waveform block, its spectrum and the product with \<open>H\<close>.\<close>

definition fft_filter_spectrum :: "config \<Rightarrow> fft_state \<Rightarrow> block \<Rightarrow> real list" where
  "fft_filter_spectrum cfg s wavedata =
     (let N = AUDIO_BLOCKSIZE cfg;
          buf = wavedata @ arm_fill_f32 0 (FFT_SIZE cfg - N);
          X = arm_rfft_fast_f32 FFT_FLAG buf
      in arm_cmplx_mult_cmplx_f32 X (H s) (FFT_SIZE cfg - N))"

text \<open>Lines 925--929: the overlap-add loop, in place on \<open>buffer\<close> and \<open>saved\<close>.\<close>

definition fft_overlap_add :: "nat \<Rightarrow> real list \<Rightarrow> real list \<Rightarrow> (real list \<times> real list) option" where
  "fft_overlap_add n buf sv =
     fold (\<lambda>i acc. Option.bind acc (\<lambda>(b, s).
             Option.bind (array_load b (int i)) (\<lambda>bi.
             Option.bind (array_load s (int i)) (\<lambda>si.
             Option.bind (array_store b (int i) (bi + si)) (\<lambda>b'.
             Option.bind (array_load b' (int n + int i)) (\<lambda>v.
             map_option (\<lambda>s'. (b', s')) (array_store s (int i) v)))))))
       [0..<FILTER_SIZE] (Some (buf, sv))"

text \<open>
  \<open>example_fft\<close>, lines 914--934: the microphone block goes to the left channel
  and the first \<open>AUDIO_BLOCKSIZE\<close> samples of \<open>buffer\<close> to the right. Both
  transforms (lines 922 and 924) go through \<open>S_fft\<close>, and through an unusable
  instance they are undefined behaviour.
\<close>

definition example_fft ::
  "config \<Rightarrow> fft_state \<Rightarrow> block \<Rightarrow> block \<Rightarrow> (fft_state \<times> block \<times> block) option" where
  "example_fft cfg s micdata wavedata =
     (case S_fft s of
        None \<Rightarrow> None
      | Some S \<Rightarrow>
          (let Y = fft_filter_spectrum cfg s wavedata;
               buf = arm_rfft_fast_f32 IFFT_FLAG Y
           in map_option (\<lambda>(b, sv). (s\<lparr>buffer := b, saved := sv\<rparr>, micdata, take (AUDIO_BLOCKSIZE cfg) b))
                (fft_overlap_add (AUDIO_BLOCKSIZE cfg) buf (saved s))))"


section \<open>Shape of the state and reachable states\<close>

text \<open>
  The array sizes of lines 897--903 and the usable FFT instance of line 904 as a
  predicate on the state, and the states
  reachable from \<open>example_fft_init\<close> by block calls whose waveform block has
  \<open>AUDIO_BLOCKSIZE\<close> samples (what \<open>blocks_sources_waveform\<close> delivers).
\<close>

definition fft_wf :: "config \<Rightarrow> fft_state \<Rightarrow> bool" where
  "fft_wf cfg s \<longleftrightarrow> length (H s) = FFT_SIZE cfg \<and> length (buffer s) = FFT_SIZE cfg
                   \<and> length (saved s) = FILTER_SIZE \<and> S_fft s = Some (FFT_SIZE cfg)"

inductive fft_reachable :: "config \<Rightarrow> fft_state \<Rightarrow> bool" for cfg where
  init: "example_fft_init cfg = Some s \<Longrightarrow> fft_reachable cfg s"
| block: "fft_reachable cfg s \<Longrightarrow> length wave = AUDIO_BLOCKSIZE cfg \<Longrightarrow>
          example_fft cfg s mic wave = Some (s', l, r) \<Longrightarrow> fft_reachable cfg s'"

section \<open>Lemmas\<close>

lemma array_load_None [simp]: "i < 0 \<or> length xs \<le> nat i \<Longrightarrow> array_load xs i = None"
  by (auto simp: array_load_def)

lemma fft_overlap_add_prefix:
  assumes "length buf = 2 * n" "length sv = FILTER_SIZE" "k \<le> FILTER_SIZE"
  shows "fold (\<lambda>i acc. Option.bind acc (\<lambda>(b, s).
             Option.bind (array_load b (int i)) (\<lambda>bi.
             Option.bind (array_load s (int i)) (\<lambda>si.
             Option.bind (array_store b (int i) (bi + si)) (\<lambda>b'.
             Option.bind (array_load b' (int n + int i)) (\<lambda>v.
             map_option (\<lambda>s'. (b', s')) (array_store s (int i) v)))))))
           [0..<k] (Some (buf, sv))
         = (if k \<le> n then Some (map (\<lambda>j. if j < k then buf ! j + sv ! j else buf ! j) [0..<length buf],
                                 map (\<lambda>j. if j < k then buf ! (n + j) else sv ! j) [0..<FILTER_SIZE])
            else None)"
  using assms(3)
proof (induction k)
  case 0
  have "map (\<lambda>j. buf ! j) [0..<length buf] = buf" "map (\<lambda>j. sv ! j) [0..<FILTER_SIZE] = sv"
    using map_nth [of buf] map_nth [of sv] assms(2) by simp_all
  then show ?case by simp
next
  case (Suc k)
  let ?B = "map (\<lambda>j. if j < k then buf ! j + sv ! j else buf ! j) [0..<length buf]"
  let ?S = "map (\<lambda>j. if j < k then buf ! (n + j) else sv ! j) [0..<FILTER_SIZE]"
  have k: "k < FILTER_SIZE" using Suc.prems by simp
  show ?case
  proof (cases "Suc k \<le> n")
    case True
    have kb: "k < length buf" "n + k < length buf" using True assms(1) by simp_all
    have B: "?B[k := buf ! k + sv ! k] = map (\<lambda>j. if j < Suc k then buf ! j + sv ! j else buf ! j) [0..<length buf]"
      by (rule nth_equalityI) (auto simp: nth_list_update less_Suc_eq)
    have S: "?S[k := buf ! (n + k)] = map (\<lambda>j. if j < Suc k then buf ! (n + j) else sv ! j) [0..<FILTER_SIZE]"
      by (rule nth_equalityI) (auto simp: nth_list_update less_Suc_eq)
    have "?B[k := buf ! k + sv ! k] ! (n + k) = buf ! (n + k)" using kb True by simp
    then show ?thesis
      using Suc True kb k B S assms(2) by (simp add: nat_add_distrib)
  next
    case False
    show ?thesis
    proof (cases "k \<le> n")
      case True
      then have kn: "k = n" using False by simp
      show ?thesis
      proof (cases "n = 0")
        case True
        then show ?thesis using Suc kn assms(1) by simp
      next
        case False
        then show ?thesis using Suc kn False assms(1,2) k by (simp add: nat_add_distrib)
      qed
    next
      case False
      then show ?thesis using Suc by simp
    qed
  qed
qed

lemma length_arm_rfft_fast_f32 [simp]: "length (arm_rfft_fast_f32 f p) = length p"
  by (simp add: arm_rfft_fast_f32_def rfft_pack_def rfft_unpack_def idft_def Let_def)

lemma length_fft_filter_spectrum [simp]:
  "length (fft_filter_spectrum cfg s wave) = FFT_SIZE cfg"
  by (simp add: fft_filter_spectrum_def arm_cmplx_mult_cmplx_f32_def FFT_SIZE_def Let_def)

lemma length_lp_filter [simp]: "length lp_filter = FILTER_SIZE"
  by (simp add: lp_filter_def FILTER_SIZE_def)

lemma example_fft_init_eq:
  "example_fft_init cfg =
     (if FILTER_SIZE \<le> FFT_SIZE cfg \<and> arm_rfft_fast_init_f32 (FFT_SIZE cfg) \<noteq> None
      then Some \<lparr>H = arm_rfft_fast_f32 FFT_FLAG (lp_filter @ arm_fill_f32 0 (FFT_SIZE cfg - FILTER_SIZE)),
                 buffer = arm_fill_f32 0 (FFT_SIZE cfg), saved = arm_fill_f32 0 FILTER_SIZE,
                 S_fft = Some (FFT_SIZE cfg)\<rparr>
      else None)"
  by (simp add: example_fft_init_def arm_copy_f32_def arm_fill_f32_def arm_rfft_fast_init_f32_def)

lemma example_fft_eq:
  assumes "fft_wf cfg s" "length wave = AUDIO_BLOCKSIZE cfg"
  shows "example_fft cfg s mic wave =
     (if FILTER_SIZE \<le> AUDIO_BLOCKSIZE cfg then
        (let buf = arm_rfft_fast_f32 IFFT_FLAG (fft_filter_spectrum cfg s wave);
             b = map (\<lambda>j. if j < FILTER_SIZE then buf ! j + saved s ! j else buf ! j) [0..<length buf]
         in Some (s\<lparr>buffer := b, saved := map (\<lambda>j. buf ! (AUDIO_BLOCKSIZE cfg + j)) [0..<FILTER_SIZE]\<rparr>,
                  mic, take (AUDIO_BLOCKSIZE cfg) b))
      else None)"
proof -
  let ?buf = "arm_rfft_fast_f32 IFFT_FLAG (fft_filter_spectrum cfg s wave)"
  have "length ?buf = 2 * AUDIO_BLOCKSIZE cfg" by (simp add: FFT_SIZE_def)
  moreover have "length (saved s) = FILTER_SIZE" "S_fft s = Some (FFT_SIZE cfg)"
    using assms(1) by (simp_all add: fft_wf_def)
  ultimately show ?thesis
    using fft_overlap_add_prefix [of ?buf "AUDIO_BLOCKSIZE cfg" "saved s" FILTER_SIZE]
    by (simp add: example_fft_def fft_overlap_add_def Let_def)
qed

lemma fft_reachable_wf:
  "fft_reachable cfg s \<Longrightarrow>
   fft_wf cfg s \<and> FILTER_SIZE \<le> FFT_SIZE cfg \<and> arm_rfft_fast_init_f32 (FFT_SIZE cfg) \<noteq> None"
proof (induction rule: fft_reachable.induct)
  case (init s)
  then show ?case
    by (auto simp: example_fft_init_eq fft_wf_def arm_fill_f32_def split: if_splits)
next
  case (block s wave mic s' l r)
  then show ?case
    by (auto simp: example_fft_eq fft_wf_def Let_def FFT_SIZE_def split: if_splits)
qed

lemma example_fft_lengths:
  assumes "fft_wf cfg s" "length wave = AUDIO_BLOCKSIZE cfg" "example_fft cfg s mic wave = Some (s', l, r)"
  shows "l = mic \<and> length r = AUDIO_BLOCKSIZE cfg"
  using assms(3) by (auto simp: example_fft_eq [OF assms(1,2)] Let_def FFT_SIZE_def split: if_splits)

section \<open>Properties of the FFT filter\<close>

text \<open>C31. The overlap-add loop of lines 925--929, on a buffer of 2N samples and a saved tail of FILTER_SIZE samples, adds the saved tail to the first FILTER_SIZE samples and saves the samples N..N+FILTER_SIZE-1 of the buffer, the reads of the updated buffer never seeing an updated sample; when the block is shorter than the filter (N < FILTER_SIZE) the read of buffer[AUDIO_BLOCKSIZE + i] leaves the buffer, and the loop is undefined behaviour.\<close>

theorem fft_overlap_add_eq:
  assumes "length buf = 2 * n" "length sv = FILTER_SIZE"
  shows "fft_overlap_add n buf sv
         = (if FILTER_SIZE \<le> n
            then Some (map (\<lambda>j. if j < FILTER_SIZE then buf ! j + sv ! j else buf ! j) [0..<length buf],
                       map (\<lambda>j. buf ! (n + j)) [0..<FILTER_SIZE])
            else None)"
  using fft_overlap_add_prefix [OF assms order_refl] by (simp add: fft_overlap_add_def)

lemma length_rfft_pack [simp]: "length (rfft_pack X) = length X"
  by (simp add: rfft_pack_def)

text \<open>C32. The product on line 923 treats the first two floats of each packed real spectrum as one complex number. They are the real DC and Nyquist bins, so the filtered DC bin becomes X0 H0 - XN HN and the Nyquist bin X0 HN + XN H0 instead of X0 H0 and XN HN.\<close>

theorem fft_dc_bin_product:
  assumes "0 < AUDIO_BLOCKSIZE cfg" "length wavedata = AUDIO_BLOCKSIZE cfg"
    "H s = arm_rfft_fast_f32 FFT_FLAG h" "length h = FFT_SIZE cfg"
  defines "X \<equiv> dft (map complex_of_real (wavedata @ arm_fill_f32 0 (AUDIO_BLOCKSIZE cfg)))"
  defines "Hk \<equiv> dft (map complex_of_real h)"
  shows "fft_filter_spectrum cfg s wavedata ! 0
           = Re (X ! 0) * Re (Hk ! 0) - Re (X ! AUDIO_BLOCKSIZE cfg) * Re (Hk ! AUDIO_BLOCKSIZE cfg)
         \<and> fft_filter_spectrum cfg s wavedata ! 1
           = Re (X ! 0) * Re (Hk ! AUDIO_BLOCKSIZE cfg) + Re (X ! AUDIO_BLOCKSIZE cfg) * Re (Hk ! 0)"
  using assms(1,2,4)
  by (simp add: fft_filter_spectrum_def assms(3) X_def Hk_def arm_rfft_fast_f32_def arm_cmplx_mult_cmplx_f32_def
      rfft_pack_def FFT_SIZE_def FFT_FLAG_def arm_fill_f32_def Let_def)

theorem fft_overlap_add_eq_witness:
  "fft_overlap_add 1 [1, 2] (replicate 64 0) = None
   \<and> fft_overlap_add 64 (replicate 128 1) (replicate 64 2) = Some (replicate 64 3 @ replicate 64 1, replicate 64 1)"
proof -
  have a: "fft_overlap_add 1 [1, 2] (replicate 64 0) = None"
    using fft_overlap_add_eq [of "[1, 2]" 1 "replicate 64 0"] by (simp add: FILTER_SIZE_def)
  have m: "map (\<lambda>j. if j < 64 then 3 else 1) [0..<128] = replicate 64 (3::real) @ replicate 64 1"
    by (rule nth_equalityI) (auto simp: nth_append)
  have "fft_overlap_add 64 (replicate 128 1) (replicate 64 2)
        = Some (map (\<lambda>j. if j < 64 then 3 else 1) [0..<128], map (\<lambda>j. 1) [0..<64])"
    using fft_overlap_add_eq [of "replicate 128 1" 64 "replicate 64 2"] by (simp add: FILTER_SIZE_def)
  then show ?thesis using a m by (simp add: map_replicate_const)
qed

theorem fft_dc_bin_product_witness:
  "fft_filter_spectrum \<lparr>AUDIO_BLOCKSIZE = 1, AUDIO_SAMPLE_RATE = 16000\<rparr>
     \<lparr>H = arm_rfft_fast_f32 FFT_FLAG [1, 0], buffer = [0, 0], saved = replicate 64 0, S_fft = Some 2\<rparr> [1] ! 0 = 0"
proof -
  have d: "dft [1, 0] ! 0 = 1" "dft [1, 0] ! Suc 0 = 1"
    by (simp_all add: dft_nth lessThan_Suc)
  show ?thesis
    using fft_dc_bin_product [of "\<lparr>AUDIO_BLOCKSIZE = 1, AUDIO_SAMPLE_RATE = 16000\<rparr>" "[1]"
        "\<lparr>H = arm_rfft_fast_f32 FFT_FLAG [1, 0], buffer = [0, 0], saved = replicate 64 0, S_fft = Some 2\<rparr>" "[1, 0]"]
    by (simp add: FFT_SIZE_def arm_fill_f32_def d)
qed

text \<open>C33. The FFT mode initialises exactly when FFT_SIZE = 2 AUDIO_BLOCKSIZE is a real-FFT length CMSIS supports (a power of two from 32 to 4096) that holds the 64-tap filter, so 64 to 4096; for any other size the transform of line 910 runs on the instance arm_rfft_fast_init_f32 rejected (its status is ignored), which is undefined behaviour. Every reachable state has the array sizes of the C globals and a usable instance, and a block call from it returns exactly when AUDIO_BLOCKSIZE is at least FILTER_SIZE: with AUDIO_BLOCKSIZE = 32 the mode initialises and then every block is undefined behaviour.\<close>

theorem fft_reachable_shapes:
  assumes "fft_reachable cfg s"
  shows "(example_fft_init cfg \<noteq> None \<longleftrightarrow> FFT_SIZE cfg \<in> {64, 128, 256, 512, 1024, 2048, 4096})
         \<and> fft_wf cfg s \<and> FFT_SIZE cfg \<in> {64, 128, 256, 512, 1024, 2048, 4096}
         \<and> (\<forall>mic wave. length wave = AUDIO_BLOCKSIZE cfg \<longrightarrow>
              (example_fft cfg s mic wave \<noteq> None \<longleftrightarrow> FILTER_SIZE \<le> AUDIO_BLOCKSIZE cfg))"
proof -
  have init: "example_fft_init cfg \<noteq> None \<longleftrightarrow> FFT_SIZE cfg \<in> {64, 128, 256, 512, 1024, 2048, 4096}"
    by (auto simp: example_fft_init_eq arm_rfft_fast_init_f32_def FILTER_SIZE_def)
  have wf: "fft_wf cfg s \<and> FILTER_SIZE \<le> FFT_SIZE cfg \<and> arm_rfft_fast_init_f32 (FFT_SIZE cfg) \<noteq> None"
    using assms by (rule fft_reachable_wf)
  then have "FFT_SIZE cfg \<in> {64, 128, 256, 512, 1024, 2048, 4096}"
    by (auto simp: arm_rfft_fast_init_f32_def FILTER_SIZE_def split: if_splits)
  then show ?thesis using init wf by (simp add: example_fft_eq Let_def)
qed

theorem fft_reachable_shapes_witness:
  "fft_reachable \<lparr>AUDIO_BLOCKSIZE = 64, AUDIO_SAMPLE_RATE = 16000\<rparr>
     \<lparr>H = arm_rfft_fast_f32 FFT_FLAG (lp_filter @ replicate 64 0), buffer = replicate 128 0, saved = replicate 64 0,
      S_fft = Some 128\<rparr>
   \<and> example_fft \<lparr>AUDIO_BLOCKSIZE = 64, AUDIO_SAMPLE_RATE = 16000\<rparr>
       \<lparr>H = arm_rfft_fast_f32 FFT_FLAG (lp_filter @ replicate 64 0), buffer = replicate 128 0, saved = replicate 64 0,
        S_fft = Some 128\<rparr>
       [] (replicate 64 0) \<noteq> None
   \<and> fft_reachable \<lparr>AUDIO_BLOCKSIZE = 32, AUDIO_SAMPLE_RATE = 16000\<rparr>
     \<lparr>H = arm_rfft_fast_f32 FFT_FLAG lp_filter, buffer = replicate 64 0, saved = replicate 64 0, S_fft = Some 64\<rparr>
   \<and> example_fft \<lparr>AUDIO_BLOCKSIZE = 32, AUDIO_SAMPLE_RATE = 16000\<rparr>
       \<lparr>H = arm_rfft_fast_f32 FFT_FLAG lp_filter, buffer = replicate 64 0, saved = replicate 64 0, S_fft = Some 64\<rparr>
       [] (replicate 32 0) = None
   \<and> example_fft_init \<lparr>AUDIO_BLOCKSIZE = 48, AUDIO_SAMPLE_RATE = 16000\<rparr> = None"
proof -
  let ?c1 = "\<lparr>AUDIO_BLOCKSIZE = 64, AUDIO_SAMPLE_RATE = 16000\<rparr> :: config"
  let ?s1 = "\<lparr>H = arm_rfft_fast_f32 FFT_FLAG (lp_filter @ replicate 64 0), buffer = replicate 128 0,
              saved = replicate 64 (0::real), S_fft = Some 128\<rparr>"
  let ?c2 = "\<lparr>AUDIO_BLOCKSIZE = 32, AUDIO_SAMPLE_RATE = 16000\<rparr> :: config"
  let ?s2 = "\<lparr>H = arm_rfft_fast_f32 FFT_FLAG lp_filter, buffer = replicate 64 0, saved = replicate 64 (0::real),
              S_fft = Some 64\<rparr>"
  have r1: "fft_reachable ?c1 ?s1"
    by (rule fft_reachable.init)
       (simp add: example_fft_init_eq FFT_SIZE_def FILTER_SIZE_def arm_fill_f32_def arm_rfft_fast_init_f32_def)
  have r2: "fft_reachable ?c2 ?s2"
    by (rule fft_reachable.init)
       (simp add: example_fft_init_eq FFT_SIZE_def FILTER_SIZE_def arm_fill_f32_def arm_rfft_fast_init_f32_def)
  have "example_fft ?c1 ?s1 [] (replicate 64 0) \<noteq> None \<longleftrightarrow> FILTER_SIZE \<le> 64"
    using conjunct2 [OF conjunct2 [OF conjunct2 [OF fft_reachable_shapes [OF r1]]], rule_format,
        where mic = "[]" and wave = "replicate 64 0"]
    by simp
  then have "example_fft ?c1 ?s1 [] (replicate 64 0) \<noteq> None"
    by (simp add: FILTER_SIZE_def)
  moreover have "example_fft ?c2 ?s2 [] (replicate 32 0) = None"
    using conjunct2 [OF conjunct2 [OF conjunct2 [OF fft_reachable_shapes [OF r2]]], rule_format,
        where mic = "[]" and wave = "replicate 32 0"]
    by (simp add: FILTER_SIZE_def del: not_None_eq)
  moreover have "example_fft_init \<lparr>AUDIO_BLOCKSIZE = 48, AUDIO_SAMPLE_RATE = 16000\<rparr> = None"
    by (simp add: example_fft_init_eq FFT_SIZE_def arm_rfft_fast_init_f32_def)
  ultimately show ?thesis using r1 r2 by simp
qed

end
