(* ===== verification/Modes.thy ===== *)
theory Modes
  imports Effects Qpsk Monitor Radar Spectral FftFilter
begin

text \<open>
  The program as the driver runs it. The mode is chosen at build time by
  \<open>SYSMODE\<close>: each \<open>#if SYSMODE == ...\<close> section of \<open>example.c\<close> supplies the
  init, block and button handlers of one mode, and the driver of the board
  support code (not in the sources) calls the init handler once, the block
  handler once per block period with the blocks of the sources, and the button
  handler from the button interrupt. \<open>mode_state\<close> holds the state of the
  mode that was built, and \<open>mode_block\<close> and \<open>mode_btnpress\<close> dispatch to its
  handlers. The blocks a mode's sinks play are returned, its printed lines
  are not.
\<close>

section \<open>Modes, inputs and dispatch\<close>

datatype sysmode =
  SYSMODE_TEST1 | SYSMODE_TEST2 | SYSMODE_TEST3 | SYSMODE_TEST4 | SYSMODE_MONITOR
| SYSMODE_RADAR | SYSMODE_RADAR2 | SYSMODE_FFT

datatype mode_state =
  Mode_test1 | Mode_test2 test2_state | Mode_test3 test3_state | Mode_test4 qpsk_state
| Mode_monitor monitor_state | Mode_radar radar_state | Mode_radar2 radar2_state | Mode_fft fft_state

fun mode_of :: "mode_state \<Rightarrow> sysmode" where
  "mode_of Mode_test1 = SYSMODE_TEST1"
| "mode_of (Mode_test2 s) = SYSMODE_TEST2"
| "mode_of (Mode_test3 s) = SYSMODE_TEST3"
| "mode_of (Mode_test4 s) = SYSMODE_TEST4"
| "mode_of (Mode_monitor s) = SYSMODE_MONITOR"
| "mode_of (Mode_radar s) = SYSMODE_RADAR"
| "mode_of (Mode_radar2 s) = SYSMODE_RADAR2"
| "mode_of (Mode_fft s) = SYSMODE_FFT"

text \<open>
  What the drivers deliver in one block period: the blocks of
  \<open>blocks_sources_microphone\<close>, \<open>blocks_sources_waveform\<close> and
  \<open>blocks_sources_sin\<close>, the character of \<open>board_get_usart_char\<close>, the clock
  readings of the handler, and the uninitialised half of TEST3's FFT buffer.
\<close>

record block_inputs =
  in_mic :: block
  in_wave :: block
  in_sin :: block
  in_key :: "char option"
  in_t0 :: nat
  in_t1 :: nat
  in_t2 :: nat
  in_junk :: "real list"

definition inputs_ok :: "config \<Rightarrow> block_inputs \<Rightarrow> bool" where
  "inputs_ok cfg io \<longleftrightarrow>
     length (in_mic io) = AUDIO_BLOCKSIZE cfg \<and> length (in_wave io) = AUDIO_BLOCKSIZE cfg
     \<and> length (in_sin io) = AUDIO_BLOCKSIZE cfg \<and> length (in_junk io) = AUDIO_BLOCKSIZE cfg"

text \<open>The blocks the two sinks play after a block period's writes, if both were written.\<close>

definition sinks_played :: "sink_write list \<Rightarrow> (block \<times> block) option" where
  "sinks_played ws =
     (case (sink_output Left ws, sink_output Right ws) of
        (Some l, Some r) \<Rightarrow> Some (l, r)
      | _ \<Rightarrow> None)"

text \<open>The init handler of the mode that was built; \<open>now\<close> is the clock at start-up.\<close>

fun mode_init :: "radar_config \<Rightarrow> config \<Rightarrow> nat \<Rightarrow> sysmode \<Rightarrow> mode_state option" where
  "mode_init rc cfg now SYSMODE_TEST1 = Some Mode_test1"
| "mode_init rc cfg now SYSMODE_TEST2 = Some (Mode_test2 example_test2_init)"
| "mode_init rc cfg now SYSMODE_TEST3 = Some (Mode_test3 (example_test3_init cfg now))"
| "mode_init rc cfg now SYSMODE_TEST4 = Some (Mode_test4 (example_test4_init cfg now))"
| "mode_init rc cfg now SYSMODE_MONITOR = Some (Mode_monitor example_monitor_init)"
| "mode_init rc cfg now SYSMODE_RADAR = map_option (\<lambda>(s, msgs). Mode_radar s) (example_radar_init rc cfg)"
| "mode_init rc cfg now SYSMODE_RADAR2 = map_option Mode_radar2 (example_radar2_init rc cfg)"
| "mode_init rc cfg now SYSMODE_FFT = map_option Mode_fft (example_fft_init cfg)"

fun mode_btnpress :: "mode_state \<Rightarrow> mode_state" where
  "mode_btnpress (Mode_test2 s) = Mode_test2 (fst (example_test2_btnpress s))"
| "mode_btnpress (Mode_test4 s) = Mode_test4 (fst (example_test4_btnpress s))"
| "mode_btnpress (Mode_monitor s) = Mode_monitor (fst (example_monitor_btnpress s))"
| "mode_btnpress ms = ms"

text \<open>
  One block period: the block handler of the mode, with the left and right
  blocks its sinks play. \<open>period_ms\<close> is TEST3's \<open>DEBUG_PRINT_PERIOD_ms\<close>.
\<close>

fun mode_block ::
  "radar_config \<Rightarrow> config \<Rightarrow> nat \<Rightarrow> mode_state \<Rightarrow> block_inputs \<Rightarrow> (mode_state \<times> block \<times> block) option" where
  "mode_block rc cfg period_ms Mode_test1 io =
     map_option (\<lambda>(l, r). (Mode_test1, l, r)) (sinks_played (example_test1 (in_mic io) (in_wave io)))"
| "mode_block rc cfg period_ms (Mode_test2 s) io =
     map_option (\<lambda>(s', l, r, msgs). (Mode_test2 s', l, r))
       (example_test2 cfg s (in_mic io) (in_wave io) (in_sin io) (in_key io))"
| "mode_block rc cfg period_ms (Mode_test3 s) io =
     (case example_test3 cfg period_ms s (in_mic io) (in_junk io) (in_t0 io) of
        (s', l, r, msgs) \<Rightarrow> Some (Mode_test3 s', l, r))"
| "mode_block rc cfg period_ms (Mode_test4 s) io =
     map_option (\<lambda>(s', l, r, msgs). (Mode_test4 s', l, r))
       (example_test4 cfg s (in_t0 io) (in_t1 io) (in_t2 io) (in_mic io))"
| "mode_block rc cfg period_ms (Mode_monitor s) io =
     (case example_monitor cfg s (in_mic io) (in_wave io) (in_key io) of
        (s', ws, msgs) \<Rightarrow> map_option (\<lambda>(l, r). (Mode_monitor s', l, r)) (sinks_played ws))"
| "mode_block rc cfg period_ms (Mode_radar s) io =
     map_option (\<lambda>(s', l, r, msgs). (Mode_radar s', l, r))
       (example_radar cfg s (in_mic io) (in_t0 io) (in_key io))"
| "mode_block rc cfg period_ms (Mode_radar2 s) io =
     map_option (\<lambda>(s', l, r, msgs). (Mode_radar2 s', l, r))
       (example_radar2 rc cfg s (in_mic io) (in_key io))"
| "mode_block rc cfg period_ms (Mode_fft s) io =
     map_option (\<lambda>(s', l, r). (Mode_fft s', l, r)) (example_fft cfg s (in_mic io) (in_wave io))"

text \<open>
  The conditions under which a mode builds: its static assertions and
  preprocessor tables, and the size relations of \<open>config.h\<close> that the radar
  modes rely on. The FFT mode has no static assertion.
\<close>

fun mode_builds :: "radar_config \<Rightarrow> config \<Rightarrow> sysmode \<Rightarrow> bool" where
  "mode_builds rc cfg SYSMODE_TEST2 = cfg_ok cfg"
| "mode_builds rc cfg SYSMODE_TEST3 = test3_build_ok cfg"
| "mode_builds rc cfg SYSMODE_TEST4 = test4_build_ok cfg"
| "mode_builds rc cfg SYSMODE_RADAR = radar_cfg_ok rc cfg"
| "mode_builds rc cfg SYSMODE_RADAR2 = radar2_cfg_ok rc cfg"
| "mode_builds rc cfg m = True"

text \<open>The states of the running program: start-up, then block periods and button presses in any order.\<close>

inductive mode_reachable :: "radar_config \<Rightarrow> config \<Rightarrow> nat \<Rightarrow> mode_state \<Rightarrow> bool"
  for rc cfg period_ms where
  init: "mode_init rc cfg now m = Some ms \<Longrightarrow> mode_reachable rc cfg period_ms ms"
| btnpress: "mode_reachable rc cfg period_ms ms \<Longrightarrow> mode_reachable rc cfg period_ms (mode_btnpress ms)"
| block: "mode_reachable rc cfg period_ms ms \<Longrightarrow> inputs_ok cfg io \<Longrightarrow>
          mode_block rc cfg period_ms ms io = Some (ms', l, r) \<Longrightarrow> mode_reachable rc cfg period_ms ms'"

text \<open>Each mode's own invariant, as the component theories state it.\<close>

fun mode_inv :: "radar_config \<Rightarrow> config \<Rightarrow> mode_state \<Rightarrow> bool" where
  "mode_inv rc cfg Mode_test1 = True"
| "mode_inv rc cfg (Mode_test2 s) = test2_reachable cfg s"
| "mode_inv rc cfg (Mode_test3 s) = (length (window s) = AUDIO_BLOCKSIZE cfg)"
| "mode_inv rc cfg (Mode_test4 s) = test4_reachable cfg s"
| "mode_inv rc cfg (Mode_monitor s) = monitor_reachable cfg s"
| "mode_inv rc cfg (Mode_radar s) = radar_reachable rc cfg s"
| "mode_inv rc cfg (Mode_radar2 s) = radar2_reachable rc cfg s"
| "mode_inv rc cfg (Mode_fft s) = fft_reachable cfg s"

text \<open>Silent input blocks and no key, the inputs of the concrete instances of the theorems.\<close>

definition silent_inputs :: "config \<Rightarrow> block_inputs" where
  "silent_inputs cfg =
     \<lparr>in_mic = replicate (AUDIO_BLOCKSIZE cfg) 0, in_wave = replicate (AUDIO_BLOCKSIZE cfg) 0,
      in_sin = replicate (AUDIO_BLOCKSIZE cfg) 0, in_key = None, in_t0 = 0, in_t1 = 0, in_t2 = 0,
      in_junk = replicate (AUDIO_BLOCKSIZE cfg) 0\<rparr>"

section \<open>Lemmas\<close>

lemma mode_init_mode: "mode_init rc cfg now m = Some ms \<Longrightarrow> mode_of ms = m"
  by (cases m) auto

lemma mode_btnpress_mode [simp]: "mode_of (mode_btnpress ms) = mode_of ms"
  by (cases ms) simp_all

lemma sinks_played_two [simp]: "sinks_played [Leftout l, Rightout r] = Some (l, r)"
  by (simp add: sinks_played_def sink_output_def)

lemma example_monitor_played:
  "example_monitor cfg s mic wave key = (s', ws, msgs) \<Longrightarrow>
   sinks_played ws = Some (arm_fill_f32 0 (AUDIO_BLOCKSIZE cfg), arm_fill_f32 0 (AUDIO_BLOCKSIZE cfg))"
  by (auto simp: example_monitor_def sinks_played_def sink_output_def Let_def split: prod.splits)

lemma mode_reachable_init_inv:
  "mode_init rc cfg now m = Some ms \<Longrightarrow> mode_inv rc cfg ms"
proof (cases m)
  case SYSMODE_TEST3
  moreover assume "mode_init rc cfg now m = Some ms"
  ultimately show ?thesis by (auto simp: example_test3_init_def windows_blackman_def)
qed (auto intro: test2_reachable.init test4_reachable.init monitor_reachable.init
       radar_reachable.init radar2_reachable.init fft_reachable.init)

lemma mode_block_inv:
  assumes "mode_inv rc cfg ms" "inputs_ok cfg io" "mode_block rc cfg p ms io = Some (ms', l, r)"
  shows "mode_inv rc cfg ms'"
proof (cases ms)
  case Mode_test1
  then show ?thesis using assms(3) by auto
next
  case (Mode_test2 s)
  then obtain s' msgs where "example_test2 cfg s (in_mic io) (in_wave io) (in_sin io) (in_key io) = Some (s', l, r, msgs)"
    "ms' = Mode_test2 s'"
    using assms(3) by auto
  then show ?thesis using assms(1) Mode_test2 by (auto intro: test2_reachable.block)
next
  case (Mode_test3 s)
  then obtain s' msgs where e: "example_test3 cfg p s (in_mic io) (in_junk io) (in_t0 io) = (s', l, r, msgs)"
    "ms' = Mode_test3 s'"
    using assms(3) by (auto split: prod.splits)
  then show ?thesis using assms(1,2) Mode_test3 example_test3_lengths [OF _ _ _ e(1)]
    by (simp add: inputs_ok_def)
next
  case (Mode_test4 s)
  then obtain s' msgs where "example_test4 cfg s (in_t0 io) (in_t1 io) (in_t2 io) (in_mic io) = Some (s', l, r, msgs)"
    "ms' = Mode_test4 s'"
    using assms(3) by auto
  then show ?thesis using assms(1) Mode_test4 by (auto intro: test4_reachable.block)
next
  case (Mode_monitor s)
  then obtain s' ws msgs where "example_monitor cfg s (in_mic io) (in_wave io) (in_key io) = (s', ws, msgs)"
    "ms' = Mode_monitor s'"
    using assms(3) by (auto split: prod.splits)
  then show ?thesis using assms(1) Mode_monitor monitor_reachable.block [of cfg s] by (metis fst_conv mode_inv.simps(5))
next
  case (Mode_radar s)
  then obtain s' msgs where "example_radar cfg s (in_mic io) (in_t0 io) (in_key io) = Some (s', l, r, msgs)"
    "ms' = Mode_radar s'"
    using assms(3) by auto
  then show ?thesis using assms(1) Mode_radar by (auto intro: radar_reachable.block)
next
  case (Mode_radar2 s)
  then obtain s' msgs where "example_radar2 rc cfg s (in_mic io) (in_key io) = Some (s', l, r, msgs)"
    "ms' = Mode_radar2 s'"
    using assms(3) by auto
  then show ?thesis using assms(1) Mode_radar2 by (auto intro: radar2_reachable.block)
next
  case (Mode_fft s)
  then obtain s' where "example_fft cfg s (in_mic io) (in_wave io) = Some (s', l, r)" "ms' = Mode_fft s'"
    using assms(3) by auto
  then show ?thesis using assms(1,2) Mode_fft by (auto simp: inputs_ok_def intro: fft_reachable.block)
qed

lemma mode_block_Some:
  assumes "mode_builds rc cfg (mode_of ms)" "mode_inv rc cfg ms" "inputs_ok cfg io"
  shows "mode_block rc cfg p ms io \<noteq> None
         \<longleftrightarrow> (mode_of ms = SYSMODE_FFT \<longrightarrow> FILTER_SIZE \<le> AUDIO_BLOCKSIZE cfg)"
proof (cases ms)
  case Mode_test1
  then show ?thesis by (simp add: example_test1_def)
next
  case (Mode_test2 s)
  then have "cfg_ok cfg" "test2_reachable cfg s" using assms(1,2) by simp_all
  then show ?thesis
    using Mode_test2 test2_step_inv [OF _ test2_reachable_inv, of cfg s "in_mic io" "in_wave io" "in_sin io" "in_key io"]
    by auto
next
  case (Mode_test3 s)
  then show ?thesis by (simp split: prod.splits)
next
  case (Mode_test4 s)
  then show ?thesis
    using assms(2) example_test4_eq [OF test4_reachable_inv, of cfg s cfg "in_t0 io" "in_t1 io" "in_t2 io" "in_mic io"]
    by auto
next
  case (Mode_monitor s)
  then show ?thesis by (auto simp: sinks_played_def sink_output_def example_monitor_def Let_def split: prod.splits)
next
  case (Mode_radar s)
  then have ok: "radar_cfg_ok rc cfg" and "radar_reachable rc cfg s" using assms(1,2) by simp_all
  then have inv: "radar_inv rc s" by (rule radar_reachable_inv)
  have "length (in_mic io) = AUDIO_BLOCKSIZE cfg" using assms(3) by (simp add: inputs_ok_def)
  then show ?thesis
    using Mode_radar example_radar_Some [OF ok inv, of "in_mic io" "in_t0 io" "in_key io"] by auto
next
  case (Mode_radar2 s)
  then have ok: "radar2_cfg_ok rc cfg" and "radar2_reachable rc cfg s" using assms(1,2) by simp_all
  then have inv: "radar2_inv rc s" by (rule radar2_reachable_inv)
  have "length (in_mic io) = AUDIO_BLOCKSIZE cfg" using assms(3) by (simp add: inputs_ok_def)
  then show ?thesis
    using Mode_radar2 example_radar2_Some [OF ok inv, of "in_mic io" "in_key io"] by auto
next
  case (Mode_fft s)
  then have wf: "fft_wf cfg s" using assms(2) fft_reachable_wf by simp
  then show ?thesis
    using Mode_fft assms(3) example_fft_eq [OF wf, of "in_wave io" "in_mic io"]
    by (auto simp: inputs_ok_def Let_def)
qed

lemma mode_block_lengths:
  assumes "mode_inv rc cfg ms" "inputs_ok cfg io" "mode_block rc cfg p ms io = Some (ms', l, r)"
  shows "mode_of ms' = mode_of ms \<and> length l = AUDIO_BLOCKSIZE cfg \<and> length r = AUDIO_BLOCKSIZE cfg"
proof (cases ms)
  case Mode_test1
  then show ?thesis using assms(2,3) by (auto simp: inputs_ok_def example_test1_def)
next
  case (Mode_test2 s)
  then obtain s' msgs where "example_test2 cfg s (in_mic io) (in_wave io) (in_sin io) (in_key io) = Some (s', l, r, msgs)"
    "ms' = Mode_test2 s'"
    using assms(3) by auto
  then show ?thesis using assms(2) Mode_test2 example_test2_lengths by (fastforce simp: inputs_ok_def)
next
  case (Mode_test3 s)
  then obtain s' msgs where e: "example_test3 cfg p s (in_mic io) (in_junk io) (in_t0 io) = (s', l, r, msgs)"
    "ms' = Mode_test3 s'"
    using assms(3) by (auto split: prod.splits)
  then show ?thesis using assms(1,2) Mode_test3 example_test3_lengths [OF _ _ _ e(1)]
    by (simp add: inputs_ok_def)
next
  case (Mode_test4 s)
  then obtain s' msgs where e: "example_test4 cfg s (in_t0 io) (in_t1 io) (in_t2 io) (in_mic io) = Some (s', l, r, msgs)"
    "ms' = Mode_test4 s'"
    using assms(3) by auto
  moreover have "length (cos_ref s) = AUDIO_BLOCKSIZE cfg \<and> length (sin_ref s) = AUDIO_BLOCKSIZE cfg"
    using assms(1) Mode_test4 test4_reachable_refs by simp
  ultimately show ?thesis using example_test4_refs [OF e(1)] Mode_test4 by simp
next
  case (Mode_monitor s)
  then obtain s' ws msgs where "example_monitor cfg s (in_mic io) (in_wave io) (in_key io) = (s', ws, msgs)"
    "ms' = Mode_monitor s'" "sinks_played ws = Some (l, r)"
    using assms(3) by (auto split: prod.splits)
  then show ?thesis using example_monitor_played Mode_monitor by (auto simp: arm_fill_f32_def)
next
  case (Mode_radar s)
  then obtain s' msgs where e: "example_radar cfg s (in_mic io) (in_t0 io) (in_key io) = Some (s', l, r, msgs)"
    "ms' = Mode_radar s'"
    using assms(3) by auto
  then show ?thesis using assms(1) Mode_radar radar_reachable_buffers example_radar_buffers [OF e(1)] by auto
next
  case (Mode_radar2 s)
  then obtain s' msgs where e: "example_radar2 rc cfg s (in_mic io) (in_key io) = Some (s', l, r, msgs)"
    "ms' = Mode_radar2 s'"
    using assms(3) by auto
  then show ?thesis using assms(1) Mode_radar2 radar2_reachable_buffers example_radar2_buffers [OF e(1)] by auto
next
  case (Mode_fft s)
  then obtain s' where e: "example_fft cfg s (in_mic io) (in_wave io) = Some (s', l, r)" "ms' = Mode_fft s'"
    using assms(3) by auto
  have "fft_wf cfg s" using assms(1) Mode_fft fft_reachable_wf by simp
  then show ?thesis using assms(2) e Mode_fft example_fft_lengths [of cfg s "in_wave io" "in_mic io" s' l r]
    by (simp add: inputs_ok_def)
qed

lemma mode_btnpress_inv: "mode_inv rc cfg ms \<Longrightarrow> mode_inv rc cfg (mode_btnpress ms)"
  by (cases ms) (auto intro: test2_reachable.btnpress test4_reachable.btnpress monitor_reachable.btnpress)

lemma mode_reachable_mode_inv: "mode_reachable rc cfg p ms \<Longrightarrow> mode_inv rc cfg ms"
proof (induction rule: mode_reachable.induct)
  case (init now m ms)
  then show ?case by (rule mode_reachable_init_inv)
next
  case (btnpress ms)
  then show ?case by (simp add: mode_btnpress_inv)
next
  case (block ms io ms' l r)
  then show ?case using mode_block_inv by blast
qed

end
