(* ===== verification/Spec2Isabelle.thy ===== *)
theory Spec2Isabelle
  imports Effects Qpsk Monitor Radar Spectral FftFilter Modes
begin

text \<open>
  \<^bold>\<open>Verification development of \<open>src/asp_proj_ofdm_stud/src/example.c\<close>.\<close>

  \<^medskip>
  \<^bold>\<open>The program.\<close> \<open>example.c\<close> is the processing core of a block-synchronous
  audio demonstrator. A driver (not in the sources) calls one block handler per
  block period, a button interrupt calls a button handler, and a serial port
  delivers key characters. The mode is fixed at compile time by \<open>SYSMODE\<close>, and
  each mode has its own init, block and button handlers:
  \<^item> \<open>SYSMODE_TEST1\<close> (lines 16--34): pass-through of the two input blocks;
  \<^item> \<open>SYSMODE_TEST2\<close> (lines 40--231): an effects processor (none, flanger, ring
    modulator, bit-crusher) with key-selected effect and depth;
  \<^item> \<open>SYSMODE_TEST3\<close> (lines 234--359): a spectral shift through the complex FFT
    with a peak report;
  \<^item> \<open>SYSMODE_TEST4\<close> (lines 361--584): a QPSK modem that sends a fixed message
    on a button press and decodes microphone blocks while a receive window is
    open;
  \<^item> \<open>SYSMODE_MONITOR\<close> (lines 586--664): a serial monitor with a clamped counter;
  \<^item> \<open>SYSMODE_RADAR\<close> and \<open>SYSMODE_RADAR2\<close> (lines 666--822): a chirp sonar that
    correlates the microphone with the transmitted chirp and reports the range,
    once per measurement or averaged over a window;
  \<^item> \<open>SYSMODE_FFT\<close> (lines 824--934): an FFT overlap-add low-pass filter.

  \<^medskip>
  \<^bold>\<open>Theories.\<close>
  \<^item> \<open>Prelude\<close>: samples as \<^typ>\<open>real\<close>, blocks as lists, the \<open>config.h\<close>
    record \<^typ>\<open>config\<close> (block size, sample rate), bounds-checked array loads
    and stores, and list and sum lemmas shared by the components.
  \<^item> \<open>Numerics\<close>: the library functions the handlers call but whose code is not in
    the sources (CMSIS-DSP vector operations and \<open>arm_fir_f32\<close>, C \<open>round\<close>,
    \<open>vector_mean\<close>, the tone generators, the \<open>systime\<close> timer services). Each is
    written from its documented contract, and the C rounding lemmas live here.
  \<^item> \<open>Dft\<close>: the discrete Fourier transform and its scaled inverse, with the
    inversion theorem (from the orthogonality of the roots of unity), the
    transform of a constant and the conjugate symmetry of a real signal's
    spectrum. The CMSIS FFTs are specified by it.
  \<^item> \<open>Effects\<close>: the \<open>SYSMODE_TEST2\<close> mode. The globals of lines 44--83 are the
    record \<^typ>\<open>test2_state\<close>. \<open>example_test2_init\<close> and \<open>example_test2_btnpress\<close>
    model the functions of the same name. \<open>test2_key\<close> is the key switch of
    lines 118--154. \<open>flanger_block\<close>, \<open>ringmod_block\<close> and \<open>bitcrush_block\<close> are
    the three cases of the effect switch, and \<open>flanger_sweep\<close> and
    \<open>ring_mod_sweep\<close> are their parameter updates. \<open>example_test2\<close> is the whole
    block handler, and the lines it prints are values of \<^typ>\<open>test2_msg\<close>.
  \<^item> \<open>Qpsk\<close>: the \<open>SYSMODE_TEST4\<close> mode. The globals and the static locals of
    \<open>example_test4\<close> are the record \<^typ>\<open>qpsk_state\<close>. The block handler is
    \<open>example_test4\<close>, the composition of \<open>test4_fetch\<close> (its \<open>ATOMIC\<close>
    read-and-clear, line 419) and \<open>test4_rest\<close> (lines 420--577). The transmit
    synthesis is \<open>qpsk_tx_block\<close> and the detector loop of lines 503--556 is
    \<open>qpsk_detect\<close>. \<open>test4_build_ok\<close> is the static assertion of line 412.
  \<^item> \<open>Monitor\<close>: the output sinks as a list of writes in program order
    (\<open>sink_output\<close> is the block a channel plays), \<open>example_test1\<close>, and the
    monitor's counter, key switch (\<open>monitor_key\<close>) and block handler
    (\<open>example_monitor\<close>).
  \<^item> \<open>Radar\<close>: both radar modes. The sizes of \<open>config.h\<close> are the record
    \<open>radar_config\<close>. \<open>radar_chirp\<close> and \<open>radar_fill_buffer\<close> are the
    initialisation loops of \<open>example_radar_init\<close>, \<open>radar_correlate\<close> and
    \<open>radar_peak_scan\<close> the correlation and its scan, \<open>radar_measure\<close> the
    measurement branch, and \<open>example_radar\<close> and \<open>example_radar2\<close> the two block
    handlers with their globals as the records \<open>radar_state\<close> and \<open>radar2_state\<close>.
  \<^item> \<open>Spectral\<close>: the \<open>SYSMODE_TEST3\<close> mode. The interleave, shift, in-place
    mirror and real-part loops are \<open>test3_interleave\<close>, \<open>test3_shift\<close>,
    \<open>test3_mirror\<close> and \<open>test3_real_part\<close>. \<open>test3_peak\<close> is the peak report,
    and \<open>example_test3\<close> the whole handler. \<open>test3_cfft_instance\<close> is the
    preprocessor table of FFT lengths (lines 249--269), and \<open>test3_build_ok\<close> adds
    the static assertions of lines 283--284.
  \<^item> \<open>FftFilter\<close>: the \<open>SYSMODE_FFT\<close> mode. \<open>arm_rfft_fast_f32\<close> has its packed
    output layout (\<open>rfft_pack\<close>), and \<open>arm_rfft_fast_init_f32\<close> accepts the
    CMSIS lengths 32 to 4096 only, leaving the instance \<open>S_fft\<close> unusable
    otherwise. \<open>example_fft_init\<close> computes the filter
    spectrum \<open>H\<close>, \<open>fft_filter_spectrum\<close> is lines 920--923, \<open>fft_overlap_add\<close>
    the loop of lines 925--929, and \<open>example_fft\<close> the handler. \<open>fft_wf\<close>
    states the array sizes of the globals, and \<open>fft_reachable\<close> gives the states
    reachable from initialisation.
  \<^item> \<open>Modes\<close>: the program as the driver runs it. \<open>sysmode\<close> names the values
    of \<open>SYSMODE\<close>, and \<open>mode_state\<close> holds the state of the mode that was built.
    \<open>mode_init\<close>, \<open>mode_block\<close> and \<open>mode_btnpress\<close> dispatch to that mode's
    handlers. \<open>block_inputs\<close> holds what the drivers deliver in one block period,
    and \<open>sinks_played\<close> gives the blocks the sinks play. \<open>mode_builds\<close> is the
    mode's build conditions, and \<open>mode_reachable\<close> the states of the running
    program. The driver is outside the sources, so these are modelled from the
    spec. Each component's own invariant is \<open>mode_inv\<close>.

  \<^medskip>
  \<^bold>\<open>Modelling choices.\<close>
  \<^item> A handler call is a function from the state and the inputs of the call
    (the delivered blocks, the key read, the clock readings) to the new state,
    the output blocks and the printed lines.
  \<^item> Undefined behaviour of C is the value \<^const>\<open>None\<close>:
    \<^item> an out-of-bounds store or load;
    \<^item> a shift \<open>1 << n\<close> outside \<open>0..30\<close>;
    \<^item> signed 32-bit overflow of the radar's \<open>int\<close> accumulators (\<open>c_int\<close>);
    \<^item> a read of the uninitialised candidate block of the QPSK detector;
    \<^item> a real FFT through an instance that \<open>arm_rfft_fast_init_f32\<close> rejected.

    A theorem that a handler returns \<^const>\<open>Some\<close> therefore rules these out.
  \<^item> Interleaving with the button interrupt is modelled by inductive
    reachability predicates (\<open>test2_reachable\<close>, \<open>test4_reachable\<close>,
    \<open>monitor_reachable\<close>, \<open>radar_reachable\<close>, \<open>radar2_reachable\<close>), whose steps
    are button presses and block calls in any order. In TEST4 the split at the
    atomic section lets a press fall inside a block call.
  \<^item> \<open>systime_get_delay_passed\<close> reads the clock each time it is called, so a
    TEST4 block call takes three clock readings \<open>t0 t1 t2\<close> (lines 422, 487 and
    488). Nothing relates them, so every scheduling is covered.
  \<^item> Two writes to one sink in a block period: the later one is played.
  \<^item> TEST3 transforms a half-initialised local array. Its uninitialised upper
    half is an argument of the handler, and the theorems hold for every value
    of it.
  \<^item> The FFTs are the exact DFT in natural order: the complex FFT on
    interleaved floats, and the real FFT with the CMSIS packing (DC and Nyquist
    in floats 0 and 1, then bins \<open>1..N/2-1\<close>). Exact arithmetic makes values
    equal that single precision computes along different paths. No theorem
    rests on such an equality, so none depends on how rounding breaks a tie.
  \<^item> Sample arithmetic is on reals: single-precision rounding of the vector
    operations is not modelled, while C's \<open>round\<close> (halfway away from zero) is
    modelled exactly.
  \<^item> No loop needs fuel. Every loop of the modelled handlers has a bound fixed
    on entry (the message, detector, filter and buffer loops, the vector
    operations), so each is a total \<^const>\<open>map\<close> or \<^const>\<open>fold\<close>. The sweeps
    are single steps, iterated with \<^const>\<open>compow\<close> in the theorems.
  \<^item> Compile-time checks are predicates on the configuration. A
    \<open>BUILD_BUG_ON\<close> (its macro is in \<open>util.h\<close>, outside the sources) stops the
    build when its condition holds, and an \<open>#if\<close> table ending in \<open>#error\<close>
    becomes an option value.

  \<^medskip>
  \<^bold>\<open>What is proved.\<close>
  \<^item> Effects:
    \<^item> absence of undefined behaviour from every reachable state;
    \<^item> the reachable bounds on depth, tap index and carrier;
    \<^item> the two-tap shape of the flanger coefficients and the output of the
      flanger;
    \<^item> the period of the flanger sweep and its refinement of a counter modulo
      \<open>2 * (FLANGER_TAPS - 2)\<close>;
    \<^item> that the ring-modulator carrier leaves its nominal band by up to one step;
    \<^item> the error bound of the bit-crusher, and its three output levels at
      depth 1;
    \<^item> saturation of the depth keys and the invalid-key path.
  \<^item> Qpsk:
    \<^item> absence of undefined behaviour from every reachable state;
    \<^item> that a press makes the next \<open>QPSK_MSG_LEN\<close> calls send the message;
    \<^item> that the detector returns the first maximum of its score, never
      \<open>QPSK_SYM_NUM\<close>;
    \<^item> the decoding of a looped-back block under a separation condition on the
      reference blocks;
    \<^item> that a press restarts a running transmission;
    \<^item> that the receiver flag is never cleared when both tests read the same
      clock, while the window still closes once its deadline has passed;
    \<^item> that a press inside the non-atomic part commutes with the handler;
    \<^item> silence when idle;
    \<^item> that the receiver candidates equal the transmit blocks;
    \<^item> that under the static assertion of line 412 the per-block reference
      carriers join into a continuous carrier.
  \<^item> Monitor: the counter stays in \<open>[MIN_COUNT, MAX_COUNT]\<close>, and both channels
    play silence whatever the input.
  \<^item> Radar:
    \<^item> the out-of-bounds initialisation when the buffer does not fit;
    \<^item> that a measurement is reported on the third block after transmission;
    \<^item> that the peak scan returns the first maximum;
    \<^item> that the reported peak of an echo lies at or before the echo's lag, with
      the chirp's energy;
    \<^item> the windowed average of the second variant, and its counter bounds
      that keep the \<open>int\<close> sums from overflowing.
  \<^item> Spectral:
    \<^item> that the mirror loop never reads the uninitialised half;
    \<^item> that the \<open>i <= 2K\<close> shift silences a constant block at \<open>K = 0\<close>;
    \<^item> the block sizes for which the mode builds (powers of two from 32 to
      4096; the table also accepts 16, but the static assertion rejects it).
  \<^item> FftFilter:
    \<^item> the closed form of the overlap-add loop, and its out-of-bounds read when
      the block is shorter than the filter;
    \<^item> that the packed complex product mixes the DC and Nyquist bins;
    \<^item> that the mode initialises exactly for FFT sizes 64 to 4096 that are
      powers of two (any other size runs a transform on a rejected instance);
    \<^item> the array sizes and the usable instance of every reachable state, and
      that a block call returns exactly when the block is at least as long as
      the filter.

  \<^item> The running program (this theory): for every mode that builds, every
    state reached by start-up, block periods and button presses satisfies
    its mode's invariant. The next block call returns exactly unless the mode
    is FFT with blocks shorter than its filter. It stays in its mode and gives
    both sinks full blocks. An FFT configuration whose size CMSIS rejects has
    no reachable state: its start-up is already undefined behaviour.

  \<^medskip>
  \<^bold>\<open>Not modelled.\<close>
  \<^item> The drivers (sources, timer, serial port) and the board support code are
    external I/O outside the sources. Their blocks, characters and clock
    readings are the inputs of the modelled handlers. The sinks are modelled
    only by their contract (the last write of a block period is played).
  \<^item> \<open>config.h\<close>, which fixes the block size, the sample rate, the radar sizes
    and the print periods, is not in the sources. These values are parameters
    (the records \<^typ>\<open>config\<close> and \<open>radar_config\<close>), and each theorem states
    the relations between them that it needs.
  \<^item> Floating-point rounding of the library's vector operations, and
    \<open>printf\<close>'s formatting of the printed values, whose messages are kept as
    data.
  \<^item> The CMSIS-DSP functions and the \<open>util.h\<close> macros (\<open>BUILD_BUG_ON\<close>,
    \<open>IS_INTEGER\<close>) have no code in the sources. They are modelled from their
    contracts, so the numerics library and the drivers remain partly modelled.
    Of \<open>example.c\<close> itself, the only lines outside the definitions' line
    ranges are the includes, the preprocessor guards of the modes, blank lines,
    comments and closing braces, and the empty body of \<open>example_test1_init\<close>.
    Three more lines are modelled but fall outside those ranges. The define
    of \<open>TEST3_FFT_LEN\<close> is the \<open>let\<close> of \<open>test3_cfft_instance\<close>, and the
    globals \<open>window\<close> and \<open>print_delay\<close> are fields of \<open>test3_state\<close>.
\<close>

section \<open>The running program\<close>

text \<open>C19. For every mode that builds, from every state the running program reaches (start-up, then block periods with input blocks of AUDIO_BLOCKSIZE samples and button presses in any order), the next block call returns, exactly except in the FFT mode with blocks shorter than its 64-tap filter, and then it stays in its mode and gives both sinks a block of AUDIO_BLOCKSIZE samples. An FFT configuration whose FFT_SIZE arm_rfft_fast_init_f32 rejects has no reachable state, since its initialisation already transforms through the rejected instance.\<close>

theorem program_blocks_full:
  assumes "mode_reachable rc cfg p ms" "mode_builds rc cfg (mode_of ms)" "inputs_ok cfg io"
  shows "(mode_block rc cfg p ms io \<noteq> None
          \<longleftrightarrow> (mode_of ms = SYSMODE_FFT \<longrightarrow> FILTER_SIZE \<le> AUDIO_BLOCKSIZE cfg))
         \<and> (\<forall>ms' l r. mode_block rc cfg p ms io = Some (ms', l, r)
              \<longrightarrow> mode_of ms' = mode_of ms \<and> length l = AUDIO_BLOCKSIZE cfg \<and> length r = AUDIO_BLOCKSIZE cfg)"
proof -
  have inv: "mode_inv rc cfg ms" using assms(1) by (rule mode_reachable_mode_inv)
  show ?thesis
    using mode_block_Some [OF assms(2) inv assms(3)] mode_block_lengths [OF inv assms(3)] by blast
qed

theorem program_blocks_full_witness:
  "mode_reachable radar_cfg_example cfg_example 1000 (Mode_test2 example_test2_init)
   \<and> mode_block radar_cfg_example cfg_example 1000 (Mode_test2 example_test2_init) (silent_inputs cfg_example) \<noteq> None
   \<and> mode_reachable radar_cfg_example \<lparr>AUDIO_BLOCKSIZE = 32, AUDIO_SAMPLE_RATE = 16000\<rparr> 1000
       (Mode_fft \<lparr>H = arm_rfft_fast_f32 FFT_FLAG lp_filter, buffer = replicate 64 0, saved = replicate 64 0, S_fft = Some 64\<rparr>)
   \<and> mode_block radar_cfg_example \<lparr>AUDIO_BLOCKSIZE = 32, AUDIO_SAMPLE_RATE = 16000\<rparr> 1000
       (Mode_fft \<lparr>H = arm_rfft_fast_f32 FFT_FLAG lp_filter, buffer = replicate 64 0, saved = replicate 64 0, S_fft = Some 64\<rparr>)
       (silent_inputs \<lparr>AUDIO_BLOCKSIZE = 32, AUDIO_SAMPLE_RATE = 16000\<rparr>) = None"
proof -
  let ?c = "\<lparr>AUDIO_BLOCKSIZE = 32, AUDIO_SAMPLE_RATE = 16000\<rparr> :: config"
  let ?f = "Mode_fft \<lparr>H = arm_rfft_fast_f32 FFT_FLAG lp_filter, buffer = replicate 64 0, saved = replicate 64 (0::real), S_fft = Some 64\<rparr>"
  have r1: "mode_reachable radar_cfg_example cfg_example 1000 (Mode_test2 example_test2_init)"
    by (rule mode_reachable.init [where now = 0 and m = SYSMODE_TEST2]) simp
  have i1: "inputs_ok cfg_example (silent_inputs cfg_example)"
    by (simp add: inputs_ok_def silent_inputs_def)
  have "mode_block radar_cfg_example cfg_example 1000 (Mode_test2 example_test2_init) (silent_inputs cfg_example) \<noteq> None
        \<longleftrightarrow> (SYSMODE_TEST2 = SYSMODE_FFT \<longrightarrow> FILTER_SIZE \<le> AUDIO_BLOCKSIZE cfg_example)"
    using conjunct1 [OF program_blocks_full [OF r1 _ i1]] cfg_example_ok by simp
  then have b1: "mode_block radar_cfg_example cfg_example 1000 (Mode_test2 example_test2_init) (silent_inputs cfg_example) \<noteq> None"
    by simp
  have r2: "mode_reachable radar_cfg_example ?c 1000 ?f"
    by (rule mode_reachable.init [where now = 0 and m = SYSMODE_FFT])
       (simp add: example_fft_init_eq FFT_SIZE_def FILTER_SIZE_def arm_fill_f32_def arm_rfft_fast_init_f32_def)
  have i2: "inputs_ok ?c (silent_inputs ?c)" by (simp add: inputs_ok_def silent_inputs_def)
  have "mode_block radar_cfg_example ?c 1000 ?f (silent_inputs ?c) \<noteq> None
        \<longleftrightarrow> (SYSMODE_FFT = SYSMODE_FFT \<longrightarrow> FILTER_SIZE \<le> AUDIO_BLOCKSIZE ?c)"
    using conjunct1 [OF program_blocks_full [OF r2 _ i2]] by simp
  then have b2: "mode_block radar_cfg_example ?c 1000 ?f (silent_inputs ?c) = None"
    by (simp add: FILTER_SIZE_def del: not_None_eq)
  show ?thesis using r1 b1 r2 b2 by blast
qed

end
